theory Spec2Isabelle
  imports Complex_Main
begin

section \<open>Conventions of the embedding\<close>

text \<open>
  The collector is TypeScript running on Bun with an SQLite store.  The embedding uses
  \<^item> \<^typ>\<open>int\<close> for the integer counters (requests, tokens: INTEGER columns), which are
    taken to stay below \<open>2^53\<close>, where JavaScript computes with them exactly, and
    \<^typ>\<open>real\<close> for the cost columns (REAL), whose sums and products are idealised as
    exact.  Where the source turns a quotient or a product into an integer (the
    attenuation of the success and failure counts, the interpolation of the Reconciler,
    the percentage of a status), the operations are those of IEEE 754 doubles,
    \<open>double\<close> below;
  \<^item> association lists in insertion order for JavaScript objects and \<open>Map\<close>s
    (\<open>obj[k]\<close> is \<^const>\<open>map_of\<close>, an assignment is \<open>obj_set\<close>);
  \<^item> explicit state passing for the store: a record with one list per table, rows in
    insertion (rowid) order;
  \<^item> the columns \<open>collected_at\<close> and \<open>created_at\<close> as the texts SQLite stores
    (\<open>DEFAULT CURRENT_TIMESTAMP\<close>, second resolution, UTC), compared and ordered as
    texts; a JavaScript \<open>Date\<close> as its milliseconds since the epoch (\<^typ>\<open>int\<close>),
    turned into text by \<open>toISOString\<close> and read from text by \<open>parseDate\<close>;
  \<^item> the clock as a parameter: \<open>now\<close> is the system time in milliseconds at which a
    call runs, and all statements of one call see the same second.
\<close>

section \<open>Data model (types.ts)\<close>

record ModelPricing =
  pr_input :: real
  pr_output :: real

type_synonym PricingMap = "(string \<times> ModelPricing) list"

record TokenUsage =
  tu_input_tokens :: int
  tu_output_tokens :: int

record ModelDetail =
  md_tokens :: "TokenUsage option"

record ModelData =
  mdata_total_requests :: int
  mdata_total_tokens :: int
  mdata_details :: "ModelDetail list"

type_synonym ApiData = "(string \<times> ModelData) list"

record UsageData =
  ud_total_requests :: int
  ud_success_count :: int
  ud_failure_count :: int
  ud_total_tokens :: int
  ud_apis :: "(string \<times> ApiData) list"

record UsageSnapshot =
  us_id :: int
  us_collected_at :: string
  us_total_requests :: int
  us_success_count :: int
  us_failure_count :: int
  us_total_tokens :: int
  us_cumulative_cost_usd :: real

record ModelUsage =
  mu_snapshot_id :: int
  mu_model_name :: string
  mu_estimated_cost_usd :: real
  mu_request_count :: int
  mu_input_tokens :: int
  mu_output_tokens :: int
  mu_total_tokens :: int
  mu_api_endpoint :: string
  mu_created_at :: string

record ModelBreakdown =
  mb_requests :: int
  mb_tokens :: int
  mb_cost :: real
  mb_input_tokens :: int
  mb_output_tokens :: int

record EndpointModel =
  em_requests :: int
  em_tokens :: int
  em_cost :: real

record EndpointBreakdown =
  eb_requests :: int
  eb_tokens :: int
  eb_cost :: real
  eb_models :: "(string \<times> EndpointModel) list"

record DailyStatsBreakdown =
  bd_models :: "(string \<times> ModelBreakdown) list"
  bd_endpoints :: "(string \<times> EndpointBreakdown) list"

record DailyStats =
  ds_stat_date :: string
  ds_total_requests :: int
  ds_success_count :: int
  ds_failure_count :: int
  ds_total_tokens :: int
  ds_estimated_cost_usd :: real
  ds_breakdown :: DailyStatsBreakdown

datatype Date = Date int | InvalidDate

record RateLimitConfig =
  rc_id :: int
  rc_model_pattern :: string
  rc_window_minutes :: int
  rc_reset_strategy :: string
  rc_token_limit :: "int option"
  rc_request_limit :: "int option"
  rc_reset_anchor_timestamp :: "Date option"

record RateLimitStatus =
  rs_config_id :: int
  rs_remaining_tokens :: int
  rs_remaining_requests :: int
  rs_used_tokens :: int
  rs_used_requests :: int
  rs_percentage :: int
  rs_status_label :: string
  rs_window_start :: int
  rs_last_updated :: int
  rs_next_reset :: "int option"

record UsageCalculation =
  uc_total_tokens :: int
  uc_request_count :: int

type_synonym SnapshotMap = "(string \<times> UsageCalculation) list"

section \<open>JavaScript objects, maps and strings\<close>

text \<open>\<open>obj[k] = v\<close> and \<open>Map.set\<close>: an existing key keeps its position, a new key is appended.\<close>

fun obj_set :: "(string \<times> 'a) list \<Rightarrow> string \<Rightarrow> 'a \<Rightarrow> (string \<times> 'a) list" where
  "obj_set [] k v = [(k, v)]"
| "obj_set ((k', v') # rest) k v =
     (if k' = k then (k, v) # rest else (k', v') # obj_set rest k v)"

text \<open>\<open>new Set([...xs])\<close>: the elements in order of first occurrence.\<close>

definition js_set :: "'a list \<Rightarrow> 'a list" where
  "js_set xs = foldl (\<lambda>acc x. if x \<in> set acc then acc else acc @ [x]) [] xs"

text \<open>\<open>String.prototype.toLowerCase\<close> on ASCII letters.\<close>

definition lower_char :: "char \<Rightarrow> char" where
  "lower_char c =
     (let n = (of_char c :: int) in if 65 \<le> n \<and> n \<le> 90 then char_of (n + 32) else c)"

definition toLowerCase :: "string \<Rightarrow> string" where
  "toLowerCase s = map lower_char s"

text \<open>\<open>s.includes(t)\<close>: \<open>t\<close> occurs in \<open>s\<close> as a contiguous substring.\<close>

primrec str_includes :: "string \<Rightarrow> string \<Rightarrow> bool" where
  "str_includes [] t = (t = [])"
| "str_includes (c # s) t = (take (length t) (c # s) = t \<or> str_includes s t)"

text \<open>The first two segments of \<open>key.split("|")\<close>, as the destructuring
  \<open>const [modelName, endpoint] = key.split("|")\<close> (collector.ts, line 283) reads them.\<close>

definition splitKey :: "string \<Rightarrow> string \<times> string" where
  "splitKey key =
     (takeWhile (\<lambda>c. c \<noteq> CHR ''|'') key,
      takeWhile (\<lambda>c. c \<noteq> CHR ''|'') (drop 1 (dropWhile (\<lambda>c. c \<noteq> CHR ''|'') key)))"

text \<open>Decimal rendering of a number inside a template literal.  JavaScript prints an
  integer below \<open>10^21\<close> with all its digits, so at most 21 digits are produced.\<close>

primrec showDigits :: "nat \<Rightarrow> int \<Rightarrow> string" where
  "showDigits 0 n = []"
| "showDigits (Suc fuel) n =
     (if n < 10 then [char_of (48 + n)]
      else showDigits fuel (n div 10) @ [char_of (48 + n mod 10)])"

definition showInt :: "int \<Rightarrow> string" where
  "showInt i = (if i < 0 then ''-'' @ showDigits 21 (- i) else showDigits 21 i)"

section \<open>Texts of the store, dates and doubles (SQLite and JavaScript built-ins)\<close>

subsection \<open>Comparison and order of TEXT values\<close>

text \<open>SQLite compares two TEXT values with the BINARY collation: byte by byte, and a
  proper prefix sorts first.\<close>

fun str_less :: "string \<Rightarrow> string \<Rightarrow> bool" where
  "str_less [] [] = False"
| "str_less [] (c # t) = True"
| "str_less (c # s) [] = False"
| "str_less (a # s) (b # t) = ((of_char a :: int) < of_char b \<or> (a = b \<and> str_less s t))"

text \<open>\<open>ORDER BY key DESC\<close> over rows given in rowid order: rows with equal keys keep their
  rowid order.  SQL leaves the order of such rows open; this is the order SQLite returns
  them in, from its sorter as from a scan of an index on the key.\<close>

primrec insertDesc :: "('a \<Rightarrow> string) \<Rightarrow> 'a \<Rightarrow> 'a list \<Rightarrow> 'a list" where
  "insertDesc key x [] = [x]"
| "insertDesc key x (y # ys) =
     (if str_less (key y) (key x) then x # y # ys else y # insertDesc key x ys)"

definition orderByDesc :: "('a \<Rightarrow> string) \<Rightarrow> 'a list \<Rightarrow> 'a list" where
  "orderByDesc key rows = foldl (\<lambda>sorted x. insertDesc key x sorted) [] rows"

subsection \<open>Calendar dates\<close>

text \<open>The proleptic Gregorian date (year, month, day) of a day number counted from
  1 January 1970, and the day number of a date.\<close>

definition civilFromDays :: "int \<Rightarrow> int \<times> int \<times> int" where
  "civilFromDays days =
     (let z = days + 719468;
          era = z div 146097;
          doe = z mod 146097;
          yoe = (doe - doe div 1460 + doe div 36524 - doe div 146096) div 365;
          doy = doe - (365 * yoe + yoe div 4 - yoe div 100);
          mp = (5 * doy + 2) div 153;
          d = doy - (153 * mp + 2) div 5 + 1;
          m = (if mp < 10 then mp + 3 else mp - 9)
      in (yoe + era * 400 + (if m \<le> 2 then 1 else 0), m, d))"

definition daysFromCivil :: "int \<Rightarrow> int \<Rightarrow> int \<Rightarrow> int" where
  "daysFromCivil y m d =
     (let y1 = (if m \<le> 2 then y - 1 else y);
          era = y1 div 400;
          yoe = y1 mod 400;
          doy = (153 * (if 2 < m then m - 3 else m + 9) + 2) div 5 + d - 1;
          doe = yoe * 365 + yoe div 4 - yoe div 100 + doy
      in era * 146097 + doe - 719468)"

text \<open>A non-negative number in at least \<open>n\<close> decimal digits.\<close>

definition pad :: "nat \<Rightarrow> int \<Rightarrow> string" where
  "pad n i = (let s = showDigits 21 i in replicate (n - length s) (CHR ''0'') @ s)"

definition dateText :: "int \<Rightarrow> string" where
  "dateText days =
     (case civilFromDays days of
        (y, m, d) \<Rightarrow>
          (if 0 \<le> y \<and> y \<le> 9999 then pad 4 y
           else (if y < 0 then ''-'' else ''+'') @ pad 6 \<bar>y\<bar>)
          @ ''-'' @ pad 2 m @ ''-'' @ pad 2 d)"

definition timeText :: "int \<Rightarrow> string" where
  "timeText secondOfDay =
     pad 2 (secondOfDay div 3600) @ '':'' @ pad 2 (secondOfDay mod 3600 div 60) @ '':''
       @ pad 2 (secondOfDay mod 60)"

text \<open>SQLite's \<open>CURRENT_TIMESTAMP\<close> when the clock shows \<open>now\<close> milliseconds: the UTC time
  as \<open>YYYY-MM-DD HH:MM:SS\<close>.\<close>

definition CURRENT_TIMESTAMP :: "int \<Rightarrow> string" where
  "CURRENT_TIMESTAMP now =
     (let secs = now div 1000
      in dateText (secs div 86400) @ '' '' @ timeText (secs mod 86400))"

text \<open>\<open>Date.prototype.toISOString\<close>: \<open>YYYY-MM-DDTHH:MM:SS.sssZ\<close> (a year outside 0..9999
  is printed with a sign and six digits).\<close>

definition toISOString :: "int \<Rightarrow> string" where
  "toISOString t =
     (let secs = t div 1000
      in dateText (secs div 86400) @ ''T'' @ timeText (secs mod 86400) @ ''.''
           @ pad 3 (t mod 1000) @ ''Z'')"

text \<open>\<open>new Date(text)\<close> for the two formats that reach it: the ISO format above, and
  \<open>YYYY-MM-DD HH:MM:SS\<close>, which JavaScript reads as a local time; the process runs with
  UTC as its time zone (see the window computation below), so it is read as UTC.  Any
  other text is taken to give an invalid date.\<close>

definition numberOf :: "string \<Rightarrow> int option" where
  "numberOf s =
     (if s \<noteq> [] \<and> list_all (\<lambda>c. 48 \<le> (of_char c :: int) \<and> (of_char c :: int) \<le> 57) s
      then Some (foldl (\<lambda>acc c. acc * 10 + (of_char c - 48)) 0 s)
      else None)"

definition parseDate :: "string \<Rightarrow> Date" where
  "parseDate s =
     (let iso = (length s = 24);
          shape = ((length s = 19 \<and> take 1 (drop 10 s) = '' '') \<or>
                   (iso \<and> take 1 (drop 10 s) = ''T'' \<and> take 1 (drop 19 s) = ''.'' \<and>
                    drop 23 s = ''Z'')) \<and>
                  take 1 (drop 4 s) = ''-'' \<and> take 1 (drop 7 s) = ''-'' \<and>
                  take 1 (drop 13 s) = '':'' \<and> take 1 (drop 16 s) = '':''
      in if shape then
           (case (numberOf (take 4 s), numberOf (take 2 (drop 5 s)),
                  numberOf (take 2 (drop 8 s)), numberOf (take 2 (drop 11 s)),
                  numberOf (take 2 (drop 14 s)), numberOf (take 2 (drop 17 s)),
                  if iso then numberOf (take 3 (drop 20 s)) else Some 0) of
              (Some y, Some m, Some d, Some h, Some mi, Some se, Some ms) \<Rightarrow>
                (if 1 \<le> m \<and> m \<le> 12 \<and> 1 \<le> d \<and> d \<le> 31 \<and> h \<le> 23 \<and> mi \<le> 59 \<and> se \<le> 59
                 then Date ((((daysFromCivil y m d * 24 + h) * 60 + mi) * 60 + se) * 1000 + ms)
                 else InvalidDate)
            | _ \<Rightarrow> InvalidDate)
         else InvalidDate)"

subsection \<open>Doubles\<close>

text \<open>A JavaScript number is an IEEE 754 double, and every arithmetic operation returns
  the double nearest to the exact result, a tie going to the even significand.
  \<open>double x\<close> is that rounding of the exact value \<open>x\<close>: with \<open>e\<close> the binary exponent of
  \<open>x\<close>, at least \<open>-1022\<close>, the result is the multiple of \<open>2^(e - 52)\<close> nearest to \<open>x\<close>.
  Magnitudes of \<open>2^1024\<close> and more (which give \<open>Infinity\<close>) are outside the model.\<close>

definition roundEven :: "real \<Rightarrow> int" where
  "roundEven x =
     (let f = \<lfloor>x\<rfloor>; r = x - of_int f
      in if r < 1 / 2 then f else if 1 / 2 < r then f + 1 else if even f then f else f + 1)"

primrec expoUp :: "nat \<Rightarrow> real \<Rightarrow> int" where
  "expoUp 0 x = 0"
| "expoUp (Suc fuel) x = (if x < 2 then 0 else 1 + expoUp fuel (x / 2))"

primrec expoDown :: "nat \<Rightarrow> real \<Rightarrow> int" where
  "expoDown 0 x = 0"
| "expoDown (Suc fuel) x = (if 1 \<le> x then 0 else expoDown fuel (x * 2) - 1)"

definition exponent :: "real \<Rightarrow> int" where
  "exponent x = (if 1 \<le> x then expoUp 1024 x else expoDown 1075 x)"

definition pow2 :: "int \<Rightarrow> real" where
  "pow2 e = (if 0 \<le> e then 2 ^ nat e else 1 / 2 ^ nat (- e))"

definition double :: "real \<Rightarrow> real" where
  "double x =
     (if x = 0 then 0
      else (let q = max (exponent \<bar>x\<bar>) (- 1022) - 52
            in sgn x * real_of_int (roundEven (\<bar>x\<bar> / pow2 q)) * pow2 q))"

section \<open>Pricing (pricing.ts)\<close>

text \<open>The partial-match loop of \<open>findPricingForModel\<close> (lines 121--127).\<close>

fun partialMatch :: "string \<Rightarrow> PricingMap \<Rightarrow> ModelPricing option" where
  "partialMatch modelLower [] = None"
| "partialMatch modelLower ((pattern, prices) # rest) =
     (if pattern = ''_default'' then partialMatch modelLower rest
      else if str_includes pattern modelLower \<or> str_includes modelLower pattern then Some prices
      else partialMatch modelLower rest)"

definition findPricingForModel :: "string \<Rightarrow> PricingMap \<Rightarrow> ModelPricing \<times> bool" where
  "findPricingForModel modelName pricing =
     (let modelLower = toLowerCase modelName in
      case map_of pricing modelLower of
        Some p \<Rightarrow> (p, True)
      | None \<Rightarrow>
          (case partialMatch modelLower pricing of
             Some p \<Rightarrow> (p, True)
           | None \<Rightarrow>
               ((case map_of pricing ''_default'' of
                   Some p \<Rightarrow> p
                 | None \<Rightarrow> \<lparr>pr_input = 15 / 100, pr_output = 6 / 10\<rparr>), False)))"

definition calculateCost :: "int \<Rightarrow> int \<Rightarrow> ModelPricing \<Rightarrow> real" where
  "calculateCost inputTokens outputTokens pricing =
     (real_of_int inputTokens / 1000000) * pr_input pricing +
     (real_of_int outputTokens / 1000000) * pr_output pricing"

section \<open>The store (db.ts)\<close>

record db =
  usage_snapshots :: "UsageSnapshot list"
  model_usage :: "ModelUsage list"
  daily_stats :: "(string \<times> DailyStats) list"
  rate_limit_configs :: "RateLimitConfig list"
  rate_limit_status :: "RateLimitStatus list"

text \<open>\<open>insertUsageSnapshot\<close>: the row gets the next AUTOINCREMENT id, which is returned, and
  \<open>collected_at\<close>, which the statement does not supply, defaults to \<open>CURRENT_TIMESTAMP\<close>.\<close>

definition insertUsageSnapshot :: "db \<Rightarrow> int \<Rightarrow> UsageSnapshot \<Rightarrow> int \<times> db" where
  "insertUsageSnapshot d now snapshot =
     (let newId = int (length (usage_snapshots d)) + 1 in
      (newId,
       d\<lparr>usage_snapshots :=
           usage_snapshots d @
           [snapshot\<lparr>us_id := newId, us_collected_at := CURRENT_TIMESTAMP now\<rparr>]\<rparr>))"

definition updateSnapshotCost :: "db \<Rightarrow> int \<Rightarrow> real \<Rightarrow> db" where
  "updateSnapshotCost d i c =
     d\<lparr>usage_snapshots :=
         map (\<lambda>s. if us_id s = i then s\<lparr>us_cumulative_cost_usd := c\<rparr> else s) (usage_snapshots d)\<rparr>"

text \<open>\<open>getLatestSnapshots\<close>: \<open>SELECT * FROM usage_snapshots ORDER BY collected_at DESC
  LIMIT ?\<close>.  Snapshots collected within the same second have equal \<open>collected_at\<close>.\<close>

definition getLatestSnapshots :: "db \<Rightarrow> nat \<Rightarrow> UsageSnapshot list" where
  "getLatestSnapshots d n = take n (orderByDesc us_collected_at (usage_snapshots d))"

text \<open>\<open>insertModelUsageBulk\<close>: \<open>created_at\<close>, which the statement does not supply, defaults
  to \<open>CURRENT_TIMESTAMP\<close>.\<close>

definition insertModelUsageBulk :: "db \<Rightarrow> int \<Rightarrow> ModelUsage list \<Rightarrow> db" where
  "insertModelUsageBulk d now usages =
     d\<lparr>model_usage :=
         model_usage d @ map (\<lambda>u. u\<lparr>mu_created_at := CURRENT_TIMESTAMP now\<rparr>) usages\<rparr>"

definition getModelUsageBySnapshot :: "db \<Rightarrow> int \<Rightarrow> ModelUsage list" where
  "getModelUsageBySnapshot d snapshotId =
     filter (\<lambda>r. mu_snapshot_id r = snapshotId) (model_usage d)"

definition getDailyStats :: "db \<Rightarrow> string \<Rightarrow> DailyStats option" where
  "getDailyStats d date = map_of (daily_stats d) date"

definition upsertDailyStats :: "db \<Rightarrow> DailyStats \<Rightarrow> db" where
  "upsertDailyStats d stats = d\<lparr>daily_stats := obj_set (daily_stats d) (ds_stat_date stats) stats\<rparr>"

section \<open>The Delta Engine (collector.ts)\<close>

subsection \<open>Coarse delta (calculateDailyDelta, lines 173--205)\<close>

record Inc =
  incRequests :: int
  incSuccess :: int
  incFailure :: int
  incTokens :: int
  incCost :: real

definition coarseDelta ::
  "UsageSnapshot option \<Rightarrow> int \<Rightarrow> int \<Rightarrow> int \<Rightarrow> int \<Rightarrow> real \<Rightarrow> real \<Rightarrow> Inc" where
  "coarseDelta prevSnap currentRequests currentSuccess currentFailure currentTokens
       cumulativeCost totalCost =
     (let current = \<lparr>incRequests = currentRequests, incSuccess = currentSuccess,
                      incFailure = currentFailure, incTokens = currentTokens,
                      incCost = totalCost\<rparr>
      in case prevSnap of
        Some p \<Rightarrow>
          (let inc = \<lparr>incRequests = currentRequests - us_total_requests p,
                      incSuccess = currentSuccess - us_success_count p,
                      incFailure = currentFailure - us_failure_count p,
                      incTokens = currentTokens - us_total_tokens p,
                      incCost = cumulativeCost - us_cumulative_cost_usd p\<rparr>
           in if incRequests inc < 0 \<or> incTokens inc < 0 then current else inc)
      | None \<Rightarrow> current)"

subsection \<open>Granular delta (lines 213--327)\<close>

text \<open>The key \<open>`${r.model_name}|${ep}`\<close> with \<open>ep = r.api_endpoint || "unknown"\<close>.\<close>

definition usageKey :: "ModelUsage \<Rightarrow> string" where
  "usageKey r =
     mu_model_name r @ ''|'' @ (if mu_api_endpoint r = [] then ''unknown'' else mu_api_endpoint r)"

definition buildUsageMap :: "ModelUsage list \<Rightarrow> (string \<times> ModelUsage) list" where
  "buildUsageMap records = foldl (\<lambda>m r. obj_set m (usageKey r) r) [] records"

record KeyDelta =
  dReq :: int
  dTok :: int
  dCost :: real
  dIn :: int
  dOut :: int

text \<open>The current-snapshot tuple of a key (lines 246--250) and its delta after the
  per-key restart corrector (lines 252--265); an absent record reads as zeros.\<close>

definition currentTuple :: "ModelUsage option \<Rightarrow> KeyDelta" where
  "currentTuple cur =
     (case cur of
        None \<Rightarrow> \<lparr>dReq = 0, dTok = 0, dCost = 0, dIn = 0, dOut = 0\<rparr>
      | Some r \<Rightarrow> \<lparr>dReq = mu_request_count r, dTok = mu_total_tokens r,
                    dCost = mu_estimated_cost_usd r, dIn = mu_input_tokens r,
                    dOut = mu_output_tokens r\<rparr>)"

definition keyDelta :: "ModelUsage option \<Rightarrow> ModelUsage option \<Rightarrow> KeyDelta" where
  "keyDelta prv cur =
     (let p = currentTuple prv; c = currentTuple cur;
          d = \<lparr>dReq = dReq c - dReq p, dTok = dTok c - dTok p, dCost = dCost c - dCost p,
               dIn = dIn c - dIn p, dOut = dOut c - dOut p\<rparr>
      in if dReq d < 0 \<or> dTok d < 0 then c else d)"

definition FALSE_START_COST_THRESHOLD :: real where
  "FALSE_START_COST_THRESHOLD = 10"

definition falseStart :: "KeyDelta \<Rightarrow> real \<Rightarrow> bool" where
  "falseStart d cCost =
     (dCost d > FALSE_START_COST_THRESHOLD \<and> \<bar>dCost d - cCost\<bar> < 1 / 10)"

text \<open>Folding one tuple into the breakdown (lines 285--325, and again lines 339--376).\<close>

definition addToBreakdown ::
  "DailyStatsBreakdown \<Rightarrow> string \<Rightarrow> string \<Rightarrow> KeyDelta \<Rightarrow> DailyStatsBreakdown" where
  "addToBreakdown b modelName endpoint d =
     (let m0 = (case map_of (bd_models b) modelName of
                  Some m \<Rightarrow> m
                | None \<Rightarrow> \<lparr>mb_requests = 0, mb_tokens = 0, mb_cost = 0,
                            mb_input_tokens = 0, mb_output_tokens = 0\<rparr>);
          m1 = \<lparr>mb_requests = mb_requests m0 + dReq d, mb_tokens = mb_tokens m0 + dTok d,
                mb_cost = mb_cost m0 + dCost d,
                mb_input_tokens = mb_input_tokens m0 + dIn d,
                mb_output_tokens = mb_output_tokens m0 + dOut d\<rparr>;
          e0 = (case map_of (bd_endpoints b) endpoint of
                  Some e \<Rightarrow> e
                | None \<Rightarrow> \<lparr>eb_requests = 0, eb_tokens = 0, eb_cost = 0, eb_models = []\<rparr>);
          n0 = (case map_of (eb_models e0) modelName of
                  Some n \<Rightarrow> n
                | None \<Rightarrow> \<lparr>em_requests = 0, em_tokens = 0, em_cost = 0\<rparr>);
          n1 = \<lparr>em_requests = em_requests n0 + dReq d, em_tokens = em_tokens n0 + dTok d,
                em_cost = em_cost n0 + dCost d\<rparr>;
          e1 = \<lparr>eb_requests = eb_requests e0 + dReq d, eb_tokens = eb_tokens e0 + dTok d,
                eb_cost = eb_cost e0 + dCost d,
                eb_models = obj_set (eb_models e0) modelName n1\<rparr>
      in \<lparr>bd_models = obj_set (bd_models b) modelName m1,
          bd_endpoints = obj_set (bd_endpoints b) endpoint e1\<rparr>)"

text \<open>One iteration of \<open>for (const key of allKeys)\<close> (lines 236--327).\<close>

definition granularStep ::
  "(string \<times> ModelUsage) list \<Rightarrow> (string \<times> ModelUsage) list \<Rightarrow>
   Inc \<times> DailyStatsBreakdown \<Rightarrow> string \<Rightarrow> Inc \<times> DailyStatsBreakdown" where
  "granularStep prevUsageMap currUsageMap st key =
     (let inc = fst st; b = snd st;
          prv = map_of prevUsageMap key; cur = map_of currUsageMap key;
          cCost = dCost (currentTuple cur);
          d = keyDelta prv cur
      in if falseStart d cCost then
           (inc\<lparr>incRequests := incRequests inc - dReq d,
                incTokens := incTokens inc - dTok d,
                incCost := incCost inc - dCost d\<rparr>, b)
         else if dReq d > 0 \<or> dCost d > 0 then
           (inc, addToBreakdown b (fst (splitKey key)) (snd (splitKey key)) d)
         else (inc, b))"

definition emptyBreakdown :: DailyStatsBreakdown where
  "emptyBreakdown = \<lparr>bd_models = [], bd_endpoints = []\<rparr>"

definition granularDeltas ::
  "ModelUsage list \<Rightarrow> ModelUsage list \<Rightarrow> Inc \<Rightarrow> Inc \<times> DailyStatsBreakdown" where
  "granularDeltas prevUsageRecords modelRecords inc =
     (let prevUsageMap = buildUsageMap prevUsageRecords;
          currUsageMap = buildUsageMap modelRecords;
          allKeys = js_set (map fst prevUsageMap @ map fst currUsageMap)
      in foldl (granularStep prevUsageMap currUsageMap) (inc, emptyBreakdown) allKeys)"

text \<open>First snapshot ever: the current records are the delta (lines 329--377).\<close>

definition firstSnapshotBreakdown :: "ModelUsage list \<Rightarrow> DailyStatsBreakdown" where
  "firstSnapshotBreakdown modelRecords =
     foldl (\<lambda>b r. addToBreakdown b (mu_model_name r)
                    (if mu_api_endpoint r = [] then ''unknown'' else mu_api_endpoint r)
                    (currentTuple (Some r)))
       emptyBreakdown modelRecords"

subsection \<open>Reconciling the global increments with the breakdown (lines 380--411)\<close>

definition sumCost :: "(string \<times> ModelBreakdown) list \<Rightarrow> real" where
  "sumCost ms = sum_list (map (\<lambda>kv. mb_cost (snd kv)) ms)"

definition sumTokens :: "(string \<times> ModelBreakdown) list \<Rightarrow> int" where
  "sumTokens ms = sum_list (map (\<lambda>kv. mb_tokens (snd kv)) ms)"

definition sumRequests :: "(string \<times> ModelBreakdown) list \<Rightarrow> int" where
  "sumRequests ms = sum_list (map (\<lambda>kv. mb_requests (snd kv)) ms)"

definition reconcileGlobal :: "bool \<Rightarrow> Inc \<Rightarrow> DailyStatsBreakdown \<Rightarrow> Inc" where
  "reconcileGlobal hasPrev inc breakdownDeltas =
     (let safeIncCost = sumCost (bd_models breakdownDeltas);
          safeIncTokens = sumTokens (bd_models breakdownDeltas);
          safeIncRequests = sumRequests (bd_models breakdownDeltas)
      in if hasPrev then
           (let ratio = double (real_of_int safeIncRequests / real_of_int (incRequests inc));
                scaled = (if incRequests inc > 0 \<and> ratio < double (99 / 100)
                          then inc\<lparr>incSuccess :=
                                     \<lfloor>double (real_of_int (incSuccess inc) * ratio)\<rfloor>,
                                   incFailure :=
                                     \<lfloor>double (real_of_int (incFailure inc) * ratio)\<rfloor>\<rparr>
                          else inc)
            in scaled\<lparr>incCost := safeIncCost, incTokens := safeIncTokens,
                       incRequests := safeIncRequests\<rparr>)
         else inc)"

subsection \<open>Daily merge (lines 413--504)\<close>

definition mergeModels ::
  "(string \<times> ModelBreakdown) list \<Rightarrow> (string \<times> ModelBreakdown) list \<Rightarrow>
   (string \<times> ModelBreakdown) list" where
  "mergeModels existingModels deltaModels =
     foldl (\<lambda>ms kv.
              (let m = fst kv; data = snd kv;
                   existing = (case map_of ms m of
                                 Some x \<Rightarrow> x
                               | None \<Rightarrow> \<lparr>mb_requests = 0, mb_tokens = 0, mb_cost = 0,
                                           mb_input_tokens = 0, mb_output_tokens = 0\<rparr>)
               in obj_set ms m
                    \<lparr>mb_requests = mb_requests existing + mb_requests data,
                     mb_tokens = mb_tokens existing + mb_tokens data,
                     mb_cost = mb_cost existing + mb_cost data,
                     mb_input_tokens = mb_input_tokens existing + mb_input_tokens data,
                     mb_output_tokens = mb_output_tokens existing + mb_output_tokens data\<rparr>))
       existingModels deltaModels"

definition mergeEndpointModels ::
  "(string \<times> EndpointModel) list \<Rightarrow> (string \<times> EndpointModel) list \<Rightarrow>
   (string \<times> EndpointModel) list" where
  "mergeEndpointModels existingModels deltaModels =
     foldl (\<lambda>ms kv.
              (let mName = fst kv; mData = snd kv;
                   existing = (case map_of ms mName of
                                 Some x \<Rightarrow> x
                               | None \<Rightarrow> \<lparr>em_requests = 0, em_tokens = 0, em_cost = 0\<rparr>)
               in obj_set ms mName
                    \<lparr>em_requests = em_requests existing + em_requests mData,
                     em_tokens = em_tokens existing + em_tokens mData,
                     em_cost = em_cost existing + em_cost mData\<rparr>))
       existingModels deltaModels"

definition mergeEndpoints ::
  "(string \<times> EndpointBreakdown) list \<Rightarrow> (string \<times> EndpointBreakdown) list \<Rightarrow>
   (string \<times> EndpointBreakdown) list" where
  "mergeEndpoints existingEndpoints deltaEndpoints =
     foldl (\<lambda>es kv.
              (let e = fst kv; data = snd kv;
                   existing = (case map_of es e of
                                 Some x \<Rightarrow> x
                               | None \<Rightarrow> \<lparr>eb_requests = 0, eb_tokens = 0, eb_cost = 0,
                                           eb_models = []\<rparr>)
               in obj_set es e
                    \<lparr>eb_requests = eb_requests existing + eb_requests data,
                     eb_tokens = eb_tokens existing + eb_tokens data,
                     eb_cost = eb_cost existing + eb_cost data,
                     eb_models = mergeEndpointModels (eb_models existing) (eb_models data)\<rparr>))
       existingEndpoints deltaEndpoints"

definition mergeDaily ::
  "string \<Rightarrow> DailyStats option \<Rightarrow> Inc \<Rightarrow> DailyStatsBreakdown \<Rightarrow> DailyStats" where
  "mergeDaily todayIso existingDaily inc breakdownDeltas =
     (let existingBreakdown = (case existingDaily of
                                 Some e \<Rightarrow> ds_breakdown e
                               | None \<Rightarrow> emptyBreakdown);
          merged = \<lparr>bd_models = mergeModels (bd_models existingBreakdown)
                                  (bd_models breakdownDeltas),
                    bd_endpoints = mergeEndpoints (bd_endpoints existingBreakdown)
                                     (bd_endpoints breakdownDeltas)\<rparr>;
          totalCostFromBreakdown = sumCost (bd_models merged);
          totalTokensFromBreakdown = sumTokens (bd_models merged);
          totalRequestsFromBreakdown = sumRequests (bd_models merged);
          finalCost = (if totalCostFromBreakdown > 0 then totalCostFromBreakdown
                       else (case existingDaily of Some e \<Rightarrow> ds_estimated_cost_usd e
                             | None \<Rightarrow> 0) + incCost inc);
          finalTokens = (if totalTokensFromBreakdown > 0 then totalTokensFromBreakdown
                         else (case existingDaily of Some e \<Rightarrow> ds_total_tokens e
                               | None \<Rightarrow> 0) + incTokens inc);
          finalRequests = (if totalRequestsFromBreakdown > 0 then totalRequestsFromBreakdown
                           else (case existingDaily of Some e \<Rightarrow> ds_total_requests e
                                 | None \<Rightarrow> 0) + incRequests inc)
      in \<lparr>ds_stat_date = todayIso,
          ds_total_requests = finalRequests,
          ds_success_count = (case existingDaily of Some e \<Rightarrow> ds_success_count e
                              | None \<Rightarrow> 0) + incSuccess inc,
          ds_failure_count = (case existingDaily of Some e \<Rightarrow> ds_failure_count e
                              | None \<Rightarrow> 0) + incFailure inc,
          ds_total_tokens = finalTokens,
          ds_estimated_cost_usd = finalCost,
          ds_breakdown = merged\<rparr>)"

subsection \<open>calculateDailyDelta and storeUsageData\<close>

text \<open>The pass on the values it reads from the store: the previous snapshot, its
  per-model rows and today's row.\<close>

definition dailyDelta ::
  "UsageSnapshot option \<Rightarrow> ModelUsage list \<Rightarrow> DailyStats option \<Rightarrow> string \<Rightarrow>
   int \<Rightarrow> int \<Rightarrow> int \<Rightarrow> int \<Rightarrow> real \<Rightarrow> real \<Rightarrow> ModelUsage list \<Rightarrow> DailyStats" where
  "dailyDelta prevSnap prevUsageRecords existingDaily todayIso
       currentRequests currentSuccess currentFailure currentTokens cumulativeCost totalCost
       modelRecords =
     (let inc0 = coarseDelta prevSnap currentRequests currentSuccess currentFailure
                   currentTokens cumulativeCost totalCost;
          gr = (case prevSnap of
                  Some p \<Rightarrow> granularDeltas prevUsageRecords modelRecords inc0
                | None \<Rightarrow> (inc0, firstSnapshotBreakdown modelRecords));
          inc = reconcileGlobal (prevSnap \<noteq> None) (fst gr) (snd gr)
      in mergeDaily todayIso existingDaily inc (snd gr))"

definition calculateDailyDelta ::
  "db \<Rightarrow> string \<Rightarrow> int \<Rightarrow> int \<Rightarrow> int \<Rightarrow> int \<Rightarrow> real \<Rightarrow> real \<Rightarrow> ModelUsage list \<Rightarrow> db" where
  "calculateDailyDelta d today currentRequests currentSuccess currentFailure currentTokens
       cumulativeCost totalCost modelRecords =
     (let latestSnapshots = getLatestSnapshots d 2;
          prevSnap = (if length latestSnapshots \<ge> 2 then Some (latestSnapshots ! 1) else None);
          prevUsageRecords = (case prevSnap of
                                Some p \<Rightarrow> getModelUsageBySnapshot d (us_id p)
                              | None \<Rightarrow> [])
      in upsertDailyStats d
           (dailyDelta prevSnap prevUsageRecords (getDailyStats d today) today
              currentRequests currentSuccess currentFailure currentTokens
              cumulativeCost totalCost modelRecords))"

text \<open>Cost tabulation of one \<open>(endpoint, model)\<close> entry of the report (lines 96--121).\<close>

definition detailInput :: "ModelDetail \<Rightarrow> int" where
  "detailInput dt = (case md_tokens dt of None \<Rightarrow> 0 | Some t \<Rightarrow> tu_input_tokens t)"

definition detailOutput :: "ModelDetail \<Rightarrow> int" where
  "detailOutput dt = (case md_tokens dt of None \<Rightarrow> 0 | Some t \<Rightarrow> tu_output_tokens t)"

definition modelRecord :: "PricingMap \<Rightarrow> int \<Rightarrow> string \<Rightarrow> string \<times> ModelData \<Rightarrow> ModelUsage" where
  "modelRecord pricing snapshotId apiEndpoint entry =
     (let modelName = fst entry; modelData = snd entry;
          inputTok = sum_list (map detailInput (mdata_details modelData));
          outputTok = sum_list (map detailOutput (mdata_details modelData));
          modelPrice = fst (findPricingForModel modelName pricing);
          cost = calculateCost inputTok outputTok modelPrice
      in \<lparr>mu_snapshot_id = snapshotId, mu_model_name = modelName,
          mu_estimated_cost_usd = cost,
          mu_request_count = mdata_total_requests modelData,
          mu_input_tokens = inputTok, mu_output_tokens = outputTok,
          mu_total_tokens = mdata_total_tokens modelData,
          mu_api_endpoint = apiEndpoint, mu_created_at = []\<rparr>)"

definition buildModelRecords ::
  "PricingMap \<Rightarrow> int \<Rightarrow> (string \<times> ApiData) list \<Rightarrow> ModelUsage list" where
  "buildModelRecords pricing snapshotId apis =
     concat (map (\<lambda>api. map (modelRecord pricing snapshotId (fst api)) (snd api)) apis)"

text \<open>\<open>storeUsageData\<close> for a pass that completes (no store exception): the result is
  the return value and the new store.  \<open>now\<close> is the clock in milliseconds, \<open>today\<close> the
  local date \<open>getLocalDate()\<close> returns.  The rows built from the report carry no
  \<open>collected_at\<close> or \<open>created_at\<close> (the empty text here); the store sets them.\<close>

definition storeUsageData ::
  "db \<Rightarrow> PricingMap \<Rightarrow> int \<Rightarrow> string \<Rightarrow> UsageData option \<Rightarrow> bool \<times> db" where
  "storeUsageData d pricing now today dataUsage =
     (case dataUsage of
        None \<Rightarrow> (False, d)
      | Some usage \<Rightarrow>
          (let currentRequests = ud_total_requests usage;
               currentSuccess = ud_success_count usage;
               currentFailure = ud_failure_count usage;
               currentTokens = ud_total_tokens usage;
               lastCostTotal = (case getLatestSnapshots d 1 of
                                  [] \<Rightarrow> 0
                                | s # _ \<Rightarrow> us_cumulative_cost_usd s);
               snapshotData = \<lparr>us_id = 0, us_collected_at = [],
                                us_total_requests = currentRequests,
                                us_success_count = currentSuccess,
                                us_failure_count = currentFailure,
                                us_total_tokens = currentTokens,
                                us_cumulative_cost_usd = lastCostTotal\<rparr>;
               ins = insertUsageSnapshot d now snapshotData;
               snapshotId = fst ins;
               modelRecords = buildModelRecords pricing snapshotId (ud_apis usage);
               totalCost = sum_list (map mu_estimated_cost_usd modelRecords);
               d2 = (if modelRecords \<noteq> [] then insertModelUsageBulk (snd ins) now modelRecords
                     else snd ins);
               cumulativeCost = lastCostTotal + totalCost;
               d3 = updateSnapshotCost d2 snapshotId cumulativeCost
           in (True, calculateDailyDelta d3 today currentRequests currentSuccess
                       currentFailure currentTokens cumulativeCost totalCost modelRecords)))"

text \<open>\<open>getLocalDate\<close> (lines 511--516): the date part of the ISO text of the clock plus
  the configured offset; and a pass of the collector on a report, which reads the clock
  for \<open>today\<close> as for the timestamps.\<close>

definition getLocalDate :: "int \<Rightarrow> int \<Rightarrow> string" where
  "getLocalDate now timezoneOffset =
     takeWhile (\<lambda>c. c \<noteq> CHR ''T'') (toISOString (now + timezoneOffset * 60 * 60 * 1000))"

definition collectorPass :: "db \<Rightarrow> PricingMap \<Rightarrow> int \<Rightarrow> int \<Rightarrow> UsageData \<Rightarrow> db" where
  "collectorPass d pricing now timezoneOffset usage =
     snd (storeUsageData d pricing now (getLocalDate now timezoneOffset) (Some usage))"

section \<open>The Rate-Limit Reconciler (rate-limiter.ts)\<close>

subsection \<open>Store queries and updates for rate limits (db.ts)\<close>

text \<open>SQLite's \<open>LIKE\<close>: \<open>%\<close> matches any sequence of characters, \<open>_\<close> any single character,
  other characters match case-insensitively on ASCII letters.\<close>

fun like :: "string \<Rightarrow> string \<Rightarrow> bool" where
  "like [] t = (t = [])"
| "like (p # ps) t =
     (if p = CHR ''%'' then
        (like ps t \<or> (case t of [] \<Rightarrow> False | c # cs \<Rightarrow> like (p # ps) cs))
      else
        (case t of
           [] \<Rightarrow> False
         | c # cs \<Rightarrow> (p = CHR ''_'' \<or> lower_char p = lower_char c) \<and> like ps cs))"

datatype SortOrder = ASC | DESC

text \<open>\<open>getModelUsageByPattern\<close>: the rows whose model name is \<open>LIKE %pattern%\<close>, with
  \<open>created_at >= sinceTime\<close> and \<open>created_at < beforeTime\<close> when these are given and not
  empty, ordered by \<open>created_at\<close>, cut to \<open>limit\<close> rows when a (non-zero) limit is given.
  The column holds the text \<open>YYYY-MM-DD HH:MM:SS\<close> and the two parameters are texts too
  (the callers pass \<open>since.toISOString()\<close>), so both comparisons are comparisons of
  texts.  Under \<open>ASC\<close> the rows come in the reverse of their \<open>DESC\<close> order, as SQLite
  returns them from the index on \<open>created_at\<close>; the callers use only the \<open>created_at\<close>
  of a first row, or sum over the rows.\<close>

definition getModelUsageByPattern ::
  "db \<Rightarrow> string \<Rightarrow> string option \<Rightarrow> string option \<Rightarrow> SortOrder \<Rightarrow> nat option \<Rightarrow>
   ModelUsage list" where
  "getModelUsageByPattern d pattern sinceTime beforeTime orderBy limit =
     (let rows = filter (\<lambda>r. like (''%'' @ pattern @ ''%'') (mu_model_name r) \<and>
                              (case sinceTime of
                                 None \<Rightarrow> True
                               | Some s \<Rightarrow> s = [] \<or> \<not> str_less (mu_created_at r) s) \<and>
                              (case beforeTime of
                                 None \<Rightarrow> True
                               | Some b \<Rightarrow> b = [] \<or> str_less (mu_created_at r) b))
                   (model_usage d);
          ordered = (case orderBy of
                       ASC \<Rightarrow> rev (orderByDesc mu_created_at rows)
                     | DESC \<Rightarrow> orderByDesc mu_created_at rows)
      in case limit of
           None \<Rightarrow> ordered
         | Some n \<Rightarrow> (if n = 0 then ordered else take n ordered))"

definition getAllRateLimitConfigs :: "db \<Rightarrow> RateLimitConfig list" where
  "getAllRateLimitConfigs d = rate_limit_configs d"

definition getRateLimitConfig :: "db \<Rightarrow> int \<Rightarrow> RateLimitConfig option" where
  "getRateLimitConfig d i = find (\<lambda>c. rc_id c = i) (rate_limit_configs d)"

definition upsertRateLimitStatus :: "db \<Rightarrow> RateLimitStatus \<Rightarrow> db" where
  "upsertRateLimitStatus d status =
     (if \<exists>s \<in> set (rate_limit_status d). rs_config_id s = rs_config_id status
      then d\<lparr>rate_limit_status :=
               map (\<lambda>s. if rs_config_id s = rs_config_id status then status else s)
                 (rate_limit_status d)\<rparr>
      else d\<lparr>rate_limit_status := rate_limit_status d @ [status]\<rparr>)"

definition getRateLimitStatus :: "db \<Rightarrow> int \<Rightarrow> RateLimitStatus option" where
  "getRateLimitStatus d i = find (\<lambda>s. rs_config_id s = i) (rate_limit_status d)"

definition updateRateLimitConfigAnchor :: "db \<Rightarrow> int \<Rightarrow> int \<Rightarrow> db" where
  "updateRateLimitConfigAnchor d configId timestamp =
     d\<lparr>rate_limit_configs :=
         map (\<lambda>c. if rc_id c = configId
                   then c\<lparr>rc_reset_anchor_timestamp := Some (Date timestamp)\<rparr> else c)
           (rate_limit_configs d)\<rparr>"

subsection \<open>Usage in a window (calculateUsage and its helpers)\<close>

definition GAP_THRESHOLD_SECONDS :: real where
  "GAP_THRESHOLD_SECONDS = 1800"

definition FALSE_START_TOKEN_THRESHOLD :: int where
  "FALSE_START_TOKEN_THRESHOLD = 100000"

definition zeroUsage :: UsageCalculation where
  "zeroUsage = \<lparr>uc_total_tokens = 0, uc_request_count = 0\<rparr>"

text \<open>\<open>buildSnapshotMap\<close> (lines 646--665): per model, the sums over the matching rows
  captured at \<open>snapshotTime\<close>.\<close>

definition buildSnapshotMap :: "db \<Rightarrow> string \<Rightarrow> string \<Rightarrow> SnapshotMap" where
  "buildSnapshotMap d modelPattern snapshotTime =
     foldl (\<lambda>snapshotMap rec.
              if mu_created_at rec \<noteq> snapshotTime then snapshotMap
              else
                (let mName = mu_model_name rec;
                     old = (case map_of snapshotMap mName of Some x \<Rightarrow> x | None \<Rightarrow> zeroUsage)
                 in obj_set snapshotMap mName
                      \<lparr>uc_total_tokens = uc_total_tokens old + mu_total_tokens rec,
                       uc_request_count = uc_request_count old + mu_request_count rec\<rparr>))
       [] (getModelUsageByPattern d modelPattern None None DESC None)"

text \<open>One entry of \<open>interpolateSnapshotMap\<close> (lines 679--697).  The product and the sum
  are operations on doubles; \<open>Math.round\<close> is \<^const>\<open>round\<close>, rounding halves up.\<close>

definition interpolateRecord :: "SnapshotMap \<Rightarrow> SnapshotMap \<Rightarrow> real \<Rightarrow> string \<Rightarrow> UsageCalculation" where
  "interpolateRecord baselineMap firstInnerMap ratio modelName =
     (let baselineRec = (case map_of baselineMap modelName of Some x \<Rightarrow> x | None \<Rightarrow> zeroUsage);
          innerRec = (case map_of firstInnerMap modelName of Some x \<Rightarrow> x | None \<Rightarrow> baselineRec);
          startTokens = uc_total_tokens baselineRec;
          endTokens = uc_total_tokens innerRec;
          startRequests = uc_request_count baselineRec;
          endRequests = uc_request_count innerRec;
          interpTokens =
            double (real_of_int startTokens
                    + double (ratio * real_of_int (endTokens - startTokens)));
          interpRequests =
            double (real_of_int startRequests
                    + double (ratio * real_of_int (endRequests - startRequests)))
      in \<lparr>uc_total_tokens = round interpTokens, uc_request_count = round interpRequests\<rparr>)"

definition interpolateSnapshotMap :: "SnapshotMap \<Rightarrow> SnapshotMap \<Rightarrow> real \<Rightarrow> SnapshotMap" where
  "interpolateSnapshotMap baselineMap firstInnerMap ratio =
     foldl (\<lambda>interpolated modelName.
              obj_set interpolated modelName
                (interpolateRecord baselineMap firstInnerMap ratio modelName))
       [] (js_set (map fst baselineMap @ map fst firstInnerMap))"

text \<open>One iteration of the loop of \<open>calculateDeltaFromSnapshots\<close> (lines 724--770) on the
  pair (totalUsedTokens, totalUsedRequests).\<close>

definition deltaStep :: "SnapshotMap \<Rightarrow> SnapshotMap \<Rightarrow> int \<times> int \<Rightarrow> string \<Rightarrow> int \<times> int" where
  "deltaStep currentMap baselineMap totals modelName =
     (let currentRec = (case map_of currentMap modelName of Some x \<Rightarrow> x | None \<Rightarrow> zeroUsage);
          baselineRec = (case map_of baselineMap modelName of Some x \<Rightarrow> x | None \<Rightarrow> zeroUsage);
          currentTokens = uc_total_tokens currentRec;
          currentReqs = uc_request_count currentRec;
          baselineTokens = uc_total_tokens baselineRec;
          baselineReqs = uc_request_count baselineRec;
          restart = (currentTokens - baselineTokens < 0 \<or> currentReqs - baselineReqs < 0);
          deltaTokens = (if restart then currentTokens else currentTokens - baselineTokens);
          deltaReqs = (if restart then currentReqs else currentReqs - baselineReqs);
          isNewModel = (map_of baselineMap modelName = None \<or>
                        (baselineTokens = 0 \<and> baselineReqs = 0))
      in if isNewModel \<and> deltaTokens > FALSE_START_TOKEN_THRESHOLD \<and>
            (baselineTokens = 0 \<or> \<bar>deltaTokens - currentTokens\<bar> < 100)
         then totals
         else (fst totals + max 0 deltaTokens, snd totals + max 0 deltaReqs))"

definition calculateDeltaFromSnapshots ::
  "db \<Rightarrow> string \<Rightarrow> string \<Rightarrow> string \<Rightarrow> SnapshotMap option \<Rightarrow> UsageCalculation" where
  "calculateDeltaFromSnapshots d modelPattern latestTime baselineTime baselineOverride =
     (let currentMap = buildSnapshotMap d modelPattern latestTime;
          baselineMap = (case baselineOverride of
                           Some m \<Rightarrow> m
                         | None \<Rightarrow> buildSnapshotMap d modelPattern baselineTime);
          allModels = js_set (map fst currentMap @ map fst baselineMap);
          totals = foldl (deltaStep currentMap baselineMap) (0, 0) allModels
      in \<lparr>uc_total_tokens = fst totals, uc_request_count = snd totals\<rparr>)"

text \<open>The three timestamps \<open>calculateUsage\<close> looks up (lines 514--563), as the texts of
  the column.  The queries for the first inner and the baseline row are given
  \<open>since.toISOString()\<close>; an absent row and an empty text both count as no timestamp in the
  tests \<open>!baselineTime\<close> and \<open>!firstInnerSnapshotTime\<close>.\<close>

definition latestTimeOf :: "db \<Rightarrow> string \<Rightarrow> string option" where
  "latestTimeOf d modelPattern =
     (case getModelUsageByPattern d modelPattern None None DESC (Some 1) of
        [] \<Rightarrow> None | r # _ \<Rightarrow> Some (mu_created_at r))"

definition firstInnerTimeOf :: "db \<Rightarrow> string \<Rightarrow> int \<Rightarrow> string option" where
  "firstInnerTimeOf d modelPattern since =
     (case getModelUsageByPattern d modelPattern (Some (toISOString since)) None ASC (Some 1) of
        [] \<Rightarrow> None
      | r # _ \<Rightarrow> (if mu_created_at r = [] then None else Some (mu_created_at r)))"

definition baselineTimeOf :: "db \<Rightarrow> string \<Rightarrow> int \<Rightarrow> string option" where
  "baselineTimeOf d modelPattern since =
     (case getModelUsageByPattern d modelPattern None (Some (toISOString since)) DESC (Some 1) of
        [] \<Rightarrow> None
      | r # _ \<Rightarrow> (if mu_created_at r = [] then None else Some (mu_created_at r)))"

text \<open>\<open>latestDt < since\<close> (line 531) compares the time values; it is false when
  \<open>latestDt\<close> is an invalid date.\<close>

definition dateBefore :: "Date \<Rightarrow> int \<Rightarrow> bool" where
  "dateBefore dt since = (case dt of Date t \<Rightarrow> t < since | InvalidDate \<Rightarrow> False)"

text \<open>\<open>gapSeconds\<close> (line 586), \<open>None\<close> standing for \<open>NaN\<close> when one of the dates is
  invalid, and the interpolation ratio of lines 599--601.\<close>

definition gapSecondsOf :: "Date \<Rightarrow> Date \<Rightarrow> real option" where
  "gapSecondsOf baselineDt firstInnerDt =
     (case baselineDt of
        Date b \<Rightarrow>
          (case firstInnerDt of
             Date f \<Rightarrow> Some (double (double (real_of_int f - real_of_int b) / 1000))
           | InvalidDate \<Rightarrow> None)
      | InvalidDate \<Rightarrow> None)"

definition gapRatio :: "int \<Rightarrow> Date \<Rightarrow> real \<Rightarrow> real" where
  "gapRatio since baselineDt gapSeconds =
     (case baselineDt of
        Date b \<Rightarrow>
          (let ratioSeconds = double (double (real_of_int since - real_of_int b) / 1000);
               windowSpan = (if gapSeconds > 0 then gapSeconds else 1)
           in max 0 (min 1 (double (ratioSeconds / windowSpan))))
      | InvalidDate \<Rightarrow> 0)"

definition calculateUsage :: "db \<Rightarrow> string \<Rightarrow> int \<Rightarrow> UsageCalculation" where
  "calculateUsage d modelPattern since =
     (case latestTimeOf d modelPattern of
        None \<Rightarrow> zeroUsage
      | Some latestTime \<Rightarrow>
          if dateBefore (parseDate latestTime) since then zeroUsage
          else
            (case baselineTimeOf d modelPattern since of
               None \<Rightarrow>
                 (case firstInnerTimeOf d modelPattern since of
                    None \<Rightarrow> zeroUsage
                  | Some firstInnerSnapshotTime \<Rightarrow>
                      calculateDeltaFromSnapshots d modelPattern latestTime
                        firstInnerSnapshotTime None)
             | Some baselineTime \<Rightarrow>
                 (case firstInnerTimeOf d modelPattern since of
                    Some firstInnerSnapshotTime \<Rightarrow>
                      (case gapSecondsOf (parseDate baselineTime)
                              (parseDate firstInnerSnapshotTime) of
                         Some gapSeconds \<Rightarrow>
                           if gapSeconds > GAP_THRESHOLD_SECONDS then
                             calculateDeltaFromSnapshots d modelPattern latestTime baselineTime
                               (Some (interpolateSnapshotMap
                                        (buildSnapshotMap d modelPattern baselineTime)
                                        (buildSnapshotMap d modelPattern firstInnerSnapshotTime)
                                        (gapRatio since (parseDate baselineTime) gapSeconds)))
                           else
                             calculateDeltaFromSnapshots d modelPattern latestTime baselineTime
                               None
                       | None \<Rightarrow>
                           calculateDeltaFromSnapshots d modelPattern latestTime baselineTime
                             None)
                  | None \<Rightarrow>
                      calculateDeltaFromSnapshots d modelPattern latestTime baselineTime None)))"

subsection \<open>Windows, anchors and the status write (processConfig, updateStatus)\<close>

text \<open>\<open>Date\<close> arithmetic on millisecond timestamps.  The local-time methods
  (\<open>setHours\<close>, \<open>getDay\<close>, \<open>setDate\<close>, \<open>setMinutes\<close>) are modelled for a process whose own time
  zone is UTC, which is what the offset arithmetic of \<open>getLocalDateTime\<close> presupposes:
  days have 86400000 ms and 1 January 1970 was a Thursday (\<open>getDay() = 4\<close>).\<close>

definition msPerMinute :: int where "msPerMinute = 60000"

definition msPerDay :: int where "msPerDay = 86400000"

definition getLocalDateTime :: "int \<Rightarrow> int \<Rightarrow> int" where
  "getLocalDateTime now timezoneOffset = now + timezoneOffset * 60 * 60 * 1000"

definition setHoursZero :: "int \<Rightarrow> int" where
  "setHoursZero t = t - t mod msPerDay"

definition getDay :: "int \<Rightarrow> int" where
  "getDay t = (t div msPerDay + 4) mod 7"

definition addDays :: "int \<Rightarrow> int \<Rightarrow> int" where
  "addDays t n = t + n * msPerDay"

definition addMinutes :: "int \<Rightarrow> int \<Rightarrow> int" where
  "addMinutes t n = t + n * msPerMinute"

text \<open>The natural window of a reset strategy (lines 430--460): the pair
  (calculatedWindowStart, nextReset), or \<open>None\<close> for an unsupported strategy.\<close>

definition naturalWindow :: "string \<Rightarrow> int \<Rightarrow> int \<Rightarrow> (int \<times> int) option" where
  "naturalWindow resetStrategy windowMinutes now =
     (if resetStrategy = ''daily'' then
        (let calculatedWindowStart = setHoursZero now
         in Some (calculatedWindowStart, addDays calculatedWindowStart 1))
      else if resetStrategy = ''weekly'' then
        (let startOfToday = setHoursZero now;
             daysSinceMonday = (if getDay startOfToday = 0 then 6 else getDay startOfToday - 1);
             calculatedWindowStart = addDays startOfToday (- daysSinceMonday)
         in Some (calculatedWindowStart, addDays calculatedWindowStart 7))
      else if resetStrategy = ''rolling'' then
        Some (addMinutes now (- windowMinutes), addMinutes now 1)
      else None)"

text \<open>The effective window start (lines 462--485): \<open>resetAnchorDt > calculatedWindowStart\<close>
  is false for an invalid date.\<close>

definition effectiveWindowStart :: "Date option \<Rightarrow> int \<Rightarrow> int" where
  "effectiveWindowStart resetAnchor calculatedWindowStart =
     (case resetAnchor of
        Some (Date resetAnchorDt) \<Rightarrow>
          (if resetAnchorDt > calculatedWindowStart then resetAnchorDt else calculatedWindowStart)
      | _ \<Rightarrow> calculatedWindowStart)"

text \<open>\<open>Number.prototype.toLocaleString\<close>, used in the status labels: the digit grouping
  depends on the locale of the runtime and is not modelled.\<close>

definition toLocaleString :: "int \<Rightarrow> string" where
  "toLocaleString n = showInt n"

text \<open>\<open>updateStatus\<close> (lines 778--831): the status row it writes.  The quotient and the
  product of the percentage are operations on doubles.\<close>

definition statusOf ::
  "int \<Rightarrow> int \<Rightarrow> int \<Rightarrow> int \<Rightarrow> int \<Rightarrow> int option \<Rightarrow> int option \<Rightarrow> int option \<Rightarrow>
   RateLimitStatus" where
  "statusOf nowLocal configId usedTokens usedRequests windowStart nextReset tokenLimit requestLimit =
     (let tokenBranch = (case tokenLimit of Some l \<Rightarrow> l > 0 | None \<Rightarrow> False);
          requestBranch = (case requestLimit of Some l \<Rightarrow> l > 0 | None \<Rightarrow> False);
          tl = (case tokenLimit of Some l \<Rightarrow> l | None \<Rightarrow> 0);
          rl = (case requestLimit of Some l \<Rightarrow> l | None \<Rightarrow> 0);
          remTokens = (if tokenBranch then max 0 (tl - usedTokens) else 0);
          remRequests = (if \<not> tokenBranch \<and> requestBranch then max 0 (rl - usedRequests) else 0);
          percentage =
            (if tokenBranch
             then \<lfloor>double (double (real_of_int remTokens / real_of_int tl) * 100)\<rfloor>
             else if requestBranch
             then \<lfloor>double (double (real_of_int remRequests / real_of_int rl) * 100)\<rfloor>
             else 100);
          label =
            (if tokenBranch
             then toLocaleString usedTokens @ ''/'' @ toLocaleString tl @ '' Tokens''
             else if requestBranch
             then toLocaleString usedRequests @ ''/'' @ toLocaleString rl @ '' Requests''
             else ''Used: '' @ toLocaleString usedTokens @ ''T / ''
                    @ toLocaleString usedRequests @ ''R'')
      in \<lparr>rs_config_id = configId, rs_remaining_tokens = remTokens,
          rs_remaining_requests = remRequests, rs_used_tokens = usedTokens,
          rs_used_requests = usedRequests,
          rs_percentage = max 0 (min 100 percentage),
          rs_status_label = label, rs_window_start = windowStart,
          rs_last_updated = nowLocal, rs_next_reset = nextReset\<rparr>)"

text \<open>\<open>processConfig\<close> (lines 408--504) at local time \<open>now\<close>: the store after the status
  write; an incomplete config or an unsupported strategy leaves the store as it is.\<close>

definition processConfig :: "db \<Rightarrow> int \<Rightarrow> RateLimitConfig \<Rightarrow> db" where
  "processConfig d now config =
     (if rc_id config = 0 \<or> rc_model_pattern config = [] \<or> rc_window_minutes config = 0 \<or>
         rc_reset_strategy config = []
      then d
      else
        (case naturalWindow (rc_reset_strategy config) (rc_window_minutes config) now of
           None \<Rightarrow> d
         | Some w \<Rightarrow>
             (let windowStart = effectiveWindowStart (rc_reset_anchor_timestamp config) (fst w);
                  usage = calculateUsage d (rc_model_pattern config) windowStart
              in upsertRateLimitStatus d
                   (statusOf now (rc_id config) (uc_total_tokens usage)
                      (uc_request_count usage) windowStart (Some (snd w))
                      (rc_token_limit config) (rc_request_limit config)))))"

text \<open>\<open>syncLimits\<close> (lines 378--406) when the clock shows \<open>now\<close>: the configs in turn,
  each on the store the previous one left, at the local time \<open>getLocalDateTime\<close> gives.\<close>

definition syncLimits :: "db \<Rightarrow> int \<Rightarrow> int \<Rightarrow> db" where
  "syncLimits d now timezoneOffset =
     foldl (\<lambda>d' config. processConfig d' (getLocalDateTime now timezoneOffset) config)
       d (getAllRateLimitConfigs d)"

subsection \<open>Manual reset (resetLimit, lines 833--903)\<close>

text \<open>Store exceptions are made explicit: a flag per store call of \<open>resetLimit\<close> says
  whether that call throws.\<close>

record Faults =
  getConfigFails :: bool
  upsertStatusFails :: bool
  updateAnchorFails :: bool

definition noFaults :: Faults where
  "noFaults = \<lparr>getConfigFails = False, upsertStatusFails = False, updateAnchorFails = False\<rparr>"

record ResetResult =
  rr_success :: bool
  rr_message :: string
  rr_newStatus :: "(int \<times> string) option"

definition internalError :: ResetResult where
  "internalError = \<lparr>rr_success = False, rr_message = ''An internal error occurred.'',
                    rr_newStatus = None\<rparr>"

definition resetLimit :: "Faults \<Rightarrow> db \<Rightarrow> int \<Rightarrow> int \<Rightarrow> ResetResult \<times> db" where
  "resetLimit faults d now configId =
     (if getConfigFails faults then (internalError, d)
      else
        (case getRateLimitConfig d configId of
           None \<Rightarrow>
             (\<lparr>rr_success = False,
               rr_message = ''Configuration with id '' @ showInt configId @ '' not found.'',
               rr_newStatus = None\<rparr>, d)
         | Some config \<Rightarrow>
             (let tokenLimit = (case rc_token_limit config of Some l \<Rightarrow> l | None \<Rightarrow> 0);
                  requestLimit = (case rc_request_limit config of Some l \<Rightarrow> l | None \<Rightarrow> 0);
                  label = (if tokenLimit > 0
                           then ''0/'' @ toLocaleString tokenLimit @ '' Tokens''
                           else if requestLimit > 0
                           then ''0/'' @ toLocaleString requestLimit @ '' Requests''
                           else ''Unlimited'');
                  currentTime = now;
                  statusData = \<lparr>rs_config_id = configId, rs_remaining_tokens = tokenLimit,
                                  rs_remaining_requests = requestLimit, rs_used_tokens = 0,
                                  rs_used_requests = 0, rs_percentage = 100,
                                  rs_status_label = label, rs_window_start = currentTime,
                                  rs_last_updated = currentTime, rs_next_reset = None\<rparr>
              in if upsertStatusFails faults then (internalError, d)
                 else
                   (let d1 = upsertRateLimitStatus d statusData
                    in if updateAnchorFails faults then (internalError, d1)
                       else
                         (\<lparr>rr_success = True,
                           rr_message = ''Successfully reset rate limit for config id ''
                                          @ showInt configId @ ''.'',
                           rr_newStatus = Some (100, label)\<rparr>,
                          updateRateLimitConfigAnchor d1 configId currentTime)))))"

section \<open>The Control Surface (server.ts) and the Scheduler (scheduler.ts)\<close>

subsection \<open>POST /api/collector/reset/:config\_id (lines 130--158)\<close>

text \<open>\<open>parseInt(string)\<close> without a radix: leading white space is skipped, a sign is read,
  a \<open>0x\<close>/\<open>0X\<close> prefix selects radix 16, the longest prefix of digits is converted, and
  the result is \<open>NaN\<close> (\<open>None\<close>) when there is no digit.  Strings are byte strings here, so
  only the ASCII white space characters are skipped.\<close>

definition isWhiteSpace :: "char \<Rightarrow> bool" where
  "isWhiteSpace c = ((of_char c :: int) \<in> {9, 10, 11, 12, 13, 32})"

definition digitValue :: "char \<Rightarrow> int option" where
  "digitValue c =
     (let n = (of_char c :: int)
      in if 48 \<le> n \<and> n \<le> 57 then Some (n - 48)
         else if 97 \<le> n \<and> n \<le> 122 then Some (n - 87)
         else if 65 \<le> n \<and> n \<le> 90 then Some (n - 55)
         else None)"

definition isDigitIn :: "int \<Rightarrow> char \<Rightarrow> bool" where
  "isDigitIn radix c = (case digitValue c of Some v \<Rightarrow> v < radix | None \<Rightarrow> False)"

definition digitsValue :: "int \<Rightarrow> string \<Rightarrow> int" where
  "digitsValue radix z =
     foldl (\<lambda>acc c. acc * radix + (case digitValue c of Some v \<Rightarrow> v | None \<Rightarrow> 0)) 0 z"

definition parseInt :: "string \<Rightarrow> int option" where
  "parseInt inputString =
     (let s = dropWhile isWhiteSpace inputString;
          negative = (s \<noteq> [] \<and> hd s = CHR ''-'');
          s1 = (if s \<noteq> [] \<and> (hd s = CHR ''-'' \<or> hd s = CHR ''+'') then tl s else s);
          hex = (take 2 s1 = ''0x'' \<or> take 2 s1 = ''0X'');
          radix = (if hex then 16 else 10);
          s2 = (if hex then drop 2 s1 else s1);
          z = takeWhile (isDigitIn radix) s2
      in if z = [] then None
         else Some ((if negative then - 1 else 1) * digitsValue radix z))"

datatype ResponseBody =
    ErrorBody string
  | ResetBody string "(int \<times> string) option"
  | MessageBody string

record Response =
  resp_status :: nat
  resp_body :: ResponseBody

definition resetRoute :: "Faults \<Rightarrow> db \<Rightarrow> int \<Rightarrow> string \<Rightarrow> Response \<times> db" where
  "resetRoute faults d now config_id =
     (case parseInt config_id of
        None \<Rightarrow> (\<lparr>resp_status = 400, resp_body = ErrorBody ''Invalid config_id''\<rparr>, d)
      | Some configId \<Rightarrow>
          (let result = resetLimit faults d now configId
           in if rr_success (fst result) then
                (\<lparr>resp_status = 200,
                  resp_body = ResetBody (rr_message (fst result)) (rr_newStatus (fst result))\<rparr>,
                 snd result)
              else
                (\<lparr>resp_status = (if str_includes (rr_message (fst result)) ''not found''
                                  then 404 else 500),
                  resp_body = ErrorBody (rr_message (fst result))\<rparr>,
                 snd result)))"

subsection \<open>Scheduler and POST /api/collector/trigger\<close>

text \<open>
  A pass is one call of \<open>runFullSync\<close> (index.ts, lines 38--49).  The call runs until its
  first \<open>await\<close> (the upstream fetch) and then yields to the event loop, so timer
  callbacks and HTTP handlers run while the pass is pending; the pass is in flight from
  the call until its promise settles.  The state records the interval of the scheduler,
  whether the interval timer is set (\<open>intervalId\<close>), the time at which the timer fires
  next, and how many passes are in flight.  The events are \<open>Scheduler.start()\<close> called at
  a given time, a firing of the \<open>setInterval\<close> callback, a request to the trigger route,
  the settling of a pass, and \<open>Scheduler.stop()\<close>.  Times are in milliseconds.
\<close>

record SchedState =
  intervalMs :: int
  intervalSet :: bool
  nextTick :: int
  inFlight :: nat

datatype Event = Start int | Tick | Trigger | Settle | Stop

text \<open>\<open>new Scheduler(intervalSeconds, task)\<close>, and the scheduler of index.ts with the
  default interval of 300 seconds.\<close>

definition newScheduler :: "int \<Rightarrow> SchedState" where
  "newScheduler intervalSeconds =
     \<lparr>intervalMs = intervalSeconds * 1000, intervalSet = False, nextTick = 0, inFlight = 0\<rparr>"

definition initialSched :: SchedState where
  "initialSched = newScheduler 300"

text \<open>\<open>start()\<close> (scheduler.ts, lines 11--32) returns early when the timer is set,
  otherwise calls the task and sets the timer with \<open>setInterval(..., intervalMs)\<close>, which
  fires every \<open>intervalMs\<close> from then on; the timer callback (lines 25--31) and the
  trigger handler (server.ts, lines 113--128) call the task unconditionally.  The
  settling of a pass touches neither the timer nor any state of the scheduler.\<close>

fun schedStep :: "SchedState \<Rightarrow> Event \<Rightarrow> SchedState" where
  "schedStep s (Start t) =
     (if intervalSet s then s
      else s\<lparr>intervalSet := True, nextTick := t + intervalMs s, inFlight := inFlight s + 1\<rparr>)"
| "schedStep s Tick =
     (if intervalSet s
      then s\<lparr>nextTick := nextTick s + intervalMs s, inFlight := inFlight s + 1\<rparr> else s)"
| "schedStep s Trigger = s\<lparr>inFlight := inFlight s + 1\<rparr>"
| "schedStep s Settle = s\<lparr>inFlight := inFlight s - 1\<rparr>"
| "schedStep s Stop = s\<lparr>intervalSet := False\<rparr>"

definition triggerRoute :: "SchedState \<Rightarrow> Response \<times> SchedState" where
  "triggerRoute s =
     (\<lparr>resp_status = 202,
       resp_body = MessageBody ''Full data collection and rate limit sync process triggered.''\<rparr>,
      schedStep s Trigger)"

definition runEvents :: "SchedState \<Rightarrow> Event list \<Rightarrow> SchedState" where
  "runEvents s evs = foldl schedStep s evs"

section \<open>Predicates and example data used in the statements\<close>

text \<open>A pricing table with non-negative rates, and a report whose per-request token
  counts are non-negative.\<close>

definition nonnegPricing :: "PricingMap \<Rightarrow> bool" where
  "nonnegPricing pricing =
     list_all (\<lambda>kv. 0 \<le> pr_input (snd kv) \<and> 0 \<le> pr_output (snd kv)) pricing"

definition nonnegDetails :: "UsageData \<Rightarrow> bool" where
  "nonnegDetails usage =
     list_all (\<lambda>api. list_all (\<lambda>m. list_all (\<lambda>dt. 0 \<le> detailInput dt \<and> 0 \<le> detailOutput dt)
                                      (mdata_details (snd m))) (snd api)) (ud_apis usage)"

text \<open>The cost of the current report: \<open>totalCost\<close> of \<open>storeUsageData\<close> (it does not
  depend on the snapshot id), and the cumulative cost of the latest stored snapshot.\<close>

definition reportCost :: "PricingMap \<Rightarrow> UsageData \<Rightarrow> real" where
  "reportCost pricing usage =
     sum_list (map mu_estimated_cost_usd (buildModelRecords pricing 0 (ud_apis usage)))"

definition lastCumulativeCost :: "db \<Rightarrow> real" where
  "lastCumulativeCost d =
     (case getLatestSnapshots d 1 of [] \<Rightarrow> 0 | s # _ \<Rightarrow> us_cumulative_cost_usd s)"

text \<open>The scenarios S1--S4 of the specification: an empty store, the pricing of gpt-4
  (30/60 USD per million tokens) and claude-opus (15/75), and the reports.\<close>

definition emptyDb :: db where
  "emptyDb = \<lparr>usage_snapshots = [], model_usage = [], daily_stats = [],
              rate_limit_configs = [], rate_limit_status = []\<rparr>"

definition examplePricing :: PricingMap where
  "examplePricing =
     [(''gpt-4'', \<lparr>pr_input = 30, pr_output = 60\<rparr>),
      (''claude-opus'', \<lparr>pr_input = 15, pr_output = 75\<rparr>),
      (''_default'', \<lparr>pr_input = 15 / 100, pr_output = 6 / 10\<rparr>)]"

definition gpt4Entry :: "int \<Rightarrow> int \<Rightarrow> int \<Rightarrow> int \<Rightarrow> string \<times> ModelData" where
  "gpt4Entry reqs toks inp outp =
     (''gpt-4'', \<lparr>mdata_total_requests = reqs, mdata_total_tokens = toks,
                  mdata_details = [\<lparr>md_tokens = Some \<lparr>tu_input_tokens = inp,
                                                         tu_output_tokens = outp\<rparr>\<rparr>]\<rparr>)"

definition reportS1 :: UsageData where
  "reportS1 = \<lparr>ud_total_requests = 10, ud_success_count = 10, ud_failure_count = 0,
               ud_total_tokens = 1000,
               ud_apis = [(''chat'', [gpt4Entry 10 1000 600 400])]\<rparr>"

definition reportS2 :: UsageData where
  "reportS2 = \<lparr>ud_total_requests = 15, ud_success_count = 15, ud_failure_count = 0,
               ud_total_tokens = 1600,
               ud_apis = [(''chat'', [gpt4Entry 15 1600 960 640])]\<rparr>"

definition reportS3 :: UsageData where
  "reportS3 = \<lparr>ud_total_requests = 2, ud_success_count = 2, ud_failure_count = 0,
               ud_total_tokens = 200,
               ud_apis = [(''chat'', [gpt4Entry 2 200 120 80])]\<rparr>"

definition reportS4 :: UsageData where
  "reportS4 = \<lparr>ud_total_requests = 65, ud_success_count = 65, ud_failure_count = 0,
               ud_total_tokens = 1001600,
               ud_apis = [(''chat'',
                  [gpt4Entry 15 1600 960 640,
                   (''claude-opus'',
                    \<lparr>mdata_total_requests = 50, mdata_total_tokens = 1000000,
                       mdata_details = [\<lparr>md_tokens = Some \<lparr>tu_input_tokens = 500000,
                                                              tu_output_tokens = 500000\<rparr>\<rparr>]\<rparr>)])]\<rparr>"

text \<open>The store after S1, and after S1 followed by S2 (same local date).\<close>

definition storeS1 :: db where
  "storeS1 = snd (storeUsageData emptyDb examplePricing 1000 ''2025-01-01'' (Some reportS1))"

definition storeS2 :: db where
  "storeS2 = snd (storeUsageData storeS1 examplePricing 301000 ''2025-01-01'' (Some reportS2))"

text \<open>The self-healing invariant of a DailyAggregate row: each top-level total is the sum
  of the per-model breakdown.\<close>

definition selfHealed :: "DailyStats \<Rightarrow> bool" where
  "selfHealed r \<longleftrightarrow>
     ds_estimated_cost_usd r = sumCost (bd_models (ds_breakdown r)) \<and>
     ds_total_tokens r = sumTokens (bd_models (ds_breakdown r)) \<and>
     ds_total_requests r = sumRequests (bd_models (ds_breakdown r))"

text \<open>A first report that carries global counters but no per-model entries
  (\<open>usage.apis || {}\<close> in \<open>storeUsageData\<close> provides for an absent \<open>apis\<close>).\<close>

definition reportNoModels :: UsageData where
  "reportNoModels = \<lparr>ud_total_requests = 10, ud_success_count = 10, ud_failure_count = 0,
                     ud_total_tokens = 1000, ud_apis = []\<rparr>"

text \<open>The top-level totals of a row, and the sums of its per-model breakdown, as triples
  (requests, tokens, cost).\<close>

definition rowTotals :: "DailyStats \<Rightarrow> int \<times> int \<times> real" where
  "rowTotals r = (ds_total_requests r, ds_total_tokens r, ds_estimated_cost_usd r)"

definition rowSums :: "DailyStats \<Rightarrow> int \<times> int \<times> real" where
  "rowSums r = (sumRequests (bd_models (ds_breakdown r)), sumTokens (bd_models (ds_breakdown r)),
                sumCost (bd_models (ds_breakdown r)))"

definition healedOrAbsent :: "DailyStats option \<Rightarrow> bool" where
  "healedOrAbsent ex = (case ex of None \<Rightarrow> True | Some e \<Rightarrow> selfHealed e)"

text \<open>The keys the granular loop visits, the cost recorded under a key (0 when the key is
  absent), and the hypotheses of monotonicity: the current per-model rows carry no
  negative counter, and no key's cost is lower in the current report than in the previous
  one.\<close>

definition allKeys :: "ModelUsage list \<Rightarrow> ModelUsage list \<Rightarrow> string list" where
  "allKeys prevUsageRecords modelRecords =
     js_set (map fst (buildUsageMap prevUsageRecords) @ map fst (buildUsageMap modelRecords))"

definition keyCost :: "ModelUsage list \<Rightarrow> string \<Rightarrow> real" where
  "keyCost records key = dCost (currentTuple (map_of (buildUsageMap records) key))"

definition nonnegRecords :: "ModelUsage list \<Rightarrow> bool" where
  "nonnegRecords records =
     list_all (\<lambda>r. 0 \<le> mu_request_count r \<and> 0 \<le> mu_total_tokens r \<and>
                    0 \<le> mu_estimated_cost_usd r) records"

definition costNondecreasing :: "ModelUsage list \<Rightarrow> ModelUsage list \<Rightarrow> bool" where
  "costNondecreasing prevUsageRecords modelRecords =
     list_all (\<lambda>k. keyCost prevUsageRecords k \<le> keyCost modelRecords k)
       (allKeys prevUsageRecords modelRecords)"

text \<open>Example data for the monotonicity statements: the snapshot, per-model rows and
  daily row that S1 leaves in the store, the rows of S2, the store after the report
  without per-model entries, a second report that attributes 3 of the 10 requests to
  gpt-4, and a pricing table in which gpt-4 is cheaper.\<close>

definition recordsS1 :: "ModelUsage list" where
  "recordsS1 = buildModelRecords examplePricing 1 (ud_apis reportS1)"

definition recordsS2 :: "ModelUsage list" where
  "recordsS2 = buildModelRecords examplePricing 2 (ud_apis reportS2)"

definition snapshotS1 :: UsageSnapshot where
  "snapshotS1 = \<lparr>us_id = 1, us_collected_at = ''1970-01-01 00:00:01'',
                 us_total_requests = 10, us_success_count = 10,
                 us_failure_count = 0, us_total_tokens = 1000,
                 us_cumulative_cost_usd = 21 / 500\<rparr>"

definition rowS1 :: DailyStats where
  "rowS1 = dailyDelta None [] None ''2025-01-01'' 10 10 0 1000 (21 / 500) (21 / 500) recordsS1"

definition rowS2 :: DailyStats where
  "rowS2 = dailyDelta (Some snapshotS1) recordsS1 (Some rowS1) ''2025-01-01''
             15 15 0 1600 (273 / 2500) (42 / 625) recordsS2"

definition storeNoModels :: db where
  "storeNoModels =
     snd (storeUsageData emptyDb examplePricing 1000 ''2025-01-01'' (Some reportNoModels))"

definition reportThreeOfTen :: UsageData where
  "reportThreeOfTen = \<lparr>ud_total_requests = 10, ud_success_count = 10, ud_failure_count = 0,
                       ud_total_tokens = 1000,
                       ud_apis = [(''chat'', [gpt4Entry 3 300 180 120])]\<rparr>"

definition cheaperPricing :: PricingMap where
  "cheaperPricing =
     [(''gpt-4'', \<lparr>pr_input = 3, pr_output = 6\<rparr>),
      (''_default'', \<lparr>pr_input = 15 / 100, pr_output = 6 / 10\<rparr>)]"

text \<open>The current rows without those of one key.\<close>

definition withoutKey :: "string \<Rightarrow> ModelUsage list \<Rightarrow> ModelUsage list" where
  "withoutKey k records = filter (\<lambda>r. usageKey r \<noteq> k) records"

text \<open>Scenario S4 on the values the pass reads: the snapshot and row that S2 leaves, the
  rows of S4, the key and row of the model that first appears, and the coarse increment of
  the pass.  A further report lets claude-opus first appear on two endpoints, with a cost
  of 9 USD under each key.\<close>

definition snapshotS2 :: UsageSnapshot where
  "snapshotS2 = \<lparr>us_id = 2, us_collected_at = ''1970-01-01 00:05:01'',
                 us_total_requests = 15, us_success_count = 15,
                 us_failure_count = 0, us_total_tokens = 1600,
                 us_cumulative_cost_usd = 273 / 2500\<rparr>"

definition recordsS4 :: "ModelUsage list" where
  "recordsS4 = buildModelRecords examplePricing 3 (ud_apis reportS4)"

definition opusKey :: string where
  "opusKey = ''claude-opus|chat''"

definition opusRecord :: ModelUsage where
  "opusRecord = \<lparr>mu_snapshot_id = 3, mu_model_name = ''claude-opus'',
                 mu_estimated_cost_usd = 45, mu_request_count = 50,
                 mu_input_tokens = 500000, mu_output_tokens = 500000,
                 mu_total_tokens = 1000000, mu_api_endpoint = ''chat'', mu_created_at = []\<rparr>"

definition incS4 :: Inc where
  "incS4 = coarseDelta (Some snapshotS2) 65 65 0 1001600 (273 / 2500 + 28167 / 625) (28167 / 625)"

definition storeS4 :: db where
  "storeS4 = snd (storeUsageData storeS2 examplePricing 601000 ''2025-01-01'' (Some reportS4))"

definition opusEntry :: "string \<times> ModelData" where
  "opusEntry =
     (''claude-opus'',
      \<lparr>mdata_total_requests = 10, mdata_total_tokens = 200000,
         mdata_details = [\<lparr>md_tokens = Some \<lparr>tu_input_tokens = 100000,
                                                tu_output_tokens = 100000\<rparr>\<rparr>]\<rparr>)"

definition reportTwoEndpoints :: UsageData where
  "reportTwoEndpoints =
     \<lparr>ud_total_requests = 35, ud_success_count = 35, ud_failure_count = 0,
        ud_total_tokens = 401600,
        ud_apis = [(''chat'', [gpt4Entry 15 1600 960 640, opusEntry]),
                   (''messages'', [opusEntry])]\<rparr>"

definition modelCostIn :: "DailyStats option \<Rightarrow> string \<Rightarrow> real option" where
  "modelCostIn row m =
     (case row of None \<Rightarrow> None
      | Some r \<Rightarrow> map_option mb_cost (map_of (bd_models (ds_breakdown r)) m))"

text \<open>For the restart statements: the current tuple recorded under a key; a key that is
  new or whose requests or tokens dropped, whose current cost does not exceed the
  false-start threshold, and whose current row (if any) has a positive request count or
  cost; and the sums of the current tuples over the keys the loop visits.\<close>

definition currentOf :: "ModelUsage list \<Rightarrow> string \<Rightarrow> KeyDelta" where
  "currentOf records k = currentTuple (map_of (buildUsageMap records) k)"

definition keptReset :: "ModelUsage list \<Rightarrow> ModelUsage list \<Rightarrow> string \<Rightarrow> bool" where
  "keptReset prevUsageRecords modelRecords k \<longleftrightarrow>
     (map_of (buildUsageMap prevUsageRecords) k = None \<or>
      dReq (currentOf modelRecords k) < dReq (currentOf prevUsageRecords k) \<or>
      dTok (currentOf modelRecords k) < dTok (currentOf prevUsageRecords k)) \<and>
     dCost (currentOf modelRecords k) \<le> 10 \<and>
     (map_of (buildUsageMap modelRecords) k = None \<or>
      0 < dReq (currentOf modelRecords k) \<or> 0 < dCost (currentOf modelRecords k))"

definition currentSums :: "ModelUsage list \<Rightarrow> ModelUsage list \<Rightarrow> int \<times> int \<times> real" where
  "currentSums prevUsageRecords modelRecords =
     (sum_list (map (\<lambda>k. dReq (currentOf modelRecords k)) (allKeys prevUsageRecords modelRecords)),
      sum_list (map (\<lambda>k. dTok (currentOf modelRecords k)) (allKeys prevUsageRecords modelRecords)),
      sum_list (map (\<lambda>k. dCost (currentOf modelRecords k)) (allKeys prevUsageRecords modelRecords)))"

text \<open>Scenario S3 (restart after S2) on the values the pass reads, and a restart after
  which the only key already carries more than 10 USD.\<close>

definition recordsS3 :: "ModelUsage list" where
  "recordsS3 = buildModelRecords examplePricing 3 (ud_apis reportS3)"

definition gptKey :: string where
  "gptKey = ''gpt-4|chat''"

definition rowS3 :: DailyStats where
  "rowS3 = dailyDelta (Some snapshotS2) recordsS2 (Some rowS2) ''2025-01-01''
             2 2 0 200 (147 / 1250) (21 / 2500) recordsS3"

definition reportBig :: UsageData where
  "reportBig = \<lparr>ud_total_requests = 1000, ud_success_count = 1000, ud_failure_count = 0,
                ud_total_tokens = 10000000,
                ud_apis = [(''chat'', [gpt4Entry 1000 10000000 5000000 5000000])]\<rparr>"

definition reportAfterReset :: UsageData where
  "reportAfterReset = \<lparr>ud_total_requests = 500, ud_success_count = 500, ud_failure_count = 0,
                       ud_total_tokens = 5000000,
                       ud_apis = [(''chat'', [gpt4Entry 500 5000000 2500000 2500000])]\<rparr>"

definition storeBig :: db where
  "storeBig = snd (storeUsageData emptyDb examplePricing 1000 ''2025-01-01'' (Some reportBig))"

text \<open>Example data for the Reconciler.  \<open>collect d now offset tokens requests\<close> is the
  store after a pass of the collector at clock \<open>now\<close> whose report shows gpt-4 with the
  given cumulative tokens and requests; the per-model rows are the ones the store
  writes.\<close>

definition gptReport :: "int \<Rightarrow> int \<Rightarrow> UsageData" where
  "gptReport toks reqs =
     \<lparr>ud_total_requests = reqs, ud_success_count = reqs, ud_failure_count = 0,
        ud_total_tokens = toks, ud_apis = [(''chat'', [gpt4Entry reqs toks toks 0])]\<rparr>"

definition collect :: "db \<Rightarrow> int \<Rightarrow> int \<Rightarrow> int \<Rightarrow> int \<Rightarrow> db" where
  "collect d now timezoneOffset toks reqs =
     collectorPass d examplePricing now timezoneOffset (gptReport toks reqs)"

text \<open>Scenario S5 with \<open>T\<close> = 1 January 1970, 16:40:00 UTC (60000000 ms): passes at
  \<open>T - 240\<close> min (12:40, 10000 tokens), at \<open>T + 10\<close> min (16:50, 10100 tokens) and at
  \<open>T + 300\<close> min (21:40, 10200 tokens), when the Reconciler runs for a rolling config of
  300 minutes; with an offset of 0 and with the default offset of 7 hours.  The same
  scenario as its text has it, with the row of 10200 tokens at \<open>T\<close> and the row of 10100
  tokens at \<open>T + 10\<close> min.  And the scenario with \<open>T\<close> = 1 January 1970, 23:55:00 UTC
  (86100000 ms): passes at 19:55, at 00:05 and at 04:55 of the next day.\<close>

definition rollingConfig :: RateLimitConfig where
  "rollingConfig = \<lparr>rc_id = 1, rc_model_pattern = ''gpt'', rc_window_minutes = 300,
                    rc_reset_strategy = ''rolling'', rc_token_limit = Some 100000,
                    rc_request_limit = None, rc_reset_anchor_timestamp = None\<rparr>"

definition storeS5 :: db where
  "storeS5 =
     (collect (collect (collect emptyDb 45600000 0 10000 100) 60600000 0 10100 101)
        78000000 0 10200 102)\<lparr>rate_limit_configs := [rollingConfig]\<rparr>"

definition storeS5offset :: db where
  "storeS5offset =
     (collect (collect (collect emptyDb 45600000 7 10000 100) 60600000 7 10100 101)
        78000000 7 10200 102)\<lparr>rate_limit_configs := [rollingConfig]\<rparr>"

definition storeS5literal :: db where
  "storeS5literal =
     (collect (collect (collect emptyDb 45600000 0 10000 100) 60000000 0 10200 102)
        60600000 0 10100 101)\<lparr>rate_limit_configs := [rollingConfig]\<rparr>"

definition storeS5midnight :: db where
  "storeS5midnight =
     (collect (collect (collect emptyDb 71700000 0 10000 100) 86700000 0 10100 101)
        104100000 0 10200 102)\<lparr>rate_limit_configs := [rollingConfig]\<rparr>"

text \<open>The \<open>used_tokens\<close> of the status of a config.\<close>

definition usedTokensOf :: "db \<Rightarrow> int \<Rightarrow> int option" where
  "usedTokensOf d configId = map_option rs_used_tokens (getRateLimitStatus d configId)"

text \<open>Scenario S6 with the default offset of 7 hours.  Passes on Monday 5 January 1970
  at 23:55 UTC (2000 tokens), on Tuesday at 00:05 UTC (3000 tokens) and on Sunday
  11 January at 03:25 UTC (10000 tokens), which is 10:25 local time; config 5 is reset at
  03:30 UTC, 10:30 local time (901800000 ms); the next pass, at 03:35 UTC, finds the
  counters unchanged.  Config 5 is a daily config in one store and a weekly config with
  a limit of 10000 tokens in the other.\<close>

definition dailyConfig :: RateLimitConfig where
  "dailyConfig = \<lparr>rc_id = 5, rc_model_pattern = ''gpt'', rc_window_minutes = 1440,
                  rc_reset_strategy = ''daily'', rc_token_limit = Some 10000,
                  rc_request_limit = None, rc_reset_anchor_timestamp = None\<rparr>"


definition storeWeek :: db where
  "storeWeek =
     collect (collect (collect emptyDb 431700000 7 2000 20) 432300000 7 3000 30)
       876300000 7 10000 100"

definition storeS6 :: db where
  "storeS6 = storeWeek\<lparr>rate_limit_configs := [dailyConfig]\<rparr>"









text \<open>Config 5 of S6 after the reset of 10:30 local time.\<close>

definition anchoredConfig :: RateLimitConfig where
  "anchoredConfig = dailyConfig\<lparr>rc_reset_anchor_timestamp := Some (Date 901800000)\<rparr>"


text \<open>Three passes of the collector on an empty store, the first two in the same
  second: report S1 at 00:00:01.000, report S2 at 00:00:01.500, and report S3 at
  00:05:01.\<close>

definition storeSameSecond2 :: db where
  "storeSameSecond2 =
     collectorPass (collectorPass emptyDb examplePricing 1000 7 reportS1)
       examplePricing 1500 7 reportS2"

definition storeSameSecond3 :: db where
  "storeSameSecond3 = collectorPass storeSameSecond2 examplePricing 301000 7 reportS3"
section \<open>Cumulative cost of the snapshots\<close>

lemma calculateCost_nonneg:
  "0 \<le> i \<Longrightarrow> 0 \<le> out \<Longrightarrow> 0 \<le> pr_input p \<Longrightarrow> 0 \<le> pr_output p \<Longrightarrow> 0 \<le> calculateCost i out p"
  by (simp add: calculateCost_def)

lemma partialMatch_mem: "partialMatch ml pricing = Some p \<Longrightarrow> p \<in> snd ` set pricing"
  by (induction ml pricing rule: partialMatch.induct) (auto split: if_splits)

lemma findPricing_nonneg:
  assumes "nonnegPricing pricing"
  shows "0 \<le> pr_input (fst (findPricingForModel m pricing)) \<and> 0 \<le> pr_output (fst (findPricingForModel m pricing))"
proof -
  have mem: "\<And>p. p \<in> snd ` set pricing \<Longrightarrow> 0 \<le> pr_input p \<and> 0 \<le> pr_output p"
    using assms by (auto simp: nonnegPricing_def list_all_iff)
  show ?thesis
    unfolding findPricingForModel_def Let_def
    by (auto split: option.splits dest!: map_of_SomeD partialMatch_mem intro!: mem simp: rev_image_eqI)
qed

lemma modelRecord_cost_nonneg:
  assumes "nonnegPricing pricing"
    and "list_all (\<lambda>dt. 0 \<le> detailInput dt \<and> 0 \<le> detailOutput dt) (mdata_details (snd m))"
  shows "0 \<le> mu_estimated_cost_usd (modelRecord pricing sid ep m)"
proof -
  have "0 \<le> sum_list (map detailInput (mdata_details (snd m)))"
    using assms(2) by (auto intro!: sum_list_nonneg simp: list_all_iff)
  moreover have "0 \<le> sum_list (map detailOutput (mdata_details (snd m)))"
    using assms(2) by (auto intro!: sum_list_nonneg simp: list_all_iff)
  ultimately show ?thesis
    using findPricing_nonneg[OF assms(1)]
    by (simp add: modelRecord_def Let_def calculateCost_nonneg)
qed

lemma modelRecord_cost_sid:
  "mu_estimated_cost_usd (modelRecord pricing sid ep m) = mu_estimated_cost_usd (modelRecord pricing 0 ep m)"
  by (simp add: modelRecord_def Let_def)

lemma buildModelRecords_cost_sid:
  "map mu_estimated_cost_usd (buildModelRecords pricing sid apis) =
   map mu_estimated_cost_usd (buildModelRecords pricing 0 apis)"
  by (induction apis) (simp_all add: buildModelRecords_def modelRecord_cost_sid[of pricing sid])

lemma reportCost_nonneg:
  assumes "nonnegPricing pricing" and "nonnegDetails usage"
  shows "0 \<le> reportCost pricing usage"
  unfolding reportCost_def buildModelRecords_def
  using assms
  by (auto intro!: sum_list_nonneg modelRecord_cost_nonneg simp: nonnegDetails_def list_all_iff)

lemma snapshots_calculateDailyDelta [simp]:
  "usage_snapshots (calculateDailyDelta d today a b c e f g recs) = usage_snapshots d"
  by (simp add: calculateDailyDelta_def upsertDailyStats_def Let_def)

lemma set_insertDesc [simp]: "set (insertDesc key x ys) = insert x (set ys)"
  by (induction ys) auto

lemma length_insertDesc [simp]: "length (insertDesc key x ys) = Suc (length ys)"
  by (induction ys) auto

lemma orderByDesc_snoc: "orderByDesc key (xs @ [x]) = insertDesc key x (orderByDesc key xs)"
  by (simp add: orderByDesc_def)

lemma orderByDesc_nil [simp]: "orderByDesc key [] = []"
  by (simp add: orderByDesc_def)

lemma set_orderByDesc [simp]: "set (orderByDesc key xs) = set xs"
  by (induction xs rule: rev_induct) (simp_all add: orderByDesc_snoc)

lemma length_orderByDesc [simp]: "length (orderByDesc key xs) = length xs"
  by (induction xs rule: rev_induct) (simp_all add: orderByDesc_snoc)

lemma insertDesc_greatest:
  "(\<And>y. y \<in> set ys \<Longrightarrow> str_less (key y) (key x)) \<Longrightarrow> insertDesc key x ys = x # ys"
  by (cases ys) auto

lemma snapshots_after_store:
  "usage_snapshots (snd (storeUsageData d pricing now today (Some usage))) =
     map (\<lambda>s. if us_id s = int (length (usage_snapshots d)) + 1
               then s\<lparr>us_cumulative_cost_usd := lastCumulativeCost d + reportCost pricing usage\<rparr> else s)
       (usage_snapshots d @
        [\<lparr>us_id = int (length (usage_snapshots d)) + 1,
          us_collected_at = CURRENT_TIMESTAMP now,
          us_total_requests = ud_total_requests usage,
          us_success_count = ud_success_count usage, us_failure_count = ud_failure_count usage,
          us_total_tokens = ud_total_tokens usage, us_cumulative_cost_usd = lastCumulativeCost d\<rparr>])"
proof -
  let ?sid = "int (length (usage_snapshots d)) + 1"
  have eq: "sum_list (map mu_estimated_cost_usd (buildModelRecords pricing ?sid (ud_apis usage)))
            = reportCost pricing usage"
    by (simp only: reportCost_def buildModelRecords_cost_sid[of pricing ?sid])
  have z: "buildModelRecords pricing ?sid (ud_apis usage) = [] \<Longrightarrow> reportCost pricing usage = 0"
    using eq by simp
  show ?thesis
    by (cases "buildModelRecords pricing ?sid (ud_apis usage) = []")
       (simp_all add: storeUsageData_def Let_def insertUsageSnapshot_def updateSnapshotCost_def
          insertModelUsageBulk_def lastCumulativeCost_def eq z)
qed

text \<open>When the clock of a pass shows a later second than every stored snapshot carries,
  the snapshot the pass stores is the latest one, and its cumulative cost is the
  cumulative cost of the previously latest snapshot (0 when there is none) plus the cost
  of the current report; that cost is non-negative when the report's token counts and
  the pricing table's rates are.  Nothing is assumed about the request and token
  counters of the report, which may roll back.\<close>

lemma cumulative_cost_later_second:
  assumes "nonnegPricing pricing" and "nonnegDetails usage"
    and later: "\<And>s. s \<in> set (usage_snapshots d) \<Longrightarrow>
                  str_less (us_collected_at s) (CURRENT_TIMESTAMP now)"
  shows "\<exists>s. getLatestSnapshots (snd (storeUsageData d pricing now today (Some usage))) 1 = [s]
           \<and> us_cumulative_cost_usd s = lastCumulativeCost d + reportCost pricing usage
           \<and> 0 \<le> reportCost pricing usage
           \<and> lastCumulativeCost d \<le> us_cumulative_cost_usd s"
proof -
  let ?sid = "int (length (usage_snapshots d)) + 1"
  let ?f = "\<lambda>s. if us_id s = ?sid
               then s\<lparr>us_cumulative_cost_usd := lastCumulativeCost d + reportCost pricing usage\<rparr>
               else s"
  let ?new = "\<lparr>us_id = ?sid, us_collected_at = CURRENT_TIMESTAMP now,
          us_total_requests = ud_total_requests usage,
          us_success_count = ud_success_count usage, us_failure_count = ud_failure_count usage,
          us_total_tokens = ud_total_tokens usage, us_cumulative_cost_usd = lastCumulativeCost d\<rparr>"
  have key: "\<And>s. us_collected_at (?f s) = us_collected_at s" by simp
  have front: "insertDesc us_collected_at (?f ?new)
                 (orderByDesc us_collected_at (map ?f (usage_snapshots d)))
               = ?f ?new # orderByDesc us_collected_at (map ?f (usage_snapshots d))"
  proof (rule insertDesc_greatest)
    fix y assume "y \<in> set (orderByDesc us_collected_at (map ?f (usage_snapshots d)))"
    then obtain s where s: "s \<in> set (usage_snapshots d)" and y: "y = ?f s" by auto
    from later[OF s] show "str_less (us_collected_at y) (us_collected_at (?f ?new))"
      unfolding y by simp
  qed
  have "getLatestSnapshots (snd (storeUsageData d pricing now today (Some usage))) 1 = [?f ?new]"
    unfolding getLatestSnapshots_def snapshots_after_store map_append list.map
      orderByDesc_snoc front
    by simp
  then show ?thesis
    using reportCost_nonneg[OF assms(1,2)] by simp
qed

lemma sameSecond_times:
  "map us_collected_at (usage_snapshots storeSameSecond2) =
     [''1970-01-01 00:00:01'', ''1970-01-01 00:00:01'']"
  by code_simp

lemma sameSecond_costs2:
  "map us_cumulative_cost_usd (usage_snapshots storeSameSecond2) = [21 / 500, 273 / 2500]"
  by code_simp

lemma sameSecond_latest: "map us_id (getLatestSnapshots storeSameSecond2 1) = [1]"
  by code_simp

lemma sameSecond_last: "lastCumulativeCost storeSameSecond2 = 21 / 500"
  by code_simp

lemma sameSecond_costs3:
  "map us_cumulative_cost_usd (usage_snapshots storeSameSecond3) =
     [21 / 500, 273 / 2500, 63 / 1250]"
  by code_simp

lemma sameSecond_report: "reportCost examplePricing reportS3 = 21 / 2500"
  by code_simp

text \<open>
  Claim C10 says that the cumulative cost of every stored snapshot is that of the
  previous snapshot plus the cost of the current report, and so never rolls back.
  \<open>storeUsageData\<close> reads the previous snapshot with \<open>ORDER BY collected_at DESC LIMIT 1\<close>,
  and \<open>collected_at\<close> has a resolution of one second.  After the passes S1 (00:00:01.000)
  and S2 (00:00:01.500) the two snapshots carry the same \<open>collected_at\<close>, with cumulative
  costs 0.042 and 0.1092, and the query returns snapshot 1.  The next pass (report S3,
  cost 0.0084) therefore stores 0.042 + 0.0084 = 0.0504: the cumulative cost drops from
  0.1092 to 0.0504.
\<close>

theorem cumulative_cost_rolls_back:
  "map us_collected_at (usage_snapshots storeSameSecond2) =
     [''1970-01-01 00:00:01'', ''1970-01-01 00:00:01''] \<and>
   map us_cumulative_cost_usd (usage_snapshots storeSameSecond2) = [21 / 500, 273 / 2500] \<and>
   map us_id (getLatestSnapshots storeSameSecond2 1) = [1] \<and>
   lastCumulativeCost storeSameSecond2 = 21 / 500 \<and>
   reportCost examplePricing reportS3 = 21 / 2500 \<and>
   map us_cumulative_cost_usd (usage_snapshots storeSameSecond3) =
     [21 / 500, 273 / 2500, 63 / 1250]"
  using sameSecond_times sameSecond_costs2 sameSecond_latest sameSecond_last sameSecond_report
    sameSecond_costs3
  by simp

section \<open>Sums of the per-model breakdown\<close>

lemma map_of_obj_set_same [simp]: "map_of (obj_set m k v) k = Some v"
  by (induction m) auto

lemma map_of_obj_set_other [simp]: "k' \<noteq> k \<Longrightarrow> map_of (obj_set m k v) k' = map_of m k'"
  by (induction m) auto

lemma sum_obj_set:
  fixes f :: "'a \<Rightarrow> 'b::ab_group_add"
  shows "sum_list (map (\<lambda>kv. f (snd kv)) (obj_set m k v)) =
         sum_list (map (\<lambda>kv. f (snd kv)) m) + f v
           - (case map_of m k of None \<Rightarrow> 0 | Some old \<Rightarrow> f old)"
  by (induction m) (auto simp: algebra_simps)

lemma sums_addToBreakdown:
  "sumRequests (bd_models (addToBreakdown b mn ep dl)) = sumRequests (bd_models b) + dReq dl"
  "sumTokens (bd_models (addToBreakdown b mn ep dl)) = sumTokens (bd_models b) + dTok dl"
  "sumCost (bd_models (addToBreakdown b mn ep dl)) = sumCost (bd_models b) + dCost dl"
  by (simp_all add: addToBreakdown_def Let_def sumRequests_def sumTokens_def sumCost_def
      sum_obj_set split: option.splits)

lemma sums_mergeModels:
  "sumRequests (mergeModels ex dl) = sumRequests ex + sumRequests dl"
  "sumTokens (mergeModels ex dl) = sumTokens ex + sumTokens dl"
  "sumCost (mergeModels ex dl) = sumCost ex + sumCost dl"
proof -
  show "sumRequests (mergeModels ex dl) = sumRequests ex + sumRequests dl"
    unfolding mergeModels_def
    by (induction dl arbitrary: ex)
       (simp_all add: Let_def sumRequests_def sum_obj_set split: option.splits)
  show "sumTokens (mergeModels ex dl) = sumTokens ex + sumTokens dl"
    unfolding mergeModels_def
    by (induction dl arbitrary: ex)
       (simp_all add: Let_def sumTokens_def sum_obj_set split: option.splits)
  show "sumCost (mergeModels ex dl) = sumCost ex + sumCost dl"
    unfolding mergeModels_def
    by (induction dl arbitrary: ex)
       (simp_all add: Let_def sumCost_def sum_obj_set split: option.splits)
qed

lemma sums_nil: "sumRequests [] = 0" "sumTokens [] = 0" "sumCost [] = 0"
  by (simp_all add: sumRequests_def sumTokens_def sumCost_def)

lemma reconcile_hasPrev:
  "incRequests (reconcileGlobal True inc b) = sumRequests (bd_models b)"
  "incTokens (reconcileGlobal True inc b) = sumTokens (bd_models b)"
  "incCost (reconcileGlobal True inc b) = sumCost (bd_models b)"
  by (simp_all add: reconcileGlobal_def Let_def)

lemma mergeDaily_positive:
  "0 < sumRequests (bd_models (ds_breakdown (mergeDaily t ex inc b))) \<Longrightarrow>
     ds_total_requests (mergeDaily t ex inc b) = sumRequests (bd_models (ds_breakdown (mergeDaily t ex inc b)))"
  "0 < sumTokens (bd_models (ds_breakdown (mergeDaily t ex inc b))) \<Longrightarrow>
     ds_total_tokens (mergeDaily t ex inc b) = sumTokens (bd_models (ds_breakdown (mergeDaily t ex inc b)))"
  "0 < sumCost (bd_models (ds_breakdown (mergeDaily t ex inc b))) \<Longrightarrow>
     ds_estimated_cost_usd (mergeDaily t ex inc b) = sumCost (bd_models (ds_breakdown (mergeDaily t ex inc b)))"
  by (simp_all add: mergeDaily_def Let_def)

lemma mergeDaily_healed:
  assumes "healedOrAbsent ex"
    and "incRequests inc = sumRequests (bd_models b)"
    and "incTokens inc = sumTokens (bd_models b)"
    and "incCost inc = sumCost (bd_models b)"
  shows "selfHealed (mergeDaily t ex inc b)"
  using assms
  by (cases ex)
     (simp_all add: mergeDaily_def Let_def selfHealed_def sums_mergeModels emptyBreakdown_def
        sums_nil healedOrAbsent_def)


lemma stat_date_dailyDelta [simp]:
  "ds_stat_date (dailyDelta ps pr ex today a b c e f g recs) = today"
  by (simp add: dailyDelta_def mergeDaily_def Let_def)

lemma getDailyStats_upsert [simp]:
  "getDailyStats (upsertDailyStats d r) (ds_stat_date r) = Some r"
  by (simp add: getDailyStats_def upsertDailyStats_def)

lemma daily_row_calculateDailyDelta:
  "\<exists>prevSnap prevRecs.
     getDailyStats (calculateDailyDelta d today a b c e f g recs) today =
       Some (dailyDelta prevSnap prevRecs (getDailyStats d today) today a b c e f g recs)
     \<and> (prevSnap = None \<longleftrightarrow> length (usage_snapshots d) < 2)"
proof -
  let ?ls = "getLatestSnapshots d 2"
  let ?ps = "if length ?ls \<ge> 2 then Some (?ls ! 1) else None"
  let ?pr = "case ?ps of Some p \<Rightarrow> getModelUsageBySnapshot d (us_id p) | None \<Rightarrow> []"
  have h1: "getDailyStats (calculateDailyDelta d today a b c e f g recs) today =
       Some (dailyDelta ?ps ?pr (getDailyStats d today) today a b c e f g recs)"
    unfolding calculateDailyDelta_def Let_def
    using getDailyStats_upsert[of d "dailyDelta ?ps ?pr (getDailyStats d today) today a b c e f g recs"]
    by simp
  have h2: "?ps = None \<longleftrightarrow> length (usage_snapshots d) < 2"
    by (auto simp: getLatestSnapshots_def)
  show ?thesis
    by (rule exI[of _ ?ps], rule exI[of _ ?pr], rule conjI[OF h1 h2])
qed

lemma daily_row_after_store:
  "\<exists>prevSnap prevRecs cum tc recs.
     getDailyStats (snd (storeUsageData d pricing now today (Some usage))) today =
       Some (dailyDelta prevSnap prevRecs (getDailyStats d today) today
               (ud_total_requests usage) (ud_success_count usage) (ud_failure_count usage)
               (ud_total_tokens usage) cum tc recs)
     \<and> (prevSnap = None \<longleftrightarrow> usage_snapshots d = [])"
proof -
  let ?sid = "int (length (usage_snapshots d)) + 1"
  obtain d3 cum tc recs where
    st: "snd (storeUsageData d pricing now today (Some usage)) =
           calculateDailyDelta d3 today (ud_total_requests usage) (ud_success_count usage)
             (ud_failure_count usage) (ud_total_tokens usage) cum tc recs"
    and len: "length (usage_snapshots d3) = length (usage_snapshots d) + 1"
    and ds: "daily_stats d3 = daily_stats d"
    by (cases "buildModelRecords pricing ?sid (ud_apis usage) = []")
       (simp_all add: storeUsageData_def Let_def insertUsageSnapshot_def updateSnapshotCost_def
          insertModelUsageBulk_def)
  have g: "getDailyStats d3 today = getDailyStats d today"
    by (simp add: getDailyStats_def ds)
  have l2: "length (usage_snapshots d3) < 2 \<longleftrightarrow> usage_snapshots d = []"
    using len by auto
  from daily_row_calculateDailyDelta[of d3 today "ud_total_requests usage"
         "ud_success_count usage" "ud_failure_count usage" "ud_total_tokens usage" cum tc recs]
  obtain prevSnap prevRecs where
    "getDailyStats (calculateDailyDelta d3 today (ud_total_requests usage)
        (ud_success_count usage) (ud_failure_count usage) (ud_total_tokens usage) cum tc recs) today =
       Some (dailyDelta prevSnap prevRecs (getDailyStats d3 today) today
               (ud_total_requests usage) (ud_success_count usage) (ud_failure_count usage)
               (ud_total_tokens usage) cum tc recs)"
    and "prevSnap = None \<longleftrightarrow> length (usage_snapshots d3) < 2"
    by blast
  then have "getDailyStats (snd (storeUsageData d pricing now today (Some usage))) today =
       Some (dailyDelta prevSnap prevRecs (getDailyStats d today) today
               (ud_total_requests usage) (ud_success_count usage) (ud_failure_count usage)
               (ud_total_tokens usage) cum tc recs)
     \<and> (prevSnap = None \<longleftrightarrow> usage_snapshots d = [])"
    using st g l2 by simp
  then show ?thesis by blast
qed


section \<open>Facts about the example stores, by evaluation\<close>

lemma storeS1_snapshots: "usage_snapshots storeS1 \<noteq> []"
  by code_simp

lemma storeS1_healed: "healedOrAbsent (getDailyStats storeS1 ''2025-01-01'')"
  by code_simp

lemma storeS2_row: "map_option rowTotals (getDailyStats storeS2 ''2025-01-01'') = Some (15, 1600, 42 / 625)"
  by code_simp


lemma storeS2_sums:
  "map_option rowSums (getDailyStats storeS2 ''2025-01-01'') = Some (15, 1600, 42 / 625)"
  by code_simp

section \<open>The self-healing sum\<close>

text \<open>
  Claim C1, as amended.  After every completed pass the row of the date touched by the
  pass exists, and each stored top-level total (cost, tokens, requests) equals the sum of
  the per-model breakdown whenever that sum is positive; and when a previous snapshot
  existed and the day's previous row (if any) already satisfied the three equalities, the
  new row satisfies all three, whatever the sign of the sums.
\<close>

theorem self_healing_sum:
  "\<exists>row. getDailyStats (snd (storeUsageData d pricing now today (Some usage))) today = Some row \<and>
     (0 < sumCost (bd_models (ds_breakdown row)) \<longrightarrow>
        ds_estimated_cost_usd row = sumCost (bd_models (ds_breakdown row))) \<and>
     (0 < sumTokens (bd_models (ds_breakdown row)) \<longrightarrow>
        ds_total_tokens row = sumTokens (bd_models (ds_breakdown row))) \<and>
     (0 < sumRequests (bd_models (ds_breakdown row)) \<longrightarrow>
        ds_total_requests row = sumRequests (bd_models (ds_breakdown row))) \<and>
     (usage_snapshots d \<noteq> [] \<and> healedOrAbsent (getDailyStats d today) \<longrightarrow> selfHealed row)"
proof -
  from daily_row_after_store[of d pricing now today usage]
  obtain prevSnap prevRecs cum tc recs where
    row: "getDailyStats (snd (storeUsageData d pricing now today (Some usage))) today =
       Some (dailyDelta prevSnap prevRecs (getDailyStats d today) today
               (ud_total_requests usage) (ud_success_count usage) (ud_failure_count usage)
               (ud_total_tokens usage) cum tc recs)"
    and ps: "prevSnap = None \<longleftrightarrow> usage_snapshots d = []"
    by blast
  let ?row = "dailyDelta prevSnap prevRecs (getDailyStats d today) today
               (ud_total_requests usage) (ud_success_count usage) (ud_failure_count usage)
               (ud_total_tokens usage) cum tc recs"
  obtain inc b where m: "?row = mergeDaily today (getDailyStats d today) inc b"
    and r: "prevSnap \<noteq> None \<Longrightarrow> incRequests inc = sumRequests (bd_models b) \<and>
              incTokens inc = sumTokens (bd_models b) \<and> incCost inc = sumCost (bd_models b)"
    by (simp add: dailyDelta_def Let_def reconcile_hasPrev)
  have "usage_snapshots d \<noteq> [] \<and> healedOrAbsent (getDailyStats d today) \<longrightarrow> selfHealed ?row"
    using r ps by (simp add: m mergeDaily_healed)
  then show ?thesis
    using row by (simp add: m mergeDaily_positive)
qed

text \<open>The theorem at the pass that stores S2 after S1: a previous snapshot exists, the
  row written by S1 is healed, the breakdown sums of the new row are positive.\<close>

theorem self_healing_sum_witness:
  "usage_snapshots storeS1 \<noteq> [] \<and> healedOrAbsent (getDailyStats storeS1 ''2025-01-01'') \<and>
   map_option rowSums (getDailyStats storeS2 ''2025-01-01'') = Some (15, 1600, 42 / 625) \<and>
   map_option selfHealed (getDailyStats storeS2 ''2025-01-01'') = Some True"
proof -
  from self_healing_sum[of storeS1 examplePricing 301000 "''2025-01-01''" reportS2]
  obtain row where
    "getDailyStats storeS2 ''2025-01-01'' = Some row"
    and "usage_snapshots storeS1 \<noteq> [] \<and> healedOrAbsent (getDailyStats storeS1 ''2025-01-01'')
           \<longrightarrow> selfHealed row"
    unfolding storeS2_def by blast
  then show ?thesis
    using storeS1_snapshots storeS1_healed storeS2_sums by simp
qed

text \<open>
  Claim C1 as stated fails on the first snapshot ever when the report has global counters
  but no per-model entries: the breakdown sums are 0, and the code falls back to the
  coarse increment (collector.ts, lines 481--492), so the stored totals are 10 requests
  and 1000 tokens against breakdown sums of 0.
\<close>

theorem self_healing_sum_counterexample:
  "map_option rowTotals
     (getDailyStats (snd (storeUsageData emptyDb examplePricing 1000 ''2025-01-01''
                            (Some reportNoModels))) ''2025-01-01'') = Some (10, 1000, 0) \<and>
   map_option rowSums
     (getDailyStats (snd (storeUsageData emptyDb examplePricing 1000 ''2025-01-01''
                            (Some reportNoModels))) ''2025-01-01'') = Some (0, 0, 0)"
  by code_simp

section \<open>Monotonicity of the daily counters\<close>

lemma set_js_set_aux:
  "set (foldl (\<lambda>acc x. if x \<in> set acc then acc else acc @ [x]) acc xs) = set acc \<union> set xs"
  by (induction xs arbitrary: acc) auto

lemma set_js_set [simp]: "set (js_set xs) = set xs"
  by (simp add: js_set_def set_js_set_aux)

lemma map_of_foldl_obj_set_mem:
  "map_of (foldl (\<lambda>m r. obj_set m (kf r) r) m0 recs) k = Some r \<Longrightarrow>
     r \<in> set recs \<or> map_of m0 k = Some r"
proof (induction recs arbitrary: m0)
  case Nil
  then show ?case by simp
next
  case (Cons x xs)
  from Cons.IH[OF Cons.prems[simplified]]
  show ?case
    by (cases "k = kf x") auto
qed

lemma map_of_buildUsageMap_mem:
  "map_of (buildUsageMap recs) k = Some r \<Longrightarrow> r \<in> set recs"
  unfolding buildUsageMap_def
  by (drule map_of_foldl_obj_set_mem) simp

lemma granularDeltas_allKeys:
  "granularDeltas pr mr inc =
     foldl (granularStep (buildUsageMap pr) (buildUsageMap mr)) (inc, emptyBreakdown) (allKeys pr mr)"
  by (simp add: granularDeltas_def allKeys_def Let_def)

lemma not_in_allKeys:
  assumes "k \<notin> set (allKeys pr mr)"
  shows "map_of (buildUsageMap pr) k = None" "map_of (buildUsageMap mr) k = None"
  using assms by (auto simp: allKeys_def map_of_eq_None_iff)

lemma keyDelta_nonneg:
  assumes "0 \<le> dReq (currentTuple cur)" "0 \<le> dTok (currentTuple cur)"
  shows "0 \<le> dReq (keyDelta prv cur)" "0 \<le> dTok (keyDelta prv cur)"
  using assms by (auto simp: keyDelta_def Let_def)

lemma keyDelta_cost_nonneg:
  assumes "0 \<le> dCost (currentTuple cur)" "dCost (currentTuple prv) \<le> dCost (currentTuple cur)"
  shows "0 \<le> dCost (keyDelta prv cur)"
  using assms by (auto simp: keyDelta_def Let_def)

lemma currentTuple_nonneg:
  assumes "nonnegRecords recs"
  shows "0 \<le> dReq (currentTuple (map_of (buildUsageMap recs) k))"
        "0 \<le> dTok (currentTuple (map_of (buildUsageMap recs) k))"
        "0 \<le> dCost (currentTuple (map_of (buildUsageMap recs) k))"
  using assms
  by (auto simp: currentTuple_def nonnegRecords_def list_all_iff split: option.splits
           dest!: map_of_buildUsageMap_mem)

lemma granularStep_sums_mono:
  assumes "0 \<le> dReq (keyDelta (map_of pm k) (map_of cm k))"
    and "0 \<le> dTok (keyDelta (map_of pm k) (map_of cm k))"
  shows "sumRequests (bd_models (snd st)) \<le> sumRequests (bd_models (snd (granularStep pm cm st k)))"
        "sumTokens (bd_models (snd st)) \<le> sumTokens (bd_models (snd (granularStep pm cm st k)))"
  using assms by (simp_all add: granularStep_def Let_def sums_addToBreakdown)


lemma granularStep_cost_mono:
  assumes "0 \<le> dCost (keyDelta (map_of pm k) (map_of cm k))"
  shows "sumCost (bd_models (snd st)) \<le> sumCost (bd_models (snd (granularStep pm cm st k)))"
  using assms by (simp add: granularStep_def Let_def sums_addToBreakdown)

lemma granular_fold_counts_mono:
  assumes "\<And>k. 0 \<le> dReq (keyDelta (map_of pm k) (map_of cm k))"
    and "\<And>k. 0 \<le> dTok (keyDelta (map_of pm k) (map_of cm k))"
  shows "sumRequests (bd_models (snd st)) \<le> sumRequests (bd_models (snd (foldl (granularStep pm cm) st keys)))
       \<and> sumTokens (bd_models (snd st)) \<le> sumTokens (bd_models (snd (foldl (granularStep pm cm) st keys)))"
proof (induction keys arbitrary: st)
  case Nil
  then show ?case by simp
next
  case (Cons k ks)
  from granularStep_sums_mono[OF assms(1)[of k] assms(2)[of k], of st] Cons.IH[of "granularStep pm cm st k"]
  show ?case by simp
qed

lemma granular_fold_cost_mono:
  assumes "\<And>k. 0 \<le> dCost (keyDelta (map_of pm k) (map_of cm k))"
  shows "sumCost (bd_models (snd st)) \<le> sumCost (bd_models (snd (foldl (granularStep pm cm) st keys)))"
proof (induction keys arbitrary: st)
  case Nil
  then show ?case by simp
next
  case (Cons k ks)
  from granularStep_cost_mono[OF assms[of k], of st] Cons.IH[of "granularStep pm cm st k"]
  show ?case by simp
qed

lemma granularDeltas_counts_nonneg:
  assumes "nonnegRecords mr"
  shows "0 \<le> sumRequests (bd_models (snd (granularDeltas pr mr inc)))"
        "0 \<le> sumTokens (bd_models (snd (granularDeltas pr mr inc)))"
  using granular_fold_counts_mono[of "buildUsageMap pr" "buildUsageMap mr" "(inc, emptyBreakdown)" "allKeys pr mr",
          OF keyDelta_nonneg(1) keyDelta_nonneg(2)]
        currentTuple_nonneg[OF assms]
  by (simp_all add: granularDeltas_allKeys emptyBreakdown_def sums_nil)

lemma granularDeltas_cost_nonneg:
  assumes "nonnegRecords mr" and "costNondecreasing pr mr"
  shows "0 \<le> sumCost (bd_models (snd (granularDeltas pr mr inc)))"
proof -
  have "0 \<le> dCost (keyDelta (map_of (buildUsageMap pr) k) (map_of (buildUsageMap mr) k))" for k
  proof (cases "k \<in> set (allKeys pr mr)")
    case True
    then have "keyCost pr k \<le> keyCost mr k"
      using assms(2) by (simp add: costNondecreasing_def list_all_iff)
    then show ?thesis
      using currentTuple_nonneg(3)[OF assms(1), of k]
      by (intro keyDelta_cost_nonneg) (simp_all add: keyCost_def)
  next
    case False
    then show ?thesis
      by (simp add: not_in_allKeys keyDelta_def currentTuple_def Let_def)
  qed
  from granular_fold_cost_mono[of "buildUsageMap pr" "buildUsageMap mr" "(inc, emptyBreakdown)" "allKeys pr mr", OF this]
  show ?thesis
    by (simp add: granularDeltas_allKeys emptyBreakdown_def sums_nil)
qed

lemma mergeDaily_totals_mono:
  assumes "selfHealed e"
    and "incRequests inc = sumRequests (bd_models b)"
    and "incTokens inc = sumTokens (bd_models b)"
    and "incCost inc = sumCost (bd_models b)"
  shows "0 \<le> sumRequests (bd_models b) \<Longrightarrow>
           ds_total_requests e \<le> ds_total_requests (mergeDaily t (Some e) inc b)"
        "0 \<le> sumTokens (bd_models b) \<Longrightarrow>
           ds_total_tokens e \<le> ds_total_tokens (mergeDaily t (Some e) inc b)"
        "0 \<le> sumCost (bd_models b) \<Longrightarrow>
           ds_estimated_cost_usd e \<le> ds_estimated_cost_usd (mergeDaily t (Some e) inc b)"
  using assms by (simp_all add: mergeDaily_def Let_def selfHealed_def sums_mergeModels)

lemma storeS2_is_rowS2: "getDailyStats storeS2 ''2025-01-01'' = Some rowS2"
  by code_simp

lemma rowS1_healed: "selfHealed rowS1"
  by code_simp

lemma recordsS2_nonneg: "nonnegRecords recordsS2"
  by code_simp

lemma S1_S2_cost_nondecreasing: "costNondecreasing recordsS1 recordsS2"
  by code_simp

text \<open>
  Claim C2, as amended.  In a pass that has a previous snapshot, if the day's existing row
  satisfies the self-healing equalities and no current per-model row carries a negative
  counter, then \<open>total_requests\<close> and \<open>total_tokens\<close> of the day do not decrease; and if
  moreover no key's cost is lower in the current rows than in the previous ones,
  \<open>estimated_cost_usd\<close> does not decrease either.
\<close>

theorem daily_counters_monotone:
  assumes "selfHealed e" and "nonnegRecords modelRecords"
  shows "ds_total_requests e \<le>
           ds_total_requests (dailyDelta (Some p) prevUsageRecords (Some e) today
                                cr cs cf ct cum tc modelRecords) \<and>
         ds_total_tokens e \<le>
           ds_total_tokens (dailyDelta (Some p) prevUsageRecords (Some e) today
                              cr cs cf ct cum tc modelRecords) \<and>
         (costNondecreasing prevUsageRecords modelRecords \<longrightarrow>
            ds_estimated_cost_usd e \<le>
              ds_estimated_cost_usd (dailyDelta (Some p) prevUsageRecords (Some e) today
                                       cr cs cf ct cum tc modelRecords))"
proof -
  let ?inc0 = "coarseDelta (Some p) cr cs cf ct cum tc"
  let ?gr = "granularDeltas prevUsageRecords modelRecords ?inc0"
  let ?inc = "reconcileGlobal True (fst ?gr) (snd ?gr)"
  have row: "dailyDelta (Some p) prevUsageRecords (Some e) today cr cs cf ct cum tc modelRecords
             = mergeDaily today (Some e) ?inc (snd ?gr)"
    by (simp add: dailyDelta_def Let_def)
  note m = mergeDaily_totals_mono[OF assms(1) reconcile_hasPrev(1) reconcile_hasPrev(2)
               reconcile_hasPrev(3), where inc1 = "fst ?gr" and b = "snd ?gr" and t = today]
  show ?thesis
    unfolding row
    using m granularDeltas_counts_nonneg[OF assms(2)] granularDeltas_cost_nonneg[OF assms(2)]
    by blast
qed

text \<open>The theorem at the pass S2 after S1 (the row it computes is the row the store
  holds after S2): the counters go from (10, 1000, 0.042) to (15, 1600, 0.0672).\<close>

theorem daily_counters_monotone_witness:
  "selfHealed rowS1 \<and> nonnegRecords recordsS2 \<and> costNondecreasing recordsS1 recordsS2 \<and>
   ds_total_requests rowS1 \<le> ds_total_requests rowS2 \<and>
   ds_total_tokens rowS1 \<le> ds_total_tokens rowS2 \<and>
   ds_estimated_cost_usd rowS1 \<le> ds_estimated_cost_usd rowS2"
  using daily_counters_monotone[OF rowS1_healed recordsS2_nonneg, of snapshotS1 recordsS1
          "''2025-01-01''" 15 15 0 1600 "273 / 2500" "42 / 625"]
        rowS1_healed recordsS2_nonneg S1_S2_cost_nondecreasing
  by (simp add: rowS2_def)

text \<open>
  Claim C2 as stated fails in two ways.  (a) The store's first report has global counters
  but no per-model entries, so the day's row is written from the coarse increment
  (10 requests, 1000 tokens); the next report has the same global counters and attributes
  3 requests and 300 tokens to gpt-4, and the totals, now recomputed from the breakdown,
  drop to 3 and 300.  (b) S1 is followed by S2 (all counters grow), but the pricing table
  read by the second pass is cheaper; the per-key cost delta is negative and the day's
  cost drops from 0.042 to 0.00672.
\<close>

theorem daily_counters_monotone_counterexample:
  "map_option rowTotals (getDailyStats storeNoModels ''2025-01-01'') = Some (10, 1000, 0) \<and>
   map_option rowTotals
     (getDailyStats (snd (storeUsageData storeNoModels examplePricing 301000 ''2025-01-01''
                            (Some reportThreeOfTen))) ''2025-01-01'') = Some (3, 300, 63 / 5000) \<and>
   map_option rowTotals (getDailyStats storeS1 ''2025-01-01'') = Some (10, 1000, 21 / 500) \<and>
   map_option rowTotals
     (getDailyStats (snd (storeUsageData storeS1 cheaperPricing 301000 ''2025-01-01''
                            (Some reportS2))) ''2025-01-01'') = Some (15, 1600, 21 / 3125)"
  by code_simp

section \<open>The false-start filter\<close>

lemma filter_obj_set_same:
  "filter (\<lambda>kv. fst kv \<noteq> k) (obj_set m k v) = filter (\<lambda>kv. fst kv \<noteq> k) m"
  by (induction m) auto

lemma filter_obj_set_other:
  "k' \<noteq> k \<Longrightarrow>
   filter (\<lambda>kv. fst kv \<noteq> k) (obj_set m k' v) = obj_set (filter (\<lambda>kv. fst kv \<noteq> k) m) k' v"
  by (induction m) auto

lemma buildUsageMap_filter_aux:
  "foldl (\<lambda>m r. obj_set m (usageKey r) r) (filter (\<lambda>kv. fst kv \<noteq> k) m0)
         (filter (\<lambda>r. usageKey r \<noteq> k) recs) =
   filter (\<lambda>kv. fst kv \<noteq> k) (foldl (\<lambda>m r. obj_set m (usageKey r) r) m0 recs)"
proof (induction recs arbitrary: m0)
  case Nil
  then show ?case by simp
next
  case (Cons x xs)
  show ?case
  proof (cases "usageKey x = k")
    case True
    then show ?thesis
      using Cons.IH[of "obj_set m0 k x"] by (simp add: filter_obj_set_same)
  next
    case False
    then show ?thesis
      using Cons.IH[of "obj_set m0 (usageKey x) x"] by (simp add: filter_obj_set_other)
  qed
qed

lemma buildUsageMap_withoutKey:
  "buildUsageMap (withoutKey k recs) = filter (\<lambda>kv. fst kv \<noteq> k) (buildUsageMap recs)"
  using buildUsageMap_filter_aux[of k "[]" recs]
  by (simp add: buildUsageMap_def withoutKey_def)

lemma map_of_filter_key:
  "map_of (filter (\<lambda>kv. fst kv \<noteq> k) m) k' = (if k' = k then None else map_of m k')"
  by (induction m) auto

lemma js_set_filter_aux:
  "foldl (\<lambda>acc x. if x \<in> set acc then acc else acc @ [x]) (filter P acc) (filter P xs) =
   filter P (foldl (\<lambda>acc x. if x \<in> set acc then acc else acc @ [x]) acc xs)"
proof (induction xs arbitrary: acc)
  case Nil
  then show ?case by simp
next
  case (Cons a xs)
  show ?case
  proof (cases "a \<in> set acc")
    case True
    then show ?thesis using Cons.IH[of acc] by simp
  next
    case False
    then show ?thesis
      using Cons.IH[of "acc @ [a]"] Cons.IH[of acc] by (cases "P a") simp_all
  qed
qed

lemma js_set_filter: "js_set (filter P xs) = filter P (js_set xs)"
  using js_set_filter_aux[of P "[]" xs] by (simp add: js_set_def)

lemma allKeys_withoutKey:
  assumes "map_of (buildUsageMap pr) k = None"
  shows "allKeys pr (withoutKey k mr) = filter (\<lambda>x. x \<noteq> k) (allKeys pr mr)"
proof -
  have "k \<notin> fst ` set (buildUsageMap pr)"
    using assms by (simp add: map_of_eq_None_iff)
  then have "filter (\<lambda>x. x \<noteq> k) (map fst (buildUsageMap pr)) = map fst (buildUsageMap pr)"
    by (auto simp: filter_id_conv)
  then show ?thesis
    by (simp add: allKeys_def buildUsageMap_withoutKey js_set_filter[symmetric] filter_map o_def)
qed


lemma granularStep_snd_cong:
  assumes "snd st = snd st'" and "map_of cm' k = map_of cm k"
  shows "snd (granularStep pm cm' st' k) = snd (granularStep pm cm st k)"
  using assms by (simp add: granularStep_def Let_def)

lemma granularStep_skip:
  assumes "falseStart (keyDelta (map_of pm k) (map_of cm k)) (dCost (currentTuple (map_of cm k)))"
  shows "snd (granularStep pm cm st k) = snd st"
  using assms by (simp add: granularStep_def Let_def)

lemma granular_fold_without_skipped:
  assumes skip: "falseStart (keyDelta (map_of pm k) (map_of cm k)) (dCost (currentTuple (map_of cm k)))"
    and agree: "\<And>k'. k' \<noteq> k \<Longrightarrow> map_of cm' k' = map_of cm k'"
  shows "snd st = snd st' \<Longrightarrow>
         snd (foldl (granularStep pm cm) st keys) =
         snd (foldl (granularStep pm cm') st' (filter (\<lambda>x. x \<noteq> k) keys))"
proof (induction keys arbitrary: st st')
  case Nil
  then show ?case by simp
next
  case (Cons x xs)
  show ?case
  proof (cases "x = k")
    case True
    have "snd (granularStep pm cm st k) = snd st'"
      using granularStep_skip[OF skip, of st] Cons.prems by simp
    from Cons.IH[OF this] True show ?thesis by simp
  next
    case False
    have "snd (granularStep pm cm st x) = snd (granularStep pm cm' st' x)"
      using granularStep_snd_cong[OF Cons.prems agree[OF False], of pm] by simp
    from Cons.IH[OF this] False show ?thesis by simp
  qed
qed

lemma keyDelta_first_appearance: "keyDelta None (Some r) = currentTuple (Some r)"
  by (simp add: keyDelta_def currentTuple_def Let_def)

lemma falseStart_first_appearance:
  assumes "10 < mu_estimated_cost_usd r"
  shows "falseStart (keyDelta None (Some r)) (dCost (currentTuple (Some r)))"
  using assms
  by (simp add: keyDelta_first_appearance falseStart_def FALSE_START_COST_THRESHOLD_def
      currentTuple_def)

lemma granularDeltas_withoutKey:
  assumes "map_of (buildUsageMap pr) k = None"
    and "map_of (buildUsageMap mr) k = Some r"
    and "10 < mu_estimated_cost_usd r"
  shows "snd (granularDeltas pr (withoutKey k mr) inc) = snd (granularDeltas pr mr inc)"
proof -
  have skip: "falseStart (keyDelta (map_of (buildUsageMap pr) k) (map_of (buildUsageMap mr) k))
                (dCost (currentTuple (map_of (buildUsageMap mr) k)))"
    using falseStart_first_appearance[OF assms(3)] by (simp add: assms(1,2))
  have agree: "\<And>k'. k' \<noteq> k \<Longrightarrow>
      map_of (buildUsageMap (withoutKey k mr)) k' = map_of (buildUsageMap mr) k'"
    by (simp add: buildUsageMap_withoutKey map_of_filter_key)
  from granular_fold_without_skipped[OF skip agree, of "(inc, emptyBreakdown)" "(inc, emptyBreakdown)"
         "allKeys pr mr"]
  show ?thesis
    by (simp add: granularDeltas_allKeys allKeys_withoutKey[OF assms(1)])
qed

lemma dailyDelta_depends_on_breakdown:
  assumes "snd (granularDeltas pr mr' (coarseDelta (Some p) cr cs cf ct cum tc)) =
           snd (granularDeltas pr mr (coarseDelta (Some p) cr cs cf ct cum tc))"
  shows "ds_breakdown (dailyDelta (Some p) pr ex today cr cs cf ct cum tc mr') =
         ds_breakdown (dailyDelta (Some p) pr ex today cr cs cf ct cum tc mr)"
    and "rowTotals (dailyDelta (Some p) pr ex today cr cs cf ct cum tc mr') =
         rowTotals (dailyDelta (Some p) pr ex today cr cs cf ct cum tc mr)"
  using assms
  by (simp_all add: dailyDelta_def mergeDaily_def Let_def reconcile_hasPrev rowTotals_def)

text \<open>
  Claim C3, as amended.  In the granular loop, a key whose delta \<open>dCost\<close> exceeds 10 USD
  with \<open>|dCost - cCost| < 0.1\<close> leaves the breakdown delta unchanged and has its \<open>dReq\<close>,
  \<open>dTok\<close> and \<open>dCost\<close> subtracted from the coarse increments.  In particular, when a
  (model, endpoint) key has no row in the previous snapshot and its current row carries a
  cost above 10 USD, the day's row has the same breakdown and the same
  \<open>total_requests\<close>, \<open>total_tokens\<close> and \<open>estimated_cost_usd\<close> as if the current report
  had no row for that key.
\<close>

theorem false_start_filter:
  "(10 < dCost (keyDelta (map_of pm k) (map_of cm k)) \<and>
    \<bar>dCost (keyDelta (map_of pm k) (map_of cm k)) - dCost (currentTuple (map_of cm k))\<bar> < 1 / 10
    \<longrightarrow> granularStep pm cm (inc, b) k =
          (inc\<lparr>incRequests := incRequests inc - dReq (keyDelta (map_of pm k) (map_of cm k)),
               incTokens := incTokens inc - dTok (keyDelta (map_of pm k) (map_of cm k)),
               incCost := incCost inc - dCost (keyDelta (map_of pm k) (map_of cm k))\<rparr>, b)) \<and>
   (map_of (buildUsageMap prevUsageRecords) k = None \<and>
    map_of (buildUsageMap modelRecords) k = Some r \<and> 10 < mu_estimated_cost_usd r
    \<longrightarrow> ds_breakdown (dailyDelta (Some p) prevUsageRecords ex today cr cs cf ct cum tc modelRecords) =
          ds_breakdown (dailyDelta (Some p) prevUsageRecords ex today cr cs cf ct cum tc
                          (withoutKey k modelRecords)) \<and>
        rowTotals (dailyDelta (Some p) prevUsageRecords ex today cr cs cf ct cum tc modelRecords) =
          rowTotals (dailyDelta (Some p) prevUsageRecords ex today cr cs cf ct cum tc
                       (withoutKey k modelRecords)))"
proof (intro conjI impI)
  assume "10 < dCost (keyDelta (map_of pm k) (map_of cm k)) \<and>
    \<bar>dCost (keyDelta (map_of pm k) (map_of cm k)) - dCost (currentTuple (map_of cm k))\<bar> < 1 / 10"
  then show "granularStep pm cm (inc, b) k =
          (inc\<lparr>incRequests := incRequests inc - dReq (keyDelta (map_of pm k) (map_of cm k)),
               incTokens := incTokens inc - dTok (keyDelta (map_of pm k) (map_of cm k)),
               incCost := incCost inc - dCost (keyDelta (map_of pm k) (map_of cm k))\<rparr>, b)"
    by (simp add: granularStep_def Let_def falseStart_def FALSE_START_COST_THRESHOLD_def)
next
  assume h: "map_of (buildUsageMap prevUsageRecords) k = None \<and>
    map_of (buildUsageMap modelRecords) k = Some r \<and> 10 < mu_estimated_cost_usd r"
  then have eq: "snd (granularDeltas prevUsageRecords (withoutKey k modelRecords)
                        (coarseDelta (Some p) cr cs cf ct cum tc)) =
                 snd (granularDeltas prevUsageRecords modelRecords
                        (coarseDelta (Some p) cr cs cf ct cum tc))"
    by (intro granularDeltas_withoutKey) auto
  from dailyDelta_depends_on_breakdown(1)[OF eq]
  show "ds_breakdown (dailyDelta (Some p) prevUsageRecords ex today cr cs cf ct cum tc modelRecords) =
          ds_breakdown (dailyDelta (Some p) prevUsageRecords ex today cr cs cf ct cum tc
                          (withoutKey k modelRecords))"
    by simp
  from dailyDelta_depends_on_breakdown(2)[OF eq]
  show "rowTotals (dailyDelta (Some p) prevUsageRecords ex today cr cs cf ct cum tc modelRecords) =
          rowTotals (dailyDelta (Some p) prevUsageRecords ex today cr cs cf ct cum tc
                       (withoutKey k modelRecords))"
    by simp
qed

text \<open>The theorem at scenario S4: claude-opus first appears under the key
  \<open>claude-opus|chat\<close> with 50 requests, a million tokens and a cost of 45 USD.\<close>

theorem false_start_filter_witness:
  "10 < dCost (keyDelta (map_of (buildUsageMap recordsS2) opusKey)
                        (map_of (buildUsageMap recordsS4) opusKey)) \<and>
   \<bar>dCost (keyDelta (map_of (buildUsageMap recordsS2) opusKey)
                    (map_of (buildUsageMap recordsS4) opusKey))
     - dCost (currentTuple (map_of (buildUsageMap recordsS4) opusKey))\<bar> < 1 / 10 \<and>
   granularStep (buildUsageMap recordsS2) (buildUsageMap recordsS4) (incS4, emptyBreakdown) opusKey =
     (incS4\<lparr>incRequests := 0, incTokens := 0, incCost := 42 / 625\<rparr>, emptyBreakdown) \<and>
   map_of (buildUsageMap recordsS2) opusKey = None \<and>
   map_of (buildUsageMap recordsS4) opusKey = Some opusRecord \<and>
   10 < mu_estimated_cost_usd opusRecord \<and>
   ds_breakdown (dailyDelta (Some snapshotS2) recordsS2 (Some rowS2) ''2025-01-01''
                   65 65 0 1001600 (273 / 2500 + 28167 / 625) (28167 / 625) recordsS4) =
     ds_breakdown (dailyDelta (Some snapshotS2) recordsS2 (Some rowS2) ''2025-01-01''
                     65 65 0 1001600 (273 / 2500 + 28167 / 625) (28167 / 625)
                     (withoutKey opusKey recordsS4)) \<and>
   rowTotals (dailyDelta (Some snapshotS2) recordsS2 (Some rowS2) ''2025-01-01''
                65 65 0 1001600 (273 / 2500 + 28167 / 625) (28167 / 625) recordsS4) =
     rowTotals (dailyDelta (Some snapshotS2) recordsS2 (Some rowS2) ''2025-01-01''
                  65 65 0 1001600 (273 / 2500 + 28167 / 625) (28167 / 625)
                  (withoutKey opusKey recordsS4))"
proof -
  have a1: "10 < dCost (keyDelta (map_of (buildUsageMap recordsS2) opusKey)
                                 (map_of (buildUsageMap recordsS4) opusKey))"
    by code_simp
  have a2: "\<bar>dCost (keyDelta (map_of (buildUsageMap recordsS2) opusKey)
                            (map_of (buildUsageMap recordsS4) opusKey))
             - dCost (currentTuple (map_of (buildUsageMap recordsS4) opusKey))\<bar> < 1 / 10"
    by code_simp
  have b1: "map_of (buildUsageMap recordsS2) opusKey = None"
    by code_simp
  have b2: "map_of (buildUsageMap recordsS4) opusKey = Some opusRecord"
    by code_simp
  have b3: "10 < mu_estimated_cost_usd opusRecord"
    by (simp add: opusRecord_def)
  have v: "incS4\<lparr>incRequests :=
                    incRequests incS4
                      - dReq (keyDelta (map_of (buildUsageMap recordsS2) opusKey)
                                       (map_of (buildUsageMap recordsS4) opusKey)),
                 incTokens :=
                    incTokens incS4
                      - dTok (keyDelta (map_of (buildUsageMap recordsS2) opusKey)
                                       (map_of (buildUsageMap recordsS4) opusKey)),
                 incCost :=
                    incCost incS4
                      - dCost (keyDelta (map_of (buildUsageMap recordsS2) opusKey)
                                        (map_of (buildUsageMap recordsS4) opusKey))\<rparr>
           = incS4\<lparr>incRequests := 0, incTokens := 0, incCost := 42 / 625\<rparr>"
    by code_simp
  note t = false_start_filter[where pm = "buildUsageMap recordsS2" and k = opusKey
      and cm = "buildUsageMap recordsS4" and inc = incS4 and b = emptyBreakdown
      and prevUsageRecords = recordsS2 and modelRecords = recordsS4 and r = opusRecord
      and p = snapshotS2 and ex = "Some rowS2" and today = "''2025-01-01''"
      and cr = 65 and cs = 65 and cf = 0 and ct = 1001600
      and cum = "273 / 2500 + 28167 / 625" and tc = "28167 / 625"]
  from t a1 a2 v have c1:
    "granularStep (buildUsageMap recordsS2) (buildUsageMap recordsS4) (incS4, emptyBreakdown) opusKey =
       (incS4\<lparr>incRequests := 0, incTokens := 0, incCost := 42 / 625\<rparr>, emptyBreakdown)"
    by simp
  from t b1 b2 b3 have c2:
    "ds_breakdown (dailyDelta (Some snapshotS2) recordsS2 (Some rowS2) ''2025-01-01''
                   65 65 0 1001600 (273 / 2500 + 28167 / 625) (28167 / 625) recordsS4) =
     ds_breakdown (dailyDelta (Some snapshotS2) recordsS2 (Some rowS2) ''2025-01-01''
                     65 65 0 1001600 (273 / 2500 + 28167 / 625) (28167 / 625)
                     (withoutKey opusKey recordsS4)) \<and>
     rowTotals (dailyDelta (Some snapshotS2) recordsS2 (Some rowS2) ''2025-01-01''
                65 65 0 1001600 (273 / 2500 + 28167 / 625) (28167 / 625) recordsS4) =
     rowTotals (dailyDelta (Some snapshotS2) recordsS2 (Some rowS2) ''2025-01-01''
                  65 65 0 1001600 (273 / 2500 + 28167 / 625) (28167 / 625)
                  (withoutKey opusKey recordsS4))"
    by blast
  from a1 a2 c1 b1 b2 b3 c2 show ?thesis by blast
qed

text \<open>
  Claim C3 as stated fails in two ways.  (a) In scenario S4 (S2's report plus the new
  model, global counters 50 higher) the day's requests, tokens and cost stay at
  (15, 1600, 0.0672), but \<open>success_count\<close> goes from 15 to 65: the filter has already
  subtracted the skipped requests from \<open>incRequests\<close> when the attenuation ratio of lines
  396--404 is computed, so the 50 successes of the skipped model are added to the day.
  (b) The threshold applies to each (model, endpoint) key: claude-opus first appearing on
  two endpoints with 9 USD under each key is not skipped, and the day's breakdown records
  18 USD for it.
\<close>

theorem false_start_filter_counterexample:
  "map_option ds_success_count (getDailyStats storeS2 ''2025-01-01'') = Some 15 \<and>
   map_option ds_success_count (getDailyStats storeS4 ''2025-01-01'') = Some 65 \<and>
   map_option rowTotals (getDailyStats storeS4 ''2025-01-01'') = Some (15, 1600, 42 / 625) \<and>
   modelCostIn (getDailyStats storeS4 ''2025-01-01'') ''claude-opus'' = None \<and>
   modelCostIn
     (getDailyStats (snd (storeUsageData storeS2 examplePricing 601000 ''2025-01-01''
                            (Some reportTwoEndpoints))) ''2025-01-01'') ''claude-opus'' = Some 18"
  by code_simp

section \<open>Restart recovery\<close>

lemma coarseDelta_restart:
  assumes "cr < us_total_requests p \<or> ct < us_total_tokens p"
  shows "coarseDelta (Some p) cr cs cf ct cum tc =
           \<lparr>incRequests = cr, incSuccess = cs, incFailure = cf, incTokens = ct, incCost = tc\<rparr>"
  using assms by (auto simp: coarseDelta_def Let_def)

lemma keyDelta_restart:
  assumes "dReq (currentTuple cur) < dReq (currentTuple prv) \<or>
           dTok (currentTuple cur) < dTok (currentTuple prv)"
  shows "keyDelta prv cur = currentTuple cur"
  using assms by (auto simp: keyDelta_def Let_def)

lemma keyDelta_new: "keyDelta None cur = currentTuple cur"
  by (simp add: keyDelta_def currentTuple_def Let_def)

lemma keyDelta_keptReset:
  assumes "keptReset pr mr k"
  shows "keyDelta (map_of (buildUsageMap pr) k) (map_of (buildUsageMap mr) k) = currentOf mr k"
  using assms keyDelta_restart[of "map_of (buildUsageMap mr) k" "map_of (buildUsageMap pr) k"]
  by (auto simp: keptReset_def currentOf_def keyDelta_new)

lemma granularStep_restart:
  assumes "dReq (currentTuple (map_of cm k)) < dReq (currentTuple (map_of pm k)) \<or>
           dTok (currentTuple (map_of cm k)) < dTok (currentTuple (map_of pm k))"
    and "dCost (currentTuple (map_of cm k)) \<le> 10"
    and "0 < dReq (currentTuple (map_of cm k)) \<or> 0 < dCost (currentTuple (map_of cm k))"
  shows "granularStep pm cm (inc, b) k =
           (inc, addToBreakdown b (fst (splitKey k)) (snd (splitKey k)) (currentTuple (map_of cm k)))"
  using assms(2,3)
  by (auto simp: granularStep_def Let_def keyDelta_restart[OF assms(1)] falseStart_def
      FALSE_START_COST_THRESHOLD_def)

lemma granularStep_keptReset_sums:
  assumes "keptReset pr mr k"
  shows "sumRequests (bd_models (snd (granularStep (buildUsageMap pr) (buildUsageMap mr) st k))) =
           sumRequests (bd_models (snd st)) + dReq (currentOf mr k)"
    and "sumTokens (bd_models (snd (granularStep (buildUsageMap pr) (buildUsageMap mr) st k))) =
           sumTokens (bd_models (snd st)) + dTok (currentOf mr k)"
    and "sumCost (bd_models (snd (granularStep (buildUsageMap pr) (buildUsageMap mr) st k))) =
           sumCost (bd_models (snd st)) + dCost (currentOf mr k)"
proof -
  have kd: "keyDelta (map_of (buildUsageMap pr) k) (map_of (buildUsageMap mr) k) = currentOf mr k"
    by (rule keyDelta_keptReset[OF assms])
  have nf: "\<not> falseStart (currentOf mr k) (dCost (currentOf mr k))"
    using assms by (simp add: keptReset_def falseStart_def FALSE_START_COST_THRESHOLD_def)
  have z: "\<not> (0 < dReq (currentOf mr k) \<or> 0 < dCost (currentOf mr k)) \<Longrightarrow>
             dReq (currentOf mr k) = 0 \<and> dTok (currentOf mr k) = 0 \<and> dCost (currentOf mr k) = 0"
    using assms by (auto simp: keptReset_def currentOf_def currentTuple_def)
  have c: "dCost (currentTuple (map_of (buildUsageMap mr) k)) = dCost (currentOf mr k)"
    by (simp add: currentOf_def)
  show "sumRequests (bd_models (snd (granularStep (buildUsageMap pr) (buildUsageMap mr) st k))) =
           sumRequests (bd_models (snd st)) + dReq (currentOf mr k)"
    using nf z by (auto simp: granularStep_def Let_def kd c sums_addToBreakdown)
  show "sumTokens (bd_models (snd (granularStep (buildUsageMap pr) (buildUsageMap mr) st k))) =
           sumTokens (bd_models (snd st)) + dTok (currentOf mr k)"
    using nf z by (auto simp: granularStep_def Let_def kd c sums_addToBreakdown)
  show "sumCost (bd_models (snd (granularStep (buildUsageMap pr) (buildUsageMap mr) st k))) =
           sumCost (bd_models (snd st)) + dCost (currentOf mr k)"
    using nf z by (auto simp: granularStep_def Let_def kd c sums_addToBreakdown)
qed

lemma granular_fold_keptReset_sums:
  assumes "list_all (keptReset pr mr) keys"
  shows "sumRequests (bd_models (snd (foldl (granularStep (buildUsageMap pr) (buildUsageMap mr)) st keys))) =
           sumRequests (bd_models (snd st)) + sum_list (map (\<lambda>k. dReq (currentOf mr k)) keys)
       \<and> sumTokens (bd_models (snd (foldl (granularStep (buildUsageMap pr) (buildUsageMap mr)) st keys))) =
           sumTokens (bd_models (snd st)) + sum_list (map (\<lambda>k. dTok (currentOf mr k)) keys)
       \<and> sumCost (bd_models (snd (foldl (granularStep (buildUsageMap pr) (buildUsageMap mr)) st keys))) =
           sumCost (bd_models (snd st)) + sum_list (map (\<lambda>k. dCost (currentOf mr k)) keys)"
  using assms
proof (induction keys arbitrary: st)
  case Nil
  then show ?case by simp
next
  case (Cons k ks)
  then have k: "keptReset pr mr k" and ks: "list_all (keptReset pr mr) ks" by simp_all
  from Cons.IH[OF ks, of "granularStep (buildUsageMap pr) (buildUsageMap mr) st k"]
       granularStep_keptReset_sums[OF k, of st]
  show ?case by simp
qed

lemma granularDeltas_keptReset_sums:
  assumes "list_all (keptReset pr mr) (allKeys pr mr)"
  shows "(sumRequests (bd_models (snd (granularDeltas pr mr inc))),
          sumTokens (bd_models (snd (granularDeltas pr mr inc))),
          sumCost (bd_models (snd (granularDeltas pr mr inc)))) = currentSums pr mr"
  using granular_fold_keptReset_sums[OF assms, of "(inc, emptyBreakdown)"]
  by (simp add: granularDeltas_allKeys currentSums_def emptyBreakdown_def sums_nil)

lemma mergeDaily_totals_add:
  assumes "selfHealed e"
    and "incRequests inc = sumRequests (bd_models b)"
    and "incTokens inc = sumTokens (bd_models b)"
    and "incCost inc = sumCost (bd_models b)"
  shows "ds_total_requests (mergeDaily t (Some e) inc b) = ds_total_requests e + sumRequests (bd_models b)"
        "ds_total_tokens (mergeDaily t (Some e) inc b) = ds_total_tokens e + sumTokens (bd_models b)"
        "ds_estimated_cost_usd (mergeDaily t (Some e) inc b) = ds_estimated_cost_usd e + sumCost (bd_models b)"
  using assms by (simp_all add: mergeDaily_def Let_def selfHealed_def sums_mergeModels)


lemma currentSums_nonneg:
  assumes "nonnegRecords mr"
  shows "0 \<le> fst (currentSums pr mr)" "0 \<le> fst (snd (currentSums pr mr))"
        "0 \<le> snd (snd (currentSums pr mr))"
  using currentTuple_nonneg[OF assms]
  by (auto simp: currentSums_def currentOf_def intro!: sum_list_nonneg)

lemma dailyDelta_keptReset:
  assumes "selfHealed e"
    and "list_all (keptReset pr mr) (allKeys pr mr)"
  shows "rowTotals (dailyDelta (Some p) pr (Some e) today cr cs cf ct cum tc mr) =
           (ds_total_requests e + fst (currentSums pr mr),
            ds_total_tokens e + fst (snd (currentSums pr mr)),
            ds_estimated_cost_usd e + snd (snd (currentSums pr mr)))"
proof -
  let ?gr = "granularDeltas pr mr (coarseDelta (Some p) cr cs cf ct cum tc)"
  have row: "dailyDelta (Some p) pr (Some e) today cr cs cf ct cum tc mr
             = mergeDaily today (Some e) (reconcileGlobal True (fst ?gr) (snd ?gr)) (snd ?gr)"
    by (simp add: dailyDelta_def Let_def)
  note a = mergeDaily_totals_add[OF assms(1) reconcile_hasPrev(1) reconcile_hasPrev(2)
             reconcile_hasPrev(3), where inc1 = "fst ?gr" and b = "snd ?gr" and t = today]
  from granularDeltas_keptReset_sums[OF assms(2), of "coarseDelta (Some p) cr cs cf ct cum tc"]
  show ?thesis
    unfolding row rowTotals_def by (simp add: a prod_eq_iff)
qed

lemma rowS2_healed: "selfHealed rowS2"
  by code_simp

lemma rowS2_totals: "rowTotals rowS2 = (15, 1600, 42 / 625)"
  by code_simp

lemma recordsS3_nonneg: "nonnegRecords recordsS3"
  by code_simp

lemma S3_keys_reset: "list_all (keptReset recordsS2 recordsS3) (allKeys recordsS2 recordsS3)"
  by code_simp

lemma S3_current_sums: "currentSums recordsS2 recordsS3 = (2, 200, 21 / 2500)"
  by code_simp

text \<open>
  A restart below the false-start threshold.  With a previous snapshot, a negative
  coarse delta of requests or of tokens sets every global increment to the current
  snapshot's value, the cost increment to the snapshot's own total cost; a key whose
  \<open>dReq\<close> or \<open>dTok\<close> is negative gets its current-snapshot tuple as delta, and when its
  current cost is at most 10 USD and its current requests or cost are positive, that
  tuple is what the loop folds into the breakdown delta.  In a pass where every visited
  key is new or has dropped, has a current cost of at most 10 USD and (when present)
  positive requests or cost, and where the day's row satisfies the self-healing
  equalities and no current row carries a negative counter, the day's requests, tokens
  and cost grow by exactly the sums of the post-reset current values, which are
  non-negative.
\<close>

lemma restart_below_threshold:
  "(cr < us_total_requests p \<or> ct < us_total_tokens p \<longrightarrow>
      coarseDelta (Some p) cr cs cf ct cum tc =
        \<lparr>incRequests = cr, incSuccess = cs, incFailure = cf, incTokens = ct, incCost = tc\<rparr>) \<and>
   (dReq (currentTuple cur) < dReq (currentTuple prv) \<or>
    dTok (currentTuple cur) < dTok (currentTuple prv) \<longrightarrow>
      keyDelta prv cur = currentTuple cur) \<and>
   ((dReq (currentTuple (map_of cm k)) < dReq (currentTuple (map_of pm k)) \<or>
     dTok (currentTuple (map_of cm k)) < dTok (currentTuple (map_of pm k))) \<and>
    dCost (currentTuple (map_of cm k)) \<le> 10 \<and>
    (0 < dReq (currentTuple (map_of cm k)) \<or> 0 < dCost (currentTuple (map_of cm k))) \<longrightarrow>
      granularStep pm cm (inc, b) k =
        (inc, addToBreakdown b (fst (splitKey k)) (snd (splitKey k))
                (currentTuple (map_of cm k)))) \<and>
   (selfHealed e \<and> nonnegRecords modelRecords \<and>
    list_all (keptReset prevUsageRecords modelRecords) (allKeys prevUsageRecords modelRecords) \<longrightarrow>
      rowTotals (dailyDelta (Some p) prevUsageRecords (Some e) today cr cs cf ct cum tc modelRecords) =
        (ds_total_requests e + fst (currentSums prevUsageRecords modelRecords),
         ds_total_tokens e + fst (snd (currentSums prevUsageRecords modelRecords)),
         ds_estimated_cost_usd e + snd (snd (currentSums prevUsageRecords modelRecords))) \<and>
      0 \<le> fst (currentSums prevUsageRecords modelRecords) \<and>
      0 \<le> fst (snd (currentSums prevUsageRecords modelRecords)) \<and>
      0 \<le> snd (snd (currentSums prevUsageRecords modelRecords)))"
  using coarseDelta_restart[of cr p ct cs cf cum tc] keyDelta_restart[of cur prv]
    granularStep_restart[of cm k pm inc b]
    dailyDelta_keptReset[of e prevUsageRecords modelRecords p today cr cs cf ct cum tc]
    currentSums_nonneg[of modelRecords prevUsageRecords]
  by blast

text \<open>Scenario S3: after S2 (15 requests, 1600 tokens) the upstream
  reports 2 requests and 200 tokens; the day goes from (15, 1600, 0.0672) to
  (17, 1800, 0.0756).\<close>

lemma restart_S3:
  "2 < us_total_requests snapshotS2 \<and>
   coarseDelta (Some snapshotS2) 2 2 0 200 (147 / 1250) (21 / 2500) =
     \<lparr>incRequests = 2, incSuccess = 2, incFailure = 0, incTokens = 200, incCost = 21 / 2500\<rparr> \<and>
   dReq (currentTuple (map_of (buildUsageMap recordsS3) gptKey))
     < dReq (currentTuple (map_of (buildUsageMap recordsS2) gptKey)) \<and>
   keyDelta (map_of (buildUsageMap recordsS2) gptKey) (map_of (buildUsageMap recordsS3) gptKey) =
     currentTuple (map_of (buildUsageMap recordsS3) gptKey) \<and>
   dCost (currentTuple (map_of (buildUsageMap recordsS3) gptKey)) \<le> 10 \<and>
   0 < dReq (currentTuple (map_of (buildUsageMap recordsS3) gptKey)) \<and>
   granularStep (buildUsageMap recordsS2) (buildUsageMap recordsS3)
       (coarseDelta (Some snapshotS2) 2 2 0 200 (147 / 1250) (21 / 2500), emptyBreakdown) gptKey =
     (coarseDelta (Some snapshotS2) 2 2 0 200 (147 / 1250) (21 / 2500),
      addToBreakdown emptyBreakdown (fst (splitKey gptKey)) (snd (splitKey gptKey))
        (currentTuple (map_of (buildUsageMap recordsS3) gptKey))) \<and>
   selfHealed rowS2 \<and> nonnegRecords recordsS3 \<and>
   list_all (keptReset recordsS2 recordsS3) (allKeys recordsS2 recordsS3) \<and>
   rowTotals rowS2 = (15, 1600, 42 / 625) \<and>
   rowTotals rowS3 = (17, 1800, 189 / 2500)"
proof -
  have a: "2 < us_total_requests snapshotS2"
    by (simp add: snapshotS2_def)
  have b: "dReq (currentTuple (map_of (buildUsageMap recordsS3) gptKey))
             < dReq (currentTuple (map_of (buildUsageMap recordsS2) gptKey))"
    by code_simp
  have c: "dCost (currentTuple (map_of (buildUsageMap recordsS3) gptKey)) \<le> 10"
    by code_simp
  have d: "0 < dReq (currentTuple (map_of (buildUsageMap recordsS3) gptKey))"
    by code_simp
  note t = restart_below_threshold[where cr = 2 and p = snapshotS2 and ct = 200 and cs = 2 and cf = 0
      and cum = "147 / 1250" and tc = "21 / 2500"
      and cur = "map_of (buildUsageMap recordsS3) gptKey"
      and prv = "map_of (buildUsageMap recordsS2) gptKey"
      and cm = "buildUsageMap recordsS3" and pm = "buildUsageMap recordsS2" and k = gptKey
      and inc = "coarseDelta (Some snapshotS2) 2 2 0 200 (147 / 1250) (21 / 2500)"
      and b = emptyBreakdown and e = rowS2 and modelRecords = recordsS3
      and prevUsageRecords = recordsS2 and today = "''2025-01-01''"]
  from t a have t1: "coarseDelta (Some snapshotS2) 2 2 0 200 (147 / 1250) (21 / 2500) =
     \<lparr>incRequests = 2, incSuccess = 2, incFailure = 0, incTokens = 200, incCost = 21 / 2500\<rparr>"
    by blast
  from t b have t2:
    "keyDelta (map_of (buildUsageMap recordsS2) gptKey) (map_of (buildUsageMap recordsS3) gptKey) =
       currentTuple (map_of (buildUsageMap recordsS3) gptKey)"
    by blast
  from t b c d have t3:
    "granularStep (buildUsageMap recordsS2) (buildUsageMap recordsS3)
       (coarseDelta (Some snapshotS2) 2 2 0 200 (147 / 1250) (21 / 2500), emptyBreakdown) gptKey =
     (coarseDelta (Some snapshotS2) 2 2 0 200 (147 / 1250) (21 / 2500),
      addToBreakdown emptyBreakdown (fst (splitKey gptKey)) (snd (splitKey gptKey))
        (currentTuple (map_of (buildUsageMap recordsS3) gptKey)))"
    by blast
  from t rowS2_healed recordsS3_nonneg S3_keys_reset have
    "rowTotals (dailyDelta (Some snapshotS2) recordsS2 (Some rowS2) ''2025-01-01''
                  2 2 0 200 (147 / 1250) (21 / 2500) recordsS3) =
        (ds_total_requests rowS2 + fst (currentSums recordsS2 recordsS3),
         ds_total_tokens rowS2 + fst (snd (currentSums recordsS2 recordsS3)),
         ds_estimated_cost_usd rowS2 + snd (snd (currentSums recordsS2 recordsS3)))"
    by blast
  then have t4: "rowTotals rowS3 = (17, 1800, 189 / 2500)"
    using rowS2_totals by (simp add: rowS3_def S3_current_sums rowTotals_def)
  from a t1 b t2 c d t3 rowS2_healed recordsS3_nonneg S3_keys_reset rowS2_totals t4
  show ?thesis by blast
qed

text \<open>
  Claim C4 says that the pass after an upstream counter reset produces per-model and
  daily deltas equal to the post-reset current values.  The loop replaces the delta of a
  key that dropped by its current tuple, so \<open>dCost = cCost\<close>, and then applies the
  false-start test \<open>dCost > 10 && |dCost - cCost| < 0.1\<close> to every key, known or new: a
  restarted key whose post-reset cost exceeds 10 USD is skipped and subtracted from the
  global increments.  After a first report of gpt-4 with 1000 requests, 10 million tokens
  and 450 USD, the upstream restarts and reports 500 requests, 5 million tokens and
  225 USD for gpt-4: the restart is detected, and the day's requests, tokens and cost
  and the cost of gpt-4 in the breakdown stay at (1000, 10000000, 450) and 450, where
  the claim requires (1500, 15000000, 675) and 675.
\<close>

theorem restart_dropped_as_false_start:
  "ud_total_requests reportAfterReset < ud_total_requests reportBig \<and>
   map_option rowTotals (getDailyStats storeBig ''2025-01-01'') = Some (1000, 10000000, 450) \<and>
   modelCostIn (getDailyStats storeBig ''2025-01-01'') ''gpt-4'' = Some 450 \<and>
   reportCost examplePricing reportAfterReset = 225 \<and>
   map_option rowTotals
     (getDailyStats (snd (storeUsageData storeBig examplePricing 301000 ''2025-01-01''
                            (Some reportAfterReset))) ''2025-01-01'') = Some (1000, 10000000, 450) \<and>
   modelCostIn
     (getDailyStats (snd (storeUsageData storeBig examplePricing 301000 ''2025-01-01''
                            (Some reportAfterReset))) ''2025-01-01'') ''gpt-4'' = Some 450"
  by code_simp

section \<open>Window computation of the Reconciler\<close>

lemma msPerDay_pos: "0 < msPerDay"
  by (simp add: msPerDay_def)

lemma setHoursZero_props:
  "setHoursZero t mod msPerDay = 0" "setHoursZero t \<le> t" "t < setHoursZero t + msPerDay"
proof -
  show "setHoursZero t mod msPerDay = 0"
    by (simp add: setHoursZero_def minus_mod_eq_mult_div)
  show "setHoursZero t \<le> t"
    using pos_mod_sign[OF msPerDay_pos, of t] by (simp add: setHoursZero_def)
  show "t < setHoursZero t + msPerDay"
    using pos_mod_bound[OF msPerDay_pos, of t] by (simp add: setHoursZero_def)
qed

lemma setHoursZero_div: "setHoursZero t = (t div msPerDay) * msPerDay"
  by (simp add: setHoursZero_def minus_mod_eq_div_mult)

lemma getDay_addDays_midnight: "getDay (addDays (q * msPerDay) n) = (q + n + 4) mod 7"
proof -
  have "addDays (q * msPerDay) n = (q + n) * msPerDay"
    by (simp add: addDays_def algebra_simps)
  then show ?thesis
    using msPerDay_pos by (simp add: getDay_def)
qed

lemma weekly_start:
  fixes now :: int
  defines "startOfToday \<equiv> setHoursZero now"
  defines "dsm \<equiv> (if getDay startOfToday = 0 then 6 else getDay startOfToday - 1)"
  defines "s \<equiv> addDays startOfToday (- dsm)"
  shows "s mod msPerDay = 0" "getDay s = 1" "s \<le> now" "now < s + 7 * msPerDay"
proof -
  define q where "q = now div msPerDay"
  have sot: "startOfToday = q * msPerDay"
    by (simp add: startOfToday_def setHoursZero_div q_def)
  have g: "getDay startOfToday = (q + 4) mod 7"
    using getDay_addDays_midnight[of q 0] by (simp add: sot addDays_def)
  have g_range: "0 \<le> (q + 4) mod 7" "(q + 4) mod 7 < 7"
    by simp_all
  have dsm_range: "0 \<le> dsm \<and> dsm \<le> 6"
    unfolding dsm_def g using g_range by auto
  have s_eq: "s = (q - dsm) * msPerDay"
    by (simp add: s_def sot addDays_def algebra_simps)
  show "s mod msPerDay = 0" by (simp add: s_eq)
  have "getDay s = (q + (- dsm) + 4) mod 7"
    unfolding s_def sot by (rule getDay_addDays_midnight)
  also have "\<dots> = ((q + 4) - dsm) mod 7"
    by (simp add: algebra_simps)
  also have "\<dots> = ((q + 4) mod 7 - dsm) mod 7"
    by (simp add: mod_diff_left_eq)
  also have "\<dots> = 1"
    unfolding dsm_def g by simp
  finally show "getDay s = 1" .
  have b: "startOfToday \<le> now" "now < startOfToday + msPerDay"
    by (simp_all add: startOfToday_def setHoursZero_props)
  have "s + dsm * msPerDay = startOfToday"
    by (simp add: s_def addDays_def)
  moreover have "0 \<le> dsm * msPerDay" "dsm * msPerDay \<le> 6 * msPerDay"
    using dsm_range msPerDay_pos by (simp_all add: mult_right_mono)
  ultimately show "s \<le> now" "now < s + 7 * msPerDay"
    using b by linarith+
qed


lemma find_map_replace:
  assumes "\<exists>s \<in> set xs. key s = key st"
  shows "find (\<lambda>s. key s = key st) (map (\<lambda>s. if key s = key st then st else s) xs) = Some st"
  using assms by (induction xs) auto

lemma find_append_new:
  assumes "\<not> (\<exists>s \<in> set xs. key s = key st)"
  shows "find (\<lambda>s. key s = key st) (xs @ [st]) = Some st"
  using assms by (induction xs) auto

lemma getRateLimitStatus_upsert:
  "getRateLimitStatus (upsertRateLimitStatus d st) (rs_config_id st) = Some st"
  using find_map_replace[of "rate_limit_status d" rs_config_id st]
        find_append_new[of "rate_limit_status d" rs_config_id st]
  by (simp add: getRateLimitStatus_def upsertRateLimitStatus_def)

lemma processConfig_status:
  assumes "rc_id c \<noteq> 0" "rc_model_pattern c \<noteq> []" "rc_window_minutes c \<noteq> 0"
    and "naturalWindow (rc_reset_strategy c) (rc_window_minutes c) now = Some (s, n)"
  shows "getRateLimitStatus (processConfig d now c) (rc_id c) =
           Some (statusOf now (rc_id c)
                   (uc_total_tokens (calculateUsage d (rc_model_pattern c)
                                       (effectiveWindowStart (rc_reset_anchor_timestamp c) s)))
                   (uc_request_count (calculateUsage d (rc_model_pattern c)
                                        (effectiveWindowStart (rc_reset_anchor_timestamp c) s)))
                   (effectiveWindowStart (rc_reset_anchor_timestamp c) s) (Some n)
                   (rc_token_limit c) (rc_request_limit c))"
proof -
  have ne: "rc_reset_strategy c \<noteq> []"
    using assms(4) by (auto simp: naturalWindow_def)
  let ?st = "statusOf now (rc_id c)
                   (uc_total_tokens (calculateUsage d (rc_model_pattern c)
                                       (effectiveWindowStart (rc_reset_anchor_timestamp c) s)))
                   (uc_request_count (calculateUsage d (rc_model_pattern c)
                                        (effectiveWindowStart (rc_reset_anchor_timestamp c) s)))
                   (effectiveWindowStart (rc_reset_anchor_timestamp c) s) (Some n)
                   (rc_token_limit c) (rc_request_limit c)"
  have id: "rs_config_id ?st = rc_id c"
    by (simp add: statusOf_def Let_def)
  have "processConfig d now c = upsertRateLimitStatus d ?st"
    using assms ne by (simp add: processConfig_def Let_def)
  then show ?thesis
    using getRateLimitStatus_upsert[of d ?st] by (simp add: id)
qed

text \<open>
  Claim C7.  The local time of a pass is the clock plus the configured offset in hours.
  At local time \<open>now\<close>: for \<open>daily\<close> the natural window starts at the most recent local
  midnight (a multiple of a day, not after \<open>now\<close> and less than a day before it) and the
  next reset is 24 hours later; for \<open>weekly\<close> it starts at the most recent Monday 00:00 (on
  a Sunday, six days before that day's midnight) and the next reset is 7 days later; for
  \<open>rolling\<close> it starts \<open>window_minutes\<close> before \<open>now\<close> and the next reset is one minute after
  \<open>now\<close>.  For a complete config without reset anchor these are the \<open>window_start\<close> and
  \<open>next_reset\<close> of the status the pass writes.
\<close>

theorem window_computation:
  "getLocalDateTime utcNow offset = utcNow + offset * 3600000 \<and>
   (\<exists>s. naturalWindow ''daily'' windowMinutes now = Some (s, s + 24 * 60 * msPerMinute) \<and>
        s mod msPerDay = 0 \<and> s \<le> now \<and> now < s + msPerDay) \<and>
   (\<exists>s. naturalWindow ''weekly'' windowMinutes now = Some (s, s + 7 * msPerDay) \<and>
        s mod msPerDay = 0 \<and> getDay s = 1 \<and> s \<le> now \<and> now < s + 7 * msPerDay \<and>
        (getDay now = 0 \<longrightarrow> s = setHoursZero now - 6 * msPerDay)) \<and>
   naturalWindow ''rolling'' windowMinutes now =
     Some (now - windowMinutes * msPerMinute, now + msPerMinute) \<and>
   (rc_id c \<noteq> 0 \<and> rc_model_pattern c \<noteq> [] \<and> rc_window_minutes c \<noteq> 0 \<and>
    rc_reset_anchor_timestamp c = None \<and>
    naturalWindow (rc_reset_strategy c) (rc_window_minutes c) now = Some (s', n')
    \<longrightarrow> (\<exists>st. getRateLimitStatus (processConfig d now c) (rc_id c) = Some st \<and>
              rs_window_start st = s' \<and> rs_next_reset st = Some n'))"
proof (intro conjI)
  show "getLocalDateTime utcNow offset = utcNow + offset * 3600000"
    by (simp add: getLocalDateTime_def)
  show "\<exists>s. naturalWindow ''daily'' windowMinutes now = Some (s, s + 24 * 60 * msPerMinute) \<and>
        s mod msPerDay = 0 \<and> s \<le> now \<and> now < s + msPerDay"
    using setHoursZero_props[of now]
    by (intro exI[of _ "setHoursZero now"])
       (simp add: naturalWindow_def Let_def addDays_def msPerDay_def msPerMinute_def)
  have gd: "getDay (setHoursZero now) = getDay now"
    using msPerDay_pos by (simp add: getDay_def setHoursZero_div)
  show "\<exists>s. naturalWindow ''weekly'' windowMinutes now = Some (s, s + 7 * msPerDay) \<and>
        s mod msPerDay = 0 \<and> getDay s = 1 \<and> s \<le> now \<and> now < s + 7 * msPerDay \<and>
        (getDay now = 0 \<longrightarrow> s = setHoursZero now - 6 * msPerDay)"
    using weekly_start[of now]
    by (intro exI[of _ "addDays (setHoursZero now)
                          (- (if getDay (setHoursZero now) = 0 then 6
                              else getDay (setHoursZero now) - 1))"])
       (simp add: naturalWindow_def Let_def gd addDays_def)
  show "naturalWindow ''rolling'' windowMinutes now =
     Some (now - windowMinutes * msPerMinute, now + msPerMinute)"
    by (simp add: naturalWindow_def addMinutes_def)
  show "rc_id c \<noteq> 0 \<and> rc_model_pattern c \<noteq> [] \<and> rc_window_minutes c \<noteq> 0 \<and>
    rc_reset_anchor_timestamp c = None \<and>
    naturalWindow (rc_reset_strategy c) (rc_window_minutes c) now = Some (s', n')
    \<longrightarrow> (\<exists>st. getRateLimitStatus (processConfig d now c) (rc_id c) = Some st \<and>
              rs_window_start st = s' \<and> rs_next_reset st = Some n')"
  proof
    assume h: "rc_id c \<noteq> 0 \<and> rc_model_pattern c \<noteq> [] \<and> rc_window_minutes c \<noteq> 0 \<and>
      rc_reset_anchor_timestamp c = None \<and>
      naturalWindow (rc_reset_strategy c) (rc_window_minutes c) now = Some (s', n')"
    then have "getRateLimitStatus (processConfig d now c) (rc_id c) =
           Some (statusOf now (rc_id c)
                   (uc_total_tokens (calculateUsage d (rc_model_pattern c)
                                       (effectiveWindowStart (rc_reset_anchor_timestamp c) s')))
                   (uc_request_count (calculateUsage d (rc_model_pattern c)
                                        (effectiveWindowStart (rc_reset_anchor_timestamp c) s')))
                   (effectiveWindowStart (rc_reset_anchor_timestamp c) s') (Some n')
                   (rc_token_limit c) (rc_request_limit c))"
      by (intro processConfig_status) simp_all
    with h show "\<exists>st. getRateLimitStatus (processConfig d now c) (rc_id c) = Some st \<and>
              rs_window_start st = s' \<and> rs_next_reset st = Some n'"
      by (simp add: statusOf_def Let_def effectiveWindowStart_def)
  qed
qed

text \<open>The theorem on Sunday 11 January 1970, 12:30 local time (05:30 UTC, offset 7),
  for the daily config of scenario S6.\<close>

theorem window_computation_witness:
  "getLocalDateTime 883800000 7 = 909000000 \<and>
   getDay 909000000 = 0 \<and>
   naturalWindow ''daily'' 1440 909000000 = Some (864000000, 950400000) \<and>
   naturalWindow ''weekly'' 1440 909000000 = Some (345600000, 950400000) \<and>
   getDay 345600000 = 1 \<and>
   naturalWindow ''rolling'' 300 909000000 = Some (891000000, 909060000) \<and>
   rc_id dailyConfig \<noteq> 0 \<and> rc_model_pattern dailyConfig \<noteq> [] \<and>
   rc_window_minutes dailyConfig \<noteq> 0 \<and> rc_reset_anchor_timestamp dailyConfig = None \<and>
   map_option rs_window_start
     (getRateLimitStatus (processConfig storeS6 909000000 dailyConfig) 5) = Some 864000000 \<and>
   map_option rs_next_reset
     (getRateLimitStatus (processConfig storeS6 909000000 dailyConfig) 5)
     = Some (Some 950400000)"
proof -
  have e1: "getLocalDateTime 883800000 7 = 909000000" by code_simp
  have e2: "getDay 909000000 = 0" by code_simp
  have e3: "naturalWindow ''daily'' 1440 909000000 = Some (864000000, 950400000)" by code_simp
  have e4: "naturalWindow ''weekly'' 1440 909000000 = Some (345600000, 950400000)" by code_simp
  have e5: "getDay 345600000 = 1" by code_simp
  have e6: "naturalWindow ''rolling'' 300 909000000 = Some (891000000, 909060000)" by code_simp
  have c: "rc_id dailyConfig \<noteq> 0 \<and> rc_model_pattern dailyConfig \<noteq> [] \<and>
           rc_window_minutes dailyConfig \<noteq> 0 \<and> rc_reset_anchor_timestamp dailyConfig = None \<and>
           rc_id dailyConfig = 5 \<and>
           naturalWindow (rc_reset_strategy dailyConfig) (rc_window_minutes dailyConfig) 909000000
             = Some (864000000, 950400000)"
    using e3 by (simp add: dailyConfig_def)
  note t = window_computation[where c = dailyConfig and now = 909000000 and s' = 864000000
         and n' = 950400000 and d = storeS6 and utcNow = 0 and offset = 0
         and windowMinutes = 0]
  from t c have "\<exists>st. getRateLimitStatus (processConfig storeS6 909000000 dailyConfig)
                        (rc_id dailyConfig) = Some st \<and>
                      rs_window_start st = 864000000 \<and> rs_next_reset st = Some 950400000"
    by blast
  then obtain st where
    "getRateLimitStatus (processConfig storeS6 909000000 dailyConfig) 5 = Some st"
    "rs_window_start st = 864000000" "rs_next_reset st = Some 950400000"
    using c by auto
  then show ?thesis
    using e1 e2 e3 e4 e5 e6 c by simp
qed


section \<open>The reset route\<close>

lemma find_map_keep:
  assumes "\<And>x. P (f x) = P x"
  shows "find P (map f xs) = map_option f (find P xs)"
  by (induction xs) (simp_all add: assms)

lemma resetLimit_sets_anchor:
  assumes "getRateLimitConfig d configId = Some c0"
  shows "rr_success (fst (resetLimit noFaults d a configId))"
    and "getRateLimitConfig (snd (resetLimit noFaults d a configId)) configId =
           Some (c0\<lparr>rc_reset_anchor_timestamp := Some (Date a)\<rparr>)"
    and "model_usage (snd (resetLimit noFaults d a configId)) = model_usage d"
proof -
  let ?f = "\<lambda>c. if rc_id c = configId then c\<lparr>rc_reset_anchor_timestamp := Some (Date a)\<rparr> else c"
  have keep: "\<And>x. (rc_id (?f x) = configId) = (rc_id x = configId)" by simp
  have id: "rc_id c0 = configId"
    using assms by (auto simp: getRateLimitConfig_def dest: find_Some_iff[THEN iffD1])
  show "rr_success (fst (resetLimit noFaults d a configId))"
    using assms by (simp add: resetLimit_def noFaults_def Let_def)
  show "getRateLimitConfig (snd (resetLimit noFaults d a configId)) configId =
           Some (c0\<lparr>rc_reset_anchor_timestamp := Some (Date a)\<rparr>)"
    using assms find_map_keep[of "\<lambda>c. rc_id c = configId" ?f "rate_limit_configs d", OF keep] id
    by (simp add: resetLimit_def noFaults_def Let_def getRateLimitConfig_def
        updateRateLimitConfigAnchor_def upsertRateLimitStatus_def)
  show "model_usage (snd (resetLimit noFaults d a configId)) = model_usage d"
    using assms by (simp add: resetLimit_def noFaults_def Let_def
        updateRateLimitConfigAnchor_def upsertRateLimitStatus_def)
qed

text \<open>The responses of the route: 400 when \<open>parseInt\<close> yields \<open>NaN\<close>, 404 when the id
  names no config, 500 when a store call of \<open>resetLimit\<close> throws, and 200 with
  \<open>new_status.percentage = 100\<close>, a status row with 0 used and 100 percent, and the anchor set
  to the local time of the reset, when the config exists and no store call throws.\<close>

lemma str_includes_append:
  "str_includes ys t \<Longrightarrow> str_includes (xs @ ys) t"
proof (induction xs)
  case Nil
  then show ?case by simp
next
  case (Cons x xs)
  then show ?case by simp
qed

lemma not_found_message:
  "str_includes (''Configuration with id '' @ showInt i @ '' not found.'') ''not found''"
proof -
  have "str_includes '' not found.'' ''not found''" by code_simp
  then have "str_includes (showInt i @ '' not found.'') ''not found''"
    by (rule str_includes_append)
  then show ?thesis
    by (rule str_includes_append)
qed

lemma internal_error_message:
  "\<not> str_includes (rr_message internalError) ''not found''"
  by code_simp

lemma resetRoute_400:
  assumes "parseInt config_id = None"
  shows "resetRoute faults d now config_id =
           (\<lparr>resp_status = 400, resp_body = ErrorBody ''Invalid config_id''\<rparr>, d)"
  using assms by (simp add: resetRoute_def)

lemma resetRoute_404:
  assumes "parseInt config_id = Some i" "\<not> getConfigFails faults" "getRateLimitConfig d i = None"
  shows "resp_status (fst (resetRoute faults d now config_id)) = 404"
    and "snd (resetRoute faults d now config_id) = d"
  using assms not_found_message[of i]
  by (simp_all add: resetRoute_def resetLimit_def Let_def)

lemma internalError_failure: "\<not> rr_success internalError"
  by (simp add: internalError_def)

lemma resetLimit_fault:
  assumes "getConfigFails faults \<or>
         (getRateLimitConfig d i \<noteq> None \<and> (upsertStatusFails faults \<or> updateAnchorFails faults))"
  shows "fst (resetLimit faults d now i) = internalError"
  using assms by (auto simp: resetLimit_def Let_def)

lemma resetRoute_500:
  assumes "parseInt config_id = Some i"
    and "getConfigFails faults \<or>
         (getRateLimitConfig d i \<noteq> None \<and> (upsertStatusFails faults \<or> updateAnchorFails faults))"
  shows "resp_status (fst (resetRoute faults d now config_id)) = 500"
  using assms(1) resetLimit_fault[OF assms(2), of now] internal_error_message internalError_failure
  by (simp add: resetRoute_def Let_def)

lemma resetRoute_200:
  assumes "parseInt config_id = Some i" "getRateLimitConfig d i = Some c"
  shows "\<exists>msg label.
           fst (resetRoute noFaults d now config_id) =
             \<lparr>resp_status = 200, resp_body = ResetBody msg (Some (100, label))\<rparr>"
    and "\<exists>st. getRateLimitStatus (snd (resetRoute noFaults d now config_id)) i = Some st \<and>
              rs_used_tokens st = 0 \<and> rs_used_requests st = 0 \<and> rs_percentage st = 100"
    and "getRateLimitConfig (snd (resetRoute noFaults d now config_id)) i =
           Some (c\<lparr>rc_reset_anchor_timestamp := Some (Date now)\<rparr>)"
proof -
  have ok: "rr_success (fst (resetLimit noFaults d now i))"
    by (rule resetLimit_sets_anchor(1)[OF assms(2)])
  then have snd_eq: "snd (resetRoute noFaults d now config_id) = snd (resetLimit noFaults d now i)"
    using assms(1) by (simp add: resetRoute_def Let_def)
  show "\<exists>msg label.
           fst (resetRoute noFaults d now config_id) =
             \<lparr>resp_status = 200, resp_body = ResetBody msg (Some (100, label))\<rparr>"
    using assms by (simp add: resetRoute_def resetLimit_def noFaults_def Let_def)
  show "getRateLimitConfig (snd (resetRoute noFaults d now config_id)) i =
           Some (c\<lparr>rc_reset_anchor_timestamp := Some (Date now)\<rparr>)"
    unfolding snd_eq by (rule resetLimit_sets_anchor(2)[OF assms(2)])
  let ?st = "\<lparr>rs_config_id = i,
               rs_remaining_tokens = (case rc_token_limit c of Some l \<Rightarrow> l | None \<Rightarrow> 0),
               rs_remaining_requests = (case rc_request_limit c of Some l \<Rightarrow> l | None \<Rightarrow> 0),
               rs_used_tokens = 0, rs_used_requests = 0, rs_percentage = 100,
               rs_status_label =
                 (if (case rc_token_limit c of Some l \<Rightarrow> l | None \<Rightarrow> 0) > 0
                  then ''0/'' @ toLocaleString (case rc_token_limit c of Some l \<Rightarrow> l | None \<Rightarrow> 0)
                         @ '' Tokens''
                  else if (case rc_request_limit c of Some l \<Rightarrow> l | None \<Rightarrow> 0) > 0
                  then ''0/'' @ toLocaleString (case rc_request_limit c of Some l \<Rightarrow> l | None \<Rightarrow> 0)
                         @ '' Requests''
                  else ''Unlimited''),
               rs_window_start = now, rs_last_updated = now, rs_next_reset = None\<rparr>"
  have "snd (resetLimit noFaults d now i) =
          updateRateLimitConfigAnchor (upsertRateLimitStatus d ?st) i now"
    using assms(2) by (simp add: resetLimit_def noFaults_def Let_def)
  then have "getRateLimitStatus (snd (resetRoute noFaults d now config_id)) i = Some ?st"
    using getRateLimitStatus_upsert[of d ?st]
    by (simp add: snd_eq getRateLimitStatus_def updateRateLimitConfigAnchor_def)
  then show "\<exists>st. getRateLimitStatus (snd (resetRoute noFaults d now config_id)) i = Some st \<and>
              rs_used_tokens st = 0 \<and> rs_used_requests st = 0 \<and> rs_percentage st = 100"
    by simp
qed

text \<open>
  Claim C9 says that the route answers 400 when the id is not an integer.  The handler
  guards with \<open>isNaN(parseInt(req.params.config_id))\<close>, and \<open>parseInt\<close> converts the longest
  numeric prefix: for the id \<open>5abc\<close>, which is not an integer, it yields 5, the handler
  answers 200 and resets config 5 (its anchor is set).  An id without a numeric prefix,
  such as \<open>abc\<close>, is answered with 400.
\<close>

theorem reset_route_non_integer_id:
  "parseInt ''5abc'' = Some 5 \<and>
   resp_status (fst (resetRoute noFaults storeS6 901800000 ''5abc'')) = 200 \<and>
   getRateLimitConfig (snd (resetRoute noFaults storeS6 901800000 ''5abc'')) 5 = Some anchoredConfig \<and>
   resp_status (fst (resetRoute noFaults storeS6 901800000 ''abc'')) = 400"
  by code_simp

section \<open>Texts and doubles\<close>

lemma str_less_irrefl [simp]: "\<not> str_less s s"
  by (induction s) auto


lemma toISOString_nonempty [simp]: "toISOString t \<noteq> []"
  by (simp add: toISOString_def Let_def)

lemma roundEven_of_int [simp]: "roundEven (real_of_int k) = k"
  by (simp add: roundEven_def)

lemma expoUp_nonneg: "0 \<le> expoUp n x"
  by (induction n arbitrary: x) auto

lemma expoUp_upper: "x < 2 ^ Suc k \<Longrightarrow> expoUp n x \<le> int k"
proof (induction n arbitrary: x k)
  case 0
  then show ?case by simp
next
  case (Suc n)
  show ?case
  proof (cases "x < 2")
    case True
    then show ?thesis by simp
  next
    case False
    with Suc.prems obtain k' where k: "k = Suc k'"
      by (cases k) auto
    have "x / 2 < 2 ^ Suc k'"
      using Suc.prems k by simp
    from Suc.IH[OF this] show ?thesis
      using False k by simp
  qed
qed

lemma double_zero [simp]: "double 0 = 0"
  by (simp add: double_def)

lemma double_of_int:
  assumes "\<bar>n\<bar> < 2 ^ 53"
  shows "double (real_of_int n) = real_of_int n"
proof (cases "n = 0")
  case True
  then show ?thesis by simp
next
  case False
  define x where "x = \<bar>real_of_int n\<bar>"
  have x1: "1 \<le> x"
  proof -
    have "1 \<le> \<bar>n\<bar>" using False by simp
    then have "real_of_int 1 \<le> real_of_int \<bar>n\<bar>" by (simp only: of_int_le_iff)
    then show ?thesis by (simp add: x_def)
  qed
  have "real_of_int \<bar>n\<bar> < real_of_int (2 ^ 53)"
    using assms by (simp only: of_int_less_iff)
  then have xu: "x < 2 ^ Suc 52"
    by (simp add: x_def)
  define e where "e = expoUp 1024 x"
  have e: "0 \<le> e" "e \<le> 52"
    using expoUp_nonneg[of 1024 x] expoUp_upper[OF xu, of 1024] by (simp_all add: e_def)
  define m where "m = nat (52 - e)"
  have q: "max (exponent x) (- 1022) - 52 = - int m"
    using e x1 by (simp add: exponent_def e_def[symmetric] m_def)
  have p: "pow2 (- int m) = 1 / 2 ^ m"
    by (cases "m = 0") (simp_all add: pow2_def)
  have "x / pow2 (- int m) = real_of_int (\<bar>n\<bar> * 2 ^ m)"
    by (simp add: p x_def)
  then have r: "roundEven (x / pow2 (- int m)) = \<bar>n\<bar> * 2 ^ m"
    by (simp only: roundEven_of_int)
  have nz: "real_of_int n \<noteq> 0" using False by simp
  have "double (real_of_int n) =
          sgn (real_of_int n) * real_of_int (roundEven (x / pow2 (- int m))) * pow2 (- int m)"
    using nz by (simp add: double_def Let_def x_def[symmetric] q)
  also have "\<dots> = sgn (real_of_int n) * real_of_int (\<bar>n\<bar> * 2 ^ m) * (1 / 2 ^ m)"
    by (subst r) (simp only: p)
  also have "\<dots> = sgn (real_of_int n) * \<bar>real_of_int n\<bar>"
    by simp
  also have "\<dots> = real_of_int n"
    by (simp add: sgn_if)
  finally show ?thesis .
qed

lemma double_small [simp]: "double 1 = 1" "double 100 = 100"
  using double_of_int[of 1] double_of_int[of 100] by simp_all


section \<open>Rows behind the timestamps of a usage calculation\<close>







section \<open>Usage that has not changed\<close>






lemma round_of_int_real [simp]: "round (real_of_int x) = x"
  by (simp add: round_def)






section \<open>Gap interpolation of the Reconciler\<close>

text \<open>With the latest row not before the window start, a baseline row and a first inner
  row whose times are more than 1800 seconds apart, \<open>calculateUsage\<close> returns the delta of
  the latest snapshot against the interpolated baseline map, whose entries are those of
  \<open>interpolateRecord\<close>.\<close>

lemma calculateUsage_gap:
  assumes "latestTimeOf d p = Some lt" "\<not> dateBefore (parseDate lt) since"
    "baselineTimeOf d p since = Some bt" "firstInnerTimeOf d p since = Some ft"
    "gapSecondsOf (parseDate bt) (parseDate ft) = Some g" "1800 < g"
  shows "calculateUsage d p since =
     calculateDeltaFromSnapshots d p lt bt
       (Some (interpolateSnapshotMap (buildSnapshotMap d p bt) (buildSnapshotMap d p ft)
                (gapRatio since (parseDate bt) g)))"
  using assms by (simp add: calculateUsage_def GAP_THRESHOLD_SECONDS_def)

text \<open>The interpolation is computed in doubles: with a ratio of 1740 s / 12000 s and
  tokens going from 0 to 100 the product is 14.499999999999998, which rounds to 14.\<close>

lemma interpolation_in_doubles:
  "interpolateRecord [(''gpt-4'', \<lparr>uc_total_tokens = 0, uc_request_count = 0\<rparr>)]
     [(''gpt-4'', \<lparr>uc_total_tokens = 100, uc_request_count = 0\<rparr>)]
     (gapRatio 1740000 (Date 0) 12000) ''gpt-4''
   = \<lparr>uc_total_tokens = 14, uc_request_count = 0\<rparr>"
  by code_simp

text \<open>Scenario S5 around midnight.  The baseline row of 19:55 and the first inner row of
  00:05 are 15000 s apart, the window starts 14400 s after the baseline, the
  interpolated baseline of gpt-4 is 10096 tokens and 101 requests, and the usage is 104
  tokens.\<close>

lemma S5_midnight_rows:
  "map mu_created_at (model_usage storeS5midnight) =
     [''1970-01-01 19:55:00'', ''1970-01-02 00:05:00'', ''1970-01-02 04:55:00'']"
  "toISOString 86100000 = ''1970-01-01T23:55:00.000Z''"
  "baselineTimeOf storeS5midnight ''gpt'' 86100000 = Some ''1970-01-01 19:55:00''"
  "firstInnerTimeOf storeS5midnight ''gpt'' 86100000 = Some ''1970-01-02 00:05:00''"
  "gapSecondsOf (parseDate ''1970-01-01 19:55:00'') (parseDate ''1970-01-02 00:05:00'') = Some 15000"
  by code_simp+

lemma S5_midnight_usage:
  "interpolateSnapshotMap (buildSnapshotMap storeS5midnight ''gpt'' ''1970-01-01 19:55:00'')
     (buildSnapshotMap storeS5midnight ''gpt'' ''1970-01-02 00:05:00'')
     (gapRatio 86100000 (parseDate ''1970-01-01 19:55:00'') 15000)
   = [(''gpt-4'', \<lparr>uc_total_tokens = 10096, uc_request_count = 101\<rparr>)]"
  "calculateUsage storeS5midnight ''gpt'' 86100000 = \<lparr>uc_total_tokens = 104, uc_request_count = 1\<rparr>"
  "usedTokensOf (syncLimits storeS5midnight 104100000 0) 1 = Some 104"
  by code_simp+

lemma S5_rows:
  "map mu_created_at (model_usage storeS5) =
     [''1970-01-01 12:40:00'', ''1970-01-01 16:50:00'', ''1970-01-01 21:40:00'']"
  "map mu_total_tokens (model_usage storeS5) = [10000, 10100, 10200]"
  by code_simp+

lemma S5_window:
  "naturalWindow ''rolling'' 300 (getLocalDateTime 78000000 0) = Some (60000000, 78060000)"
  "toISOString 60000000 = ''1970-01-01T16:40:00.000Z''"
  by code_simp+

lemma S5_lookups:
  "latestTimeOf storeS5 ''gpt'' = Some ''1970-01-01 21:40:00''"
  "firstInnerTimeOf storeS5 ''gpt'' 60000000 = None"
  "baselineTimeOf storeS5 ''gpt'' 60000000 = Some ''1970-01-01 21:40:00''"
  by code_simp+

lemma S5_usage:
  "calculateUsage storeS5 ''gpt'' 60000000 = \<lparr>uc_total_tokens = 0, uc_request_count = 0\<rparr>"
  "usedTokensOf (syncLimits storeS5 78000000 0) 1 = Some 0"
  by code_simp+

lemma S5_offset:
  "naturalWindow ''rolling'' 300 (getLocalDateTime 78000000 7) = Some (85200000, 103260000)"
  "map mu_created_at (model_usage storeS5offset) = map mu_created_at (model_usage storeS5)"
  "usedTokensOf (syncLimits storeS5offset 78000000 7) 1 = Some 0"
  by code_simp+

lemma S5_literal:
  "map mu_created_at (model_usage storeS5literal) =
     [''1970-01-01 12:40:00'', ''1970-01-01 16:40:00'', ''1970-01-01 16:50:00'']"
  "map mu_total_tokens (model_usage storeS5literal) = [10000, 10200, 10100]"
  "usedTokensOf (syncLimits storeS5literal 78000000 0) 1 = Some 0"
  by code_simp+

text \<open>
  Claim C5 says that with a baseline row before the window start and a first inner row
  more than 30 minutes after it the baseline of the window delta is interpolated, and
  that scenario S5 yields \<open>used_tokens = 104\<close>.  \<open>calculateUsage\<close> looks the two rows up by
  comparing the column \<open>created_at\<close>, which holds the text \<open>YYYY-MM-DD HH:MM:SS\<close>, with
  \<open>since.toISOString()\<close>, the text \<open>YYYY-MM-DDTHH:MM:SS.sssZ\<close>: on the date of the window
  start every row sorts before the window start, whatever its time, because a space sorts
  before \<open>T\<close>.  In S5 on 1 January 1970, with \<open>T\<close> = 16:40 UTC, the pass at 21:40 and an
  offset of 0, the row of 16:50 is not found as first inner row, the latest row of 21:40
  is taken as the baseline, and the usage is 0, not 104.  With the default offset of 7
  hours the window starts at 23:40, after the latest row, and the usage is 0.  With the
  rows as the text of S5 places them (10200 tokens at \<open>T\<close>, 10100 at \<open>T + 10\<close> min) the usage
  is 0 as well.
\<close>

theorem gap_interpolation_same_day:
  "map mu_created_at (model_usage storeS5) =
     [''1970-01-01 12:40:00'', ''1970-01-01 16:50:00'', ''1970-01-01 21:40:00''] \<and>
   map mu_total_tokens (model_usage storeS5) = [10000, 10100, 10200] \<and>
   naturalWindow ''rolling'' 300 (getLocalDateTime 78000000 0) = Some (60000000, 78060000) \<and>
   toISOString 60000000 = ''1970-01-01T16:40:00.000Z'' \<and>
   latestTimeOf storeS5 ''gpt'' = Some ''1970-01-01 21:40:00'' \<and>
   firstInnerTimeOf storeS5 ''gpt'' 60000000 = None \<and>
   baselineTimeOf storeS5 ''gpt'' 60000000 = Some ''1970-01-01 21:40:00'' \<and>
   calculateUsage storeS5 ''gpt'' 60000000 = \<lparr>uc_total_tokens = 0, uc_request_count = 0\<rparr> \<and>
   usedTokensOf (syncLimits storeS5 78000000 0) 1 = Some 0 \<and>
   naturalWindow ''rolling'' 300 (getLocalDateTime 78000000 7) = Some (85200000, 103260000) \<and>
   usedTokensOf (syncLimits storeS5offset 78000000 7) 1 = Some 0 \<and>
   map mu_total_tokens (model_usage storeS5literal) = [10000, 10200, 10100] \<and>
   usedTokensOf (syncLimits storeS5literal 78000000 0) 1 = Some 0"
  using S5_rows S5_window S5_lookups S5_usage S5_offset S5_literal
  by simp

section \<open>Reset anchors\<close>











section \<open>Passes in flight\<close>

lemma inFlight_triggers: "inFlight (foldl schedStep s (replicate n Trigger)) = inFlight s + n"
  by (induction n arbitrary: s) simp_all

lemma ticks_run:
  "intervalSet s \<Longrightarrow>
     inFlight (foldl schedStep s (replicate n Tick)) = inFlight s + n \<and>
     nextTick (foldl schedStep s (replicate n Tick)) = nextTick s + int n * intervalMs s \<and>
     intervalSet (foldl schedStep s (replicate n Tick)) \<and>
     intervalMs (foldl schedStep s (replicate n Tick)) = intervalMs s"
  by (induction n arbitrary: s) (simp_all add: algebra_simps)

lemma started:
  "runEvents initialSched [Start 0] =
     \<lparr>intervalMs = 300000, intervalSet = True, nextTick = 300000, inFlight = 1\<rparr>"
  by (simp add: runEvents_def initialSched_def newScheduler_def)

text \<open>
  Claim C8, as amended.  Neither the scheduler nor the trigger route looks at the passes
  in flight.  A request to the trigger route is answered with 202 and starts a pass,
  whatever the number of passes in flight, so \<open>n\<close> requests in a row leave \<open>n\<close> more passes
  in flight.  While the interval timer is set, every firing of the timer starts a pass,
  so \<open>n\<close> firings in a row leave \<open>n\<close> more passes in flight, and the timer fires next one
  interval after its previous firing: the settling of a pass does not move it.
\<close>

theorem passes_not_coalesced:
  "resp_status (fst (triggerRoute s)) = 202 \<and>
   inFlight (snd (triggerRoute s)) = inFlight s + 1 \<and>
   inFlight (runEvents s (replicate n Trigger)) = inFlight s + n \<and>
   nextTick (schedStep s Settle) = nextTick s \<and>
   (intervalSet s \<longrightarrow>
      inFlight (runEvents s (replicate n Tick)) = inFlight s + n \<and>
      nextTick (runEvents s (replicate n Tick)) = nextTick s + int n * intervalMs s)"
  using ticks_run[of s n]
  by (simp add: triggerRoute_def runEvents_def inFlight_triggers)

text \<open>The theorem after \<open>start()\<close> at time 0 with the default interval of 300 seconds, when
  the timer is set and the first pass is in flight.\<close>

theorem passes_not_coalesced_witness:
  "intervalSet (runEvents initialSched [Start 0]) \<and>
   inFlight (runEvents initialSched [Start 0]) = 1 \<and>
   nextTick (runEvents initialSched [Start 0]) = 300000 \<and>
   resp_status (fst (triggerRoute (runEvents initialSched [Start 0]))) = 202 \<and>
   inFlight (snd (triggerRoute (runEvents initialSched [Start 0]))) = 2 \<and>
   inFlight (runEvents (runEvents initialSched [Start 0]) (replicate 3 Trigger)) = 4 \<and>
   nextTick (schedStep (runEvents initialSched [Start 0]) Settle) = 300000 \<and>
   inFlight (runEvents (runEvents initialSched [Start 0]) (replicate 3 Tick)) = 4 \<and>
   nextTick (runEvents (runEvents initialSched [Start 0]) (replicate 3 Tick)) = 1200000"
  using passes_not_coalesced [of "runEvents initialSched [Start 0]" 3]
  by (simp add: started)

text \<open>
  Claim C8 as stated fails.  With the first pass of \<open>start()\<close> still in flight, a request to
  the trigger route is answered with 202 and starts a second pass, and so does the firing
  of the timer at 300 s.  And when that first pass has settled (at whatever time before
  300 s), the timer still fires at 300 s and then at 600 s, measured from \<open>start()\<close> and not
  from the end of the pass.
\<close>

theorem passes_not_coalesced_counterexample:
  "inFlight (runEvents initialSched [Start 0]) = 1 \<and>
   resp_status (fst (triggerRoute (runEvents initialSched [Start 0]))) = 202 \<and>
   inFlight (snd (triggerRoute (runEvents initialSched [Start 0]))) = 2 \<and>
   inFlight (runEvents initialSched [Start 0, Trigger]) = 2 \<and>
   inFlight (runEvents initialSched [Start 0, Tick]) = 2 \<and>
   nextTick (runEvents initialSched [Start 0, Settle]) = 300000 \<and>
   nextTick (runEvents initialSched [Start 0, Settle, Tick]) = 600000"
  by (simp add: runEvents_def initialSched_def newScheduler_def triggerRoute_def)

end
